(* ===== verification/Prelude.thy ===== *)
theory Prelude
  imports
    Main
    "HOL-Library.Char_ord"
    "HOL-Library.List_Lexorder"
    "HOL-Library.AList"
    "HOL-Library.Sublist"
begin

text \<open>
  Shared vocabulary of the development: the error values of the script, the
  result type, Python dictionaries as association lists in iteration order, and
  the \<^verbatim>\<open>str\<close> methods that \<^verbatim>\<open>scripts/mailpile-admin.py\<close> calls
  (\<^verbatim>\<open>endswith\<close>, \<^verbatim>\<open>split\<close>, \<^verbatim>\<open>strip\<close>, \<^verbatim>\<open>splitlines\<close>,
  \<^verbatim>\<open>join\<close>, \<^verbatim>\<open>replace\<close>, \<^verbatim>\<open>int\<close>, \<^verbatim>\<open>'%s' % n\<close>).
  Python 2 strings are byte strings, so \<^typ>\<open>string\<close> (a list of 8-bit
  characters) is their model; they are compared byte by byte, which is the
  lexicographic order of \<open>List_Lexorder\<close> over \<open>Char_ord\<close>.
\<close>

section \<open>Collections of facts\<close>

named_theorems py_defs \<open>definitions of the Python primitives, for unfolding\<close>
named_theorems mp_defs \<open>definitions of the script's own operations, for unfolding\<close>
named_theorems mp_intros \<open>introduction rules of the well-formedness predicates\<close>

section \<open>Errors and results\<close>

text \<open>
  Every \<^verbatim>\<open>raise\<close>, failed \<^verbatim>\<open>assert\<close> and \<^verbatim>\<open>sys.exit\<close> of the script is a
  value. \<open>FormatError\<close> stands for the \<^verbatim>\<open>ValueError\<close>/\<^verbatim>\<open>TypeError\<close> of a
  \<^verbatim>\<open>%\<close> directive outside the fragment the script uses.
\<close>

datatype py_error =
    AssertionError
  | KeyError string
  | TypeError
  | ValueError
  | OSError string
  | UnicodeDecodeError
  | FormatError
  | IndexError
  | SystemExit nat

type_synonym 'a result = "py_error + 'a"

definition rbind :: "'a result \<Rightarrow> ('a \<Rightarrow> 'b result) \<Rightarrow> 'b result" where
  "rbind r f = (case r of Inl e \<Rightarrow> Inl e | Inr x \<Rightarrow> f x)"

definition rmap :: "('a \<Rightarrow> 'b) \<Rightarrow> 'a result \<Rightarrow> 'b result" where
  "rmap f r = (case r of Inl e \<Rightarrow> Inl e | Inr x \<Rightarrow> Inr (f x))"

fun rmapM :: "('a \<Rightarrow> 'b result) \<Rightarrow> 'a list \<Rightarrow> 'b list result" where
  "rmapM f [] = Inr []"
| "rmapM f (x # xs) =
     (case f x of
        Inl e \<Rightarrow> Inl e
      | Inr y \<Rightarrow> (case rmapM f xs of Inl e \<Rightarrow> Inl e | Inr ys \<Rightarrow> Inr (y # ys)))"

text \<open>A \<^verbatim>\<open>for\<close> loop over a list whose body may raise: the first error ends it.\<close>

fun rfold :: "('a \<Rightarrow> 'b \<Rightarrow> 'b result) \<Rightarrow> 'a list \<Rightarrow> 'b \<Rightarrow> 'b result" where
  "rfold f [] s = Inr s"
| "rfold f (x # xs) s = (case f x s of Inl e \<Rightarrow> Inl e | Inr s' \<Rightarrow> rfold f xs s')"

section \<open>Dictionaries\<close>

text \<open>
  A \<^verbatim>\<open>dict\<close> is an association list with distinct keys, in iteration
  order. \<^verbatim>\<open>d[k] = v\<close> is \<^const>\<open>AList.update\<close> (the value is replaced
  in place, a new key goes to the end), \<^verbatim>\<open>k in d\<close> and \<^verbatim>\<open>d[k]\<close> read
  \<^const>\<open>map_of\<close>. Python 2 iterates a dictionary in hash order, which the
  language leaves unspecified; the list order stands for it, and what is
  proved for every list holds for every order.
\<close>

type_synonym ('k, 'v) pydict = "('k \<times> 'v) list"

definition dict_ok :: "('k, 'v) pydict \<Rightarrow> bool" where
  "dict_ok d \<longleftrightarrow> distinct (map fst d)"

definition getitem :: "(string, 'v) pydict \<Rightarrow> string \<Rightarrow> 'v result" where
  "getitem d k = (case map_of d k of None \<Rightarrow> Inl (KeyError k) | Some v \<Rightarrow> Inr v)"

text \<open>\<^verbatim>\<open>min\<close> of a list that is not empty; \<^verbatim>\<open>x or y\<close> on \<^verbatim>\<open>None\<close> and strings.\<close>

fun py_min :: "nat list \<Rightarrow> nat" where
  "py_min [] = 0"
| "py_min (x # xs) = fold min xs x"

definition truthy :: "string option \<Rightarrow> bool" where
  "truthy v \<longleftrightarrow> (case v of None \<Rightarrow> False | Some s \<Rightarrow> s \<noteq> [])"

definition py_or :: "string option \<Rightarrow> string \<Rightarrow> string" where
  "py_or v d = (case v of None \<Rightarrow> d | Some s \<Rightarrow> if s = [] then d else s)"

section \<open>Characters\<close>

definition NL :: char where
  "NL = CHR 0x0A"

definition is_space :: "char \<Rightarrow> bool" where
  "is_space c \<longleftrightarrow> c \<in> set [CHR '' '', CHR 0x09, CHR 0x0A, CHR 0x0D, CHR 0x0C, CHR 0x0B]"

definition is_digit :: "char \<Rightarrow> bool" where
  "is_digit c \<longleftrightarrow> CHR ''0'' \<le> c \<and> c \<le> CHR ''9''"

definition is_lower :: "char \<Rightarrow> bool" where
  "is_lower c \<longleftrightarrow> CHR ''a'' \<le> c \<and> c \<le> CHR ''z''"

definition is_ascii :: "char \<Rightarrow> bool" where
  "is_ascii c \<longleftrightarrow> of_char c < (128 :: nat)"

lemmas char_class_defs [py_defs] = NL_def is_space_def is_digit_def is_lower_def is_ascii_def

section \<open>String methods\<close>

definition endswith :: "string \<Rightarrow> string \<Rightarrow> bool" where
  "endswith s t \<longleftrightarrow> length t \<le> length s \<and> drop (length s - length t) s = t"

fun py_split :: "char \<Rightarrow> string \<Rightarrow> string list" where
  "py_split c [] = [[]]"
| "py_split c (x # xs) =
     (if x = c then [] # py_split c xs
      else (case py_split c xs of w # ws \<Rightarrow> (x # w) # ws | [] \<Rightarrow> [[x]]))"

fun py_join :: "string \<Rightarrow> string list \<Rightarrow> string" where
  "py_join sep [] = []"
| "py_join sep [x] = x"
| "py_join sep (x # y # ys) = x @ sep @ py_join sep (y # ys)"

definition py_strip :: "string \<Rightarrow> string" where
  "py_strip s = rev (dropWhile is_space (rev (dropWhile is_space s)))"

text \<open>
  \<^verbatim>\<open>str.splitlines()\<close> of Python 2 breaks at \<^verbatim>\<open>\n\<close>, \<^verbatim>\<open>\r\<close> and
  \<^verbatim>\<open>\r\n\<close> and drops the breaks; a final break opens no empty line.
  \<open>file_lines\<close> is the iteration over a file object: it breaks after
  \<^verbatim>\<open>\n\<close> only and keeps it.
\<close>

fun splitlines_acc :: "bool \<Rightarrow> string \<Rightarrow> string \<Rightarrow> string list" where
  "splitlines_acc after_cr acc [] = (if acc = [] then [] else [rev acc])"
| "splitlines_acc after_cr acc (c # cs) =
     (if after_cr \<and> c = CHR 0x0A then splitlines_acc False acc cs
      else if c = CHR 0x0A then rev acc # splitlines_acc False [] cs
      else if c = CHR 0x0D then rev acc # splitlines_acc True [] cs
      else splitlines_acc False (c # acc) cs)"

definition splitlines :: "string \<Rightarrow> string list" where
  "splitlines s = splitlines_acc False [] s"

fun file_lines_acc :: "string \<Rightarrow> string \<Rightarrow> string list" where
  "file_lines_acc acc [] = (if acc = [] then [] else [rev acc])"
| "file_lines_acc acc (c # cs) =
     (if c = CHR 0x0A then rev (c # acc) # file_lines_acc [] cs
      else file_lines_acc (c # acc) cs)"

definition file_lines :: "string \<Rightarrow> string list" where
  "file_lines s = file_lines_acc [] s"

text \<open>
  \<^verbatim>\<open>s.replace(old, new)\<close> for a non-empty \<open>old\<close>: occurrences are replaced
  from the left and the scan goes on behind each one, so what a replacement
  produces is not scanned again.
\<close>

function py_replace :: "string \<Rightarrow> string \<Rightarrow> string \<Rightarrow> string" where
  "py_replace old new s =
     (if old = [] \<or> s = [] then s
      else if prefix old s then new @ py_replace old new (drop (length old) s)
      else hd s # py_replace old new (tl s))"
  by pat_completeness auto
termination
  by (relation "measure (\<lambda>(old, new, s). length s)") (auto simp: prefix_def)

declare py_replace.simps [simp del]

section \<open>Decimal numbers\<close>

text \<open>
  \<^verbatim>\<open>'%s' % n\<close> for a non-negative integer, and \<^verbatim>\<open>int(s)\<close>, which skips
  white space around the digits and raises \<^verbatim>\<open>ValueError\<close> on anything
  else. Ports are never negative, so the sign is not modelled: a signed
  literal is refused.
\<close>

definition digit_char :: "nat \<Rightarrow> char" where
  "digit_char d = ''0123456789'' ! d"

definition digit_val :: "char \<Rightarrow> nat" where
  "digit_val c = of_char c - 48"

fun str_of_nat :: "nat \<Rightarrow> string" where
  "str_of_nat n =
     (if n < 10 then [digit_char n] else str_of_nat (n div 10) @ [digit_char (n mod 10)])"

declare str_of_nat.simps [simp del]

definition nat_of_digits :: "string \<Rightarrow> nat" where
  "nat_of_digits s = foldl (\<lambda>n c. 10 * n + digit_val c) 0 s"

definition py_int :: "string \<Rightarrow> nat result" where
  "py_int s =
     (let t = py_strip s
      in if t \<noteq> [] \<and> list_all is_digit t then Inr (nat_of_digits t) else Inl ValueError)"

section \<open>Facts about results\<close>

lemma rbind_simps [simp]:
  "rbind (Inl e) f = Inl e"
  "rbind (Inr x) f = f x"
  by (simp_all add: rbind_def)

lemma rmap_simps [simp]:
  "rmap f (Inl e) = Inl e"
  "rmap f (Inr x) = Inr (f x)"
  by (simp_all add: rmap_def)

lemma rbind_eq_Inr_iff: "rbind r f = Inr y \<longleftrightarrow> (\<exists>x. r = Inr x \<and> f x = Inr y)"
  by (cases r) simp_all

lemma rmapM_Inr_length: "rmapM f xs = Inr ys \<Longrightarrow> length ys = length xs"
  by (induction xs arbitrary: ys) (auto split: sum.splits)

lemma rmapM_Inr_iff:
  "rmapM f xs = Inr ys \<longleftrightarrow> list_all2 (\<lambda>x y. f x = Inr y) xs ys"
proof (induction xs arbitrary: ys)
  case Nil
  then show ?case by auto
next
  case (Cons x xs)
  show ?case
  proof (cases ys)
    case Nil
    then show ?thesis by (simp split: sum.splits)
  next
    case (Cons y ys')
    with Cons.IH [of ys'] show ?thesis
      by (auto split: sum.splits)
  qed
qed

lemma rmapM_total: "(\<And>x. x \<in> set xs \<Longrightarrow> \<exists>y. f x = Inr y) \<Longrightarrow> \<exists>ys. rmapM f xs = Inr ys"
proof (induction xs)
  case Nil
  then show ?case by simp
next
  case (Cons x xs)
  then obtain y ys where "f x = Inr y" "rmapM f xs = Inr ys"
    by (metis list.set_intros(1,2))
  then show ?case by simp
qed

lemma rfold_append:
  "rfold f (xs @ ys) s = (case rfold f xs s of Inl e \<Rightarrow> Inl e | Inr s' \<Rightarrow> rfold f ys s')"
  by (induction xs arbitrary: s) (auto split: sum.splits)

text \<open>An invariant of the loop body is an invariant of the loop.\<close>

lemma rfold_invariant:
  assumes "rfold f xs s = Inr t" and "P s"
    and "\<And>x a b. x \<in> set xs \<Longrightarrow> P a \<Longrightarrow> f x a = Inr b \<Longrightarrow> P b"
  shows "P t"
  using assms
proof (induction xs arbitrary: s)
  case Nil
  then show ?case by simp
next
  case (Cons x xs)
  from Cons.prems(1) obtain s' where s': "f x s = Inr s'" "rfold f xs s' = Inr t"
    by (auto split: sum.splits)
  from Cons.prems(2) s'(1) have "P s'"
    by (rule Cons.prems(3) [of x, simplified])
  with s'(2) show ?case
    by (rule Cons.IH) (auto intro: Cons.prems(3))
qed

lemma rfold_total:
  "(\<And>x a. x \<in> set xs \<Longrightarrow> \<exists>b. f x a = Inr b) \<Longrightarrow> \<exists>t. rfold f xs s = Inr t"
proof (induction xs arbitrary: s)
  case Nil
  then show ?case by simp
next
  case (Cons x xs)
  then obtain s' where "f x s = Inr s'"
    by (meson list.set_intros(1))
  with Cons show ?case
    by simp
qed

section \<open>Facts about dictionaries\<close>

lemma getitem_simps [simp]:
  "map_of d k = Some v \<Longrightarrow> getitem d k = Inr v"
  "map_of d k = None \<Longrightarrow> getitem d k = Inl (KeyError k)"
  by (simp_all add: getitem_def)

lemma fold_min_Min: "fold min ys y = Min (insert y (set ys))" for y :: nat
proof (induction ys arbitrary: y)
  case Nil
  then show ?case by simp
next
  case (Cons z ys)
  have "Min (insert (min z y) (set ys)) = Min (insert y (insert z (set ys)))"
    by (cases "set ys = {}") (simp_all add: Min_insert min.assoc min.commute min.left_commute)
  with Cons show ?case by simp
qed

lemma py_min_Min: "xs \<noteq> [] \<Longrightarrow> py_min xs = Min (set xs)"
  by (cases xs) (simp_all add: fold_min_Min)

lemma py_min_mem: "xs \<noteq> [] \<Longrightarrow> py_min xs \<in> set xs"
  using Min_in [of "set xs"] by (simp add: py_min_Min)

lemma py_min_le: "x \<in> set xs \<Longrightarrow> py_min xs \<le> x"
proof -
  assume x: "x \<in> set xs"
  then have "xs \<noteq> []" by auto
  with x show ?thesis by (simp add: py_min_Min)
qed

lemma truthy_simps [simp]:
  "\<not> truthy None"
  "truthy (Some s) \<longleftrightarrow> s \<noteq> []"
  by (simp_all add: truthy_def)

lemma py_or_simps [simp]:
  "py_or None d = d"
  "py_or (Some []) d = d"
  "s \<noteq> [] \<Longrightarrow> py_or (Some s) d = s"
  by (simp_all add: py_or_def)

lemma py_or_truthy: "truthy v \<Longrightarrow> v = Some (py_or v d)"
  by (cases v) (simp_all add: truthy_def py_or_def)

lemma dict_ok_Nil [simp, mp_intros]: "dict_ok []"
  by (simp add: dict_ok_def)

lemma dict_ok_update [simp, mp_intros]: "dict_ok d \<Longrightarrow> dict_ok (AList.update k v d)"
  by (simp add: dict_ok_def distinct_update)

lemma dict_ok_Cons [simp]: "dict_ok ((k, v) # d) \<longleftrightarrow> k \<notin> fst ` set d \<and> dict_ok d"
  by (simp add: dict_ok_def)

lemma keys_update: "fst ` set (AList.update k v d) = insert k (fst ` set d)"
  by (induction d) auto

lemma update_absent: "k \<notin> fst ` set d \<Longrightarrow> AList.update k v d = d @ [(k, v)]"
  by (induction d) auto

lemma map_of_eq_Some_mem: "dict_ok d \<Longrightarrow> map_of d k = Some v \<longleftrightarrow> (k, v) \<in> set d"
  by (simp add: dict_ok_def)

section \<open>Facts about the string methods\<close>

lemma endswith_iff_suffix: "endswith s t \<longleftrightarrow> suffix t s"
proof
  assume "endswith s t"
  then have "s = take (length s - length t) s @ t"
    by (metis append_take_drop_id endswith_def)
  then show "suffix t s"
    by (metis suffixI)
next
  assume "suffix t s"
  then obtain u where "s = u @ t"
    by (auto simp: suffix_def)
  then show "endswith s t"
    by (simp add: endswith_def)
qed

lemma endswith_append [simp]: "endswith (u @ t) t"
  by (simp add: endswith_def)

lemma py_split_nonempty [simp]: "py_split c s \<noteq> []"
  by (induction s) (auto split: list.splits)

lemma length_py_split: "length (py_split c s) = Suc (count_list s c)"
  by (induction s) (auto split: list.splits)

lemma py_join_py_split: "py_join [c] (py_split c s) = s"
proof (induction s)
  case Nil
  then show ?case by simp
next
  case (Cons x s)
  obtain w ws where ws: "py_split c s = w # ws"
    by (cases "py_split c s") simp_all
  with Cons show ?case
    by (cases ws) auto
qed

lemma py_split_no_sep: "c \<notin> set s \<Longrightarrow> py_split c s = [s]"
  by (induction s) auto

lemma py_split_append_sep:
  "c \<notin> set s \<Longrightarrow> py_split c (s @ c # t) = s # py_split c t"
  by (induction s) auto

lemma py_split_parts_no_sep: "w \<in> set (py_split c s) \<Longrightarrow> c \<notin> set w"
proof (induction s arbitrary: w)
  case Nil
  then show ?case by simp
next
  case (Cons x s)
  obtain v vs where vs: "py_split c s = v # vs"
    by (cases "py_split c s") simp_all
  with Cons.prems Cons.IH [of v] Cons.IH [of w] show ?case
    by (auto split: if_splits)
qed

lemma py_strip_no_space:
  "s \<noteq> [] \<Longrightarrow> \<not> is_space (hd s) \<Longrightarrow> \<not> is_space (last s) \<Longrightarrow> py_strip s = s"
proof -
  assume s: "s \<noteq> []" and h: "\<not> is_space (hd s)" and l: "\<not> is_space (last s)"
  from s h have "dropWhile is_space s = s"
    by (cases s) simp_all
  moreover from s l have "dropWhile is_space (rev s) = rev s"
    by (cases "rev s") (simp_all add: last_rev [symmetric] hd_rev)
  ultimately show ?thesis
    by (simp add: py_strip_def)
qed

lemma file_lines_acc_line:
  "CHR 0x0A \<notin> set l \<Longrightarrow>
   file_lines_acc acc (l @ CHR 0x0A # rest) = (rev acc @ l @ [CHR 0x0A]) # file_lines_acc [] rest"
  by (induction l arbitrary: acc) auto

lemma file_lines_line:
  "CHR 0x0A \<notin> set l \<Longrightarrow> file_lines (l @ CHR 0x0A # rest) = (l @ [CHR 0x0A]) # file_lines rest"
  by (simp add: file_lines_def file_lines_acc_line)

lemma file_lines_Nil [simp]: "file_lines [] = []"
  by (simp add: file_lines_def)

lemma splitlines_acc_line:
  "CHR 0x0A \<notin> set l \<Longrightarrow> CHR 0x0D \<notin> set l \<Longrightarrow>
   splitlines_acc False acc (l @ CHR 0x0A # rest) = (rev acc @ l) # splitlines_acc False [] rest"
  by (induction l arbitrary: acc) auto

lemma splitlines_replicate:
  "CHR 0x0A \<notin> set l \<Longrightarrow> CHR 0x0D \<notin> set l \<Longrightarrow>
   splitlines (concat (replicate n (l @ [CHR 0x0A]))) = replicate n l"
  unfolding splitlines_def by (induction n) (simp_all add: splitlines_acc_line)

lemma map_filter_replicate:
  "f x = Some y \<Longrightarrow> List.map_filter f (replicate n x) = replicate n y"
  by (induction n) (simp_all add: List.map_filter_def)

lemma py_replace_Nil [simp]: "py_replace old new [] = []"
  by (simp add: py_replace.simps)

lemma py_replace_absent:
  "\<forall>t. suffix t s \<longrightarrow> \<not> prefix old t \<or> t = [] \<Longrightarrow> py_replace old new s = s"
proof (induction s)
  case Nil
  then show ?case by simp
next
  case (Cons x s)
  have "\<not> prefix old (x # s)" if "old \<noteq> []"
    using Cons.prems by (metis list.distinct(1) suffix_order.order_refl)
  moreover have "py_replace old new s = s"
    using Cons by (simp add: suffix_Cons)
  ultimately show ?case
    by (subst py_replace.simps) auto
qed

section \<open>Facts about decimal numbers\<close>

lemma less_10_cases:
  "d < 10 \<Longrightarrow> d = 0 \<or> d = 1 \<or> d = 2 \<or> d = 3 \<or> d = 4 \<or> d = 5 \<or> d = 6 \<or> d = 7 \<or> d = 8 \<or> d = (9 :: nat)"
  by arith

lemma is_digit_digit_char [simp]: "d < 10 \<Longrightarrow> is_digit (digit_char d)"
  by (drule less_10_cases) (auto simp: is_digit_def digit_char_def less_eq_char_def)

lemma digit_val_digit_char [simp]: "d < 10 \<Longrightarrow> digit_val (digit_char d) = d"
  by (drule less_10_cases) (auto simp: digit_val_def digit_char_def)

lemma not_space_digit: "is_digit c \<Longrightarrow> \<not> is_space c"
  by (auto simp: is_digit_def is_space_def less_eq_char_def)

text \<open>The equations that evaluate \<open>str_of_nat\<close> at a literal, and only there.\<close>

lemma str_of_nat_numeral [simp]:
  "str_of_nat (numeral k) =
     (if numeral k < (10 :: nat) then [digit_char (numeral k)]
      else str_of_nat (numeral k div 10) @ [digit_char (numeral k mod 10)])"
  by (rule str_of_nat.simps)

lemma str_of_nat_0 [simp]: "str_of_nat 0 = ''0''"
  by (simp add: str_of_nat.simps digit_char_def)

lemma str_of_nat_1 [simp]: "str_of_nat (Suc 0) = ''1''"
  by (simp add: str_of_nat.simps digit_char_def)

lemma str_of_nat_nonempty [simp]: "str_of_nat n \<noteq> []"
  by (subst str_of_nat.simps) simp

lemma str_of_nat_digits: "list_all is_digit (str_of_nat n)"
proof (induction n rule: str_of_nat.induct)
  case (1 n)
  then show ?case
    by (subst str_of_nat.simps) simp
qed

lemma nat_of_digits_snoc [simp]: "nat_of_digits (s @ [c]) = 10 * nat_of_digits s + digit_val c"
  by (simp add: nat_of_digits_def)

lemma nat_of_digits_str_of_nat: "nat_of_digits (str_of_nat n) = n"
proof (induction n rule: str_of_nat.induct)
  case (1 n)
  show ?case
  proof (cases "n < 10")
    case True
    then show ?thesis
      by (subst str_of_nat.simps) (simp add: nat_of_digits_def)
  next
    case False
    with 1 show ?thesis
      by (subst str_of_nat.simps) simp
  qed
qed

lemma py_strip_digits: "s \<noteq> [] \<Longrightarrow> list_all is_digit s \<Longrightarrow> py_strip s = s"
  by (rule py_strip_no_space) (auto simp: list_all_iff not_space_digit)

lemma py_int_digits: "s \<noteq> [] \<Longrightarrow> list_all is_digit s \<Longrightarrow> py_int s = Inr (nat_of_digits s)"
  by (simp add: py_int_def py_strip_digits)

lemma py_int_str_of_nat: "py_int (str_of_nat n) = Inr n"
  by (simp add: py_int_digits str_of_nat_digits nat_of_digits_str_of_nat)

end
