(* ===== verification/Regex.thy ===== *)
theory Regex
  imports Prelude
begin

text \<open>
  The fragment of Python's \<^verbatim>\<open>re\<close> module that the script's five patterns
  are written in, and \<^verbatim>\<open>re.match\<close> over it: literals, character classes,
  greedy and lazy repetition of a class, sequence, ordered alternative,
  numbered groups, \<^verbatim>\<open>^\<close> and \<^verbatim>\<open>$\<close>. Every repetition in the script is
  over a single class (\<^verbatim>\<open>\S+\<close>, \<^verbatim>\<open>.*?\<close>, \<^verbatim>\<open>[^a-z]+\<close>), so \<open>Rep\<close>
  takes a class and not a pattern.

  The matcher is a backtracking matcher in continuation-passing style, as
  \<^verbatim>\<open>sre\<close> is: a pattern is run at a position of the subject with the
  groups seen so far, and hands position, rest and groups to its
  continuation; where the continuation fails the pattern tries its next
  choice, the longer run first when greedy and the shorter when lazy.
  \<open>matches\<close> is the declarative reading of a pattern (which prefixes of
  the rest it may consume); \<open>re_run\<close> is proved sound and complete for it.
\<close>

section \<open>Patterns\<close>

datatype greed = Greedy | Lazy

datatype regex =
    Bol
  | Eol
  | Lit string
  | Cls "char \<Rightarrow> bool"
  | Rep "char \<Rightarrow> bool" nat greed
  | Seq regex regex
  | Alt regex regex
  | Grp nat regex

type_synonym groups = "nat \<rightharpoonup> string"
type_synonym 'a cont = "nat \<Rightarrow> string \<Rightarrow> groups \<Rightarrow> 'a option"

text \<open>The classes of the script's patterns. \<^verbatim>\<open>.\<close> is any character but a line feed.\<close>

definition cls_any :: "char \<Rightarrow> bool" where
  "cls_any c \<longleftrightarrow> c \<noteq> CHR 0x0A"

definition cls_nonspace :: "char \<Rightarrow> bool" where
  "cls_nonspace c \<longleftrightarrow> \<not> is_space c"

definition cls_not :: "char \<Rightarrow> char \<Rightarrow> bool" where
  "cls_not x c \<longleftrightarrow> c \<noteq> x"

definition cls_nonlower :: "char \<Rightarrow> bool" where
  "cls_nonlower c \<longleftrightarrow> \<not> is_lower c"

definition cls_lower_digit :: "char \<Rightarrow> bool" where
  "cls_lower_digit c \<longleftrightarrow> is_lower c \<or> is_digit c"

definition cls_lower_digit_dot :: "char \<Rightarrow> bool" where
  "cls_lower_digit_dot c \<longleftrightarrow> is_lower c \<or> is_digit c \<or> c = CHR ''.''"

lemmas cls_defs [py_defs] =
  cls_any_def cls_nonspace_def cls_not_def cls_nonlower_def cls_lower_digit_def
  cls_lower_digit_dot_def

abbreviation Plus :: "(char \<Rightarrow> bool) \<Rightarrow> regex" where
  "Plus P \<equiv> Rep P 1 Greedy"

abbreviation Star :: "(char \<Rightarrow> bool) \<Rightarrow> regex" where
  "Star P \<equiv> Rep P 0 Greedy"

abbreviation StarLazy :: "(char \<Rightarrow> bool) \<Rightarrow> regex" where
  "StarLazy P \<equiv> Rep P 0 Lazy"

fun seqs :: "regex list \<Rightarrow> regex" where
  "seqs [] = Lit []"
| "seqs [r] = r"
| "seqs (r # rs) = Seq r (seqs rs)"

section \<open>The matcher\<close>

text \<open>
  \<open>rep_greedy P mn n p s g k\<close>: \<open>n\<close> characters of the class are consumed
  already; take one more if there is one and come back to this point if the
  rest of the match fails behind it. \<open>rep_lazy\<close> tries this point first.
\<close>

fun rep_greedy :: "(char \<Rightarrow> bool) \<Rightarrow> nat \<Rightarrow> nat \<Rightarrow> nat \<Rightarrow> string \<Rightarrow> groups \<Rightarrow> 'a cont \<Rightarrow> 'a option" where
  "rep_greedy P mn n p [] g k = (if mn \<le> n then k p [] g else None)"
| "rep_greedy P mn n p (c # cs) g k =
     (if P c then
        (case rep_greedy P mn (Suc n) (Suc p) cs g k of
           Some r \<Rightarrow> Some r
         | None \<Rightarrow> if mn \<le> n then k p (c # cs) g else None)
      else if mn \<le> n then k p (c # cs) g else None)"

fun rep_lazy :: "(char \<Rightarrow> bool) \<Rightarrow> nat \<Rightarrow> nat \<Rightarrow> nat \<Rightarrow> string \<Rightarrow> groups \<Rightarrow> 'a cont \<Rightarrow> 'a option" where
  "rep_lazy P mn n p [] g k = (if mn \<le> n then k p [] g else None)"
| "rep_lazy P mn n p (c # cs) g k =
     (case (if mn \<le> n then k p (c # cs) g else None) of
        Some r \<Rightarrow> Some r
      | None \<Rightarrow> if P c then rep_lazy P mn (Suc n) (Suc p) cs g k else None)"

fun re_run :: "regex \<Rightarrow> nat \<Rightarrow> string \<Rightarrow> groups \<Rightarrow> 'a cont \<Rightarrow> 'a option" where
  "re_run Bol p s g k = (if p = 0 then k p s g else None)"
| "re_run Eol p s g k = (if s = [] \<or> s = [CHR 0x0A] then k p s g else None)"
| "re_run (Lit l) p s g k =
     (if prefix l s then k (p + length l) (drop (length l) s) g else None)"
| "re_run (Cls P) p s g k =
     (case s of [] \<Rightarrow> None | c # cs \<Rightarrow> if P c then k (Suc p) cs g else None)"
| "re_run (Rep P mn Greedy) p s g k = rep_greedy P mn 0 p s g k"
| "re_run (Rep P mn Lazy) p s g k = rep_lazy P mn 0 p s g k"
| "re_run (Seq a b) p s g k = re_run a p s g (\<lambda>p' s' g'. re_run b p' s' g' k)"
| "re_run (Alt a b) p s g k =
     (case re_run a p s g k of Some r \<Rightarrow> Some r | None \<Rightarrow> re_run b p s g k)"
| "re_run (Grp i a) p s g k =
     re_run a p s g (\<lambda>p' s' g'. k p' s' (g'(i \<mapsto> take (p' - p) s)))"

definition re_match :: "regex \<Rightarrow> string \<Rightarrow> groups option" where
  "re_match r s = re_run r 0 s Map.empty (\<lambda>p s' g. Some g)"

text \<open>\<^verbatim>\<open>m.group(i)\<close>, for a group that took part in the match.\<close>

definition group :: "groups \<Rightarrow> nat \<Rightarrow> string" where
  "group g i = (case g i of None \<Rightarrow> [] | Some w \<Rightarrow> w)"

section \<open>What a pattern may consume\<close>

inductive matches :: "regex \<Rightarrow> nat \<Rightarrow> string \<Rightarrow> string \<Rightarrow> bool" where
  m_bol: "matches Bol 0 s []"
| m_eol: "s = [] \<or> s = [CHR 0x0A] \<Longrightarrow> matches Eol p s []"
| m_lit: "prefix l s \<Longrightarrow> matches (Lit l) p s l"
| m_cls: "P c \<Longrightarrow> matches (Cls P) p (c # cs) [c]"
| m_rep: "prefix w s \<Longrightarrow> list_all P w \<Longrightarrow> mn \<le> length w \<Longrightarrow> matches (Rep P mn gr) p s w"
| m_seq: "matches a p s u \<Longrightarrow> matches b (p + length u) (drop (length u) s) v \<Longrightarrow>
     matches (Seq a b) p s (u @ v)"
| m_alt1: "matches a p s w \<Longrightarrow> matches (Alt a b) p s w"
| m_alt2: "matches b p s w \<Longrightarrow> matches (Alt a b) p s w"
| m_grp: "matches a p s w \<Longrightarrow> matches (Grp i a) p s w"

inductive_cases matches_BolE [elim!]: "matches Bol p s w"
inductive_cases matches_EolE [elim!]: "matches Eol p s w"
inductive_cases matches_LitE [elim!]: "matches (Lit l) p s w"
inductive_cases matches_ClsE [elim!]: "matches (Cls P) p s w"
inductive_cases matches_RepE [elim!]: "matches (Rep P mn gr) p s w"
inductive_cases matches_SeqE [elim!]: "matches (Seq a b) p s w"
inductive_cases matches_AltE [elim!]: "matches (Alt a b) p s w"
inductive_cases matches_GrpE [elim!]: "matches (Grp i a) p s w"

text \<open>The groups that take part in every match of a pattern.\<close>

fun grp_ids :: "regex \<Rightarrow> nat set" where
  "grp_ids (Seq a b) = grp_ids a \<union> grp_ids b"
| "grp_ids (Alt a b) = grp_ids a \<inter> grp_ids b"
| "grp_ids (Grp i a) = insert i (grp_ids a)"
| "grp_ids _ = {}"

section \<open>Repetition\<close>

lemma matches_prefix: "matches r p s w \<Longrightarrow> prefix w s"
  by (induction rule: matches.induct) (auto simp: prefix_def)

text \<open>
  A successful repetition called its continuation behind a run of the class,
  at least \<open>mn\<close> long counting the \<open>n\<close> characters taken before.
\<close>

lemma rep_greedy_SomeD:
  "rep_greedy P mn n p s g k = Some x \<Longrightarrow>
   \<exists>w. prefix w s \<and> list_all P w \<and> mn \<le> n + length w \<and>
       k (p + length w) (drop (length w) s) g = Some x"
proof (induction s arbitrary: n p)
  case Nil
  then show ?case
    by (auto split: if_splits)
next
  case (Cons c cs)
  show ?case
  proof (cases "P c \<and> rep_greedy P mn (Suc n) (Suc p) cs g k = Some x")
    case True
    with Cons.IH [of "Suc n" "Suc p"] obtain w where
      "prefix w cs" "list_all P w" "mn \<le> Suc n + length w"
      "k (Suc p + length w) (drop (length w) cs) g = Some x"
      by blast
    with True show ?thesis
      by (intro exI [of _ "c # w"]) simp
  next
    case False
    with Cons.prems have "mn \<le> n \<and> k p (c # cs) g = Some x"
      by (auto split: if_splits option.splits)
    then show ?thesis
      by (intro exI [of _ "[]"]) simp
  qed
qed

lemma rep_lazy_SomeD:
  "rep_lazy P mn n p s g k = Some x \<Longrightarrow>
   \<exists>w. prefix w s \<and> list_all P w \<and> mn \<le> n + length w \<and>
       k (p + length w) (drop (length w) s) g = Some x"
proof (induction s arbitrary: n p)
  case Nil
  then show ?case
    by (auto split: if_splits)
next
  case (Cons c cs)
  show ?case
  proof (cases "mn \<le> n \<and> k p (c # cs) g = Some x")
    case True
    then show ?thesis
      by (intro exI [of _ "[]"]) simp
  next
    case False
    with Cons.prems have "P c \<and> rep_lazy P mn (Suc n) (Suc p) cs g k = Some x"
      by (auto split: if_splits option.splits)
    with Cons.IH [of "Suc n" "Suc p"] obtain w where
      "prefix w cs" "list_all P w" "mn \<le> Suc n + length w"
      "k (Suc p + length w) (drop (length w) cs) g = Some x"
      by blast
    with \<open>P c \<and> _\<close> show ?thesis
      by (intro exI [of _ "c # w"]) simp
  qed
qed

text \<open>
  Conversely, a repetition succeeds wherever the continuation succeeds behind
  some admissible run.
\<close>

lemma rep_greedy_complete:
  "list_all P w \<Longrightarrow> mn \<le> n + length w \<Longrightarrow> k (p + length w) t g \<noteq> None \<Longrightarrow>
   rep_greedy P mn n p (w @ t) g k \<noteq> None"
proof (induction w arbitrary: n p)
  case Nil
  then show ?case
    by (cases t) (auto split: option.splits)
next
  case (Cons c w)
  from Cons.IH [of "Suc n" "Suc p"] Cons.prems
  have "rep_greedy P mn (Suc n) (Suc p) (w @ t) g k \<noteq> None"
    by simp
  with Cons.prems show ?case
    by (auto split: option.splits)
qed

lemma rep_lazy_complete:
  "list_all P w \<Longrightarrow> mn \<le> n + length w \<Longrightarrow> k (p + length w) t g \<noteq> None \<Longrightarrow>
   rep_lazy P mn n p (w @ t) g k \<noteq> None"
proof (induction w arbitrary: n p)
  case Nil
  then show ?case
    by (cases t) (auto split: option.splits)
next
  case (Cons c w)
  from Cons.IH [of "Suc n" "Suc p"] Cons.prems
  have "rep_lazy P mn (Suc n) (Suc p) (w @ t) g k \<noteq> None"
    by simp
  with Cons.prems show ?case
    by (auto split: option.splits)
qed

text \<open>
  The rule that computes a greedy repetition on a subject with unknown parts:
  the whole run of the class is taken when the rest of the match succeeds
  behind it.
\<close>

lemma rep_greedy_max:
  "list_all P w \<Longrightarrow> t = [] \<or> \<not> P (hd t) \<Longrightarrow> mn \<le> n + length w \<Longrightarrow>
   k (p + length w) t g = Some x \<Longrightarrow> rep_greedy P mn n p (w @ t) g k = Some x"
proof (induction w arbitrary: n p)
  case Nil
  then show ?case
    by (cases t) auto
next
  case (Cons c w)
  from Cons.IH [of "Suc n" "Suc p"] Cons.prems
  have "rep_greedy P mn (Suc n) (Suc p) (w @ t) g k = Some x"
    by simp
  with Cons.prems show ?case
    by simp
qed

text \<open>
  A greedy repetition gives characters back one by one: with the rest of the
  match failing behind the last \<open>length v\<close> characters of the run, the result
  is that of the run without them.
\<close>

lemma rep_greedy_backtrack:
  "list_all P v \<Longrightarrow> t = [] \<or> \<not> P (hd t) \<Longrightarrow>
   (\<And>i. i < length v \<Longrightarrow> k (p + Suc i) (drop (Suc i) v @ t) g = None) \<Longrightarrow>
   rep_greedy P mn n p (v @ t) g k = (if mn \<le> n then k p (v @ t) g else None)"
proof (induction v arbitrary: n p)
  case Nil
  then show ?case
    by (cases t) auto
next
  case (Cons c v)
  have "rep_greedy P mn (Suc n) (Suc p) (v @ t) g k =
        (if mn \<le> Suc n then k (Suc p) (v @ t) g else None)"
  proof (rule Cons.IH)
    show "list_all P v" "t = [] \<or> \<not> P (hd t)"
      using Cons.prems by simp_all
    show "k (Suc p + Suc i) (drop (Suc i) v @ t) g = None" if "i < length v" for i
      using Cons.prems(3) [of "Suc i"] that by simp
  qed
  moreover have "k (Suc p) (v @ t) g = None"
    using Cons.prems(3) [of 0] by simp
  ultimately show ?case
    using Cons.prems(1) by simp
qed

text \<open>A lazy repetition stops at the first point where the rest of the match succeeds.\<close>

lemma rep_lazy_first:
  "list_all P w \<Longrightarrow> mn \<le> n + length w \<Longrightarrow> k (p + length w) t g = Some x \<Longrightarrow>
   (\<And>i. i < length w \<Longrightarrow> mn \<le> n + i \<Longrightarrow> k (p + i) (drop i w @ t) g = None) \<Longrightarrow>
   rep_lazy P mn n p (w @ t) g k = Some x"
proof (induction w arbitrary: n p)
  case Nil
  then show ?case
    by (cases t) auto
next
  case (Cons c w)
  have "rep_lazy P mn (Suc n) (Suc p) (w @ t) g k = Some x"
  proof (rule Cons.IH)
    show "list_all P w" "mn \<le> Suc n + length w" "k (Suc p + length w) t g = Some x"
      using Cons.prems by simp_all
    show "k (Suc p + i) (drop i w @ t) g = None" if "i < length w" "mn \<le> Suc n + i" for i
      using Cons.prems(4) [of "Suc i"] that by simp
  qed
  moreover have "mn \<le> n \<Longrightarrow> k p (c # w @ t) g = None"
    using Cons.prems(4) [of 0] by simp
  ultimately show ?case
    using Cons.prems(1) by simp
qed

section \<open>Soundness and completeness of the matcher\<close>

text \<open>
  A successful run called its continuation behind a word the pattern may
  consume; the groups it found are added to those it was given, and every
  group of \<open>grp_ids\<close> is among them.
\<close>

abbreviation (input) re_ran ::
  "regex \<Rightarrow> nat \<Rightarrow> string \<Rightarrow> groups \<Rightarrow> 'a cont \<Rightarrow> 'a \<Rightarrow> bool" where
  "re_ran r p s g k x \<equiv>
     \<exists>w g'. matches r p s w \<and> k (p + length w) (drop (length w) s) g' = Some x \<and>
            dom g \<union> grp_ids r \<subseteq> dom g'"

lemma re_run_Cls_SomeD: "re_run (Cls P) p s g k = Some x \<Longrightarrow> re_ran (Cls P) p s g k x"
proof -
  assume "re_run (Cls P) p s g k = Some x"
  then obtain c cs where "s = c # cs" "P c" "k (Suc p) cs g = Some x"
    by (auto split: list.splits if_splits)
  then show ?thesis
    by (auto intro!: exI [of _ "[c]"] exI [of _ g] matches.intros)
qed

lemma re_run_Rep_SomeD:
  assumes "re_run (Rep P mn gr) p s g k = Some x"
  shows "re_ran (Rep P mn gr) p s g k x"
proof -
  from assms have "\<exists>w. prefix w s \<and> list_all P w \<and> mn \<le> 0 + length w \<and>
      k (p + length w) (drop (length w) s) g = Some x"
    using rep_greedy_SomeD [of P mn 0 p s g k x] rep_lazy_SomeD [of P mn 0 p s g k x]
    by (cases gr) simp_all
  then show ?thesis
    by (auto intro!: matches.intros)
qed

lemma re_run_Seq_SomeD:
  assumes a: "\<And>p s g (k :: 'a cont) x. re_run a p s g k = Some x \<Longrightarrow> re_ran a p s g k x"
    and b: "\<And>p s g (k :: 'a cont) x. re_run b p s g k = Some x \<Longrightarrow> re_ran b p s g k x"
    and run: "re_run (Seq a b) p s g (k :: 'a cont) = Some x"
  shows "re_ran (Seq a b) p s g k x"
proof -
  from run obtain u g1 where u: "matches a p s u" "dom g \<union> grp_ids a \<subseteq> dom g1"
    and rb: "re_run b (p + length u) (drop (length u) s) g1 k = Some x"
    using a [of p s g "\<lambda>p' s' g'. re_run b p' s' g' k"] by auto
  from b [OF rb] obtain v g2 where
    v: "matches b (p + length u) (drop (length u) s) v" "dom g1 \<union> grp_ids b \<subseteq> dom g2"
    and k: "k (p + length u + length v) (drop (length v) (drop (length u) s)) g2 = Some x"
    by auto
  from u v have "matches (Seq a b) p s (u @ v)"
    by (auto intro: matches.intros)
  moreover from k have "k (p + length (u @ v)) (drop (length (u @ v)) s) g2 = Some x"
    by (simp add: ac_simps)
  moreover from u(2) v(2) have "dom g \<union> grp_ids (Seq a b) \<subseteq> dom g2"
    unfolding grp_ids.simps by blast
  ultimately show ?thesis
    by (intro exI [of _ "u @ v"] exI [of _ g2] conjI)
qed

lemma re_run_Alt_SomeD:
  assumes a: "\<And>p s g (k :: 'a cont) x. re_run a p s g k = Some x \<Longrightarrow> re_ran a p s g k x"
    and b: "\<And>p s g (k :: 'a cont) x. re_run b p s g k = Some x \<Longrightarrow> re_ran b p s g k x"
    and run: "re_run (Alt a b) p s g (k :: 'a cont) = Some x"
  shows "re_ran (Alt a b) p s g k x"
proof (cases "re_run a p s g k")
  case None
  with run b [of p s g k] show ?thesis
    by (fastforce intro: matches.intros)
next
  case (Some y)
  with run a [of p s g k] show ?thesis
    by (fastforce intro: matches.intros)
qed

lemma re_run_Grp_SomeD:
  assumes a: "\<And>p s g (k :: 'a cont) x. re_run a p s g k = Some x \<Longrightarrow> re_ran a p s g k x"
    and run: "re_run (Grp i a) p s g (k :: 'a cont) = Some x"
  shows "re_ran (Grp i a) p s g k x"
proof -
  from run a [of p s g "\<lambda>p' s' g'. k p' s' (g'(i \<mapsto> take (p' - p) s))"]
  obtain w g' where w: "matches a p s w" and g': "dom g \<union> grp_ids a \<subseteq> dom g'"
    and k: "k (p + length w) (drop (length w) s) (g'(i \<mapsto> take (length w) s)) = Some x"
    by auto
  from g' have d: "dom g \<union> grp_ids (Grp i a) \<subseteq> dom (g'(i \<mapsto> take (length w) s))"
    unfolding grp_ids.simps dom_fun_upd by auto
  show ?thesis
  proof (intro exI conjI)
    show "matches (Grp i a) p s w"
      using w by (rule matches.intros)
  qed (rule k, rule d)
qed

lemma re_run_SomeD: "re_run r p s g k = Some x \<Longrightarrow> re_ran r p s g k x"
proof (induction r arbitrary: p s g k x)
  case Bol
  then show ?case
    by (auto split: if_splits intro!: exI [of _ "[]"] matches.intros)
next
  case Eol
  then show ?case
    by (auto split: if_splits intro!: exI [of _ "[]"] matches.intros)
next
  case (Lit l)
  then show ?case
    by (auto split: if_splits intro!: exI [of _ l] matches.intros)
next
  case (Cls P)
  then show ?case by (rule re_run_Cls_SomeD)
next
  case (Rep P mn gr)
  then show ?case by (rule re_run_Rep_SomeD)
next
  case (Seq a b)
  from Seq.IH Seq.prems show ?case by (rule re_run_Seq_SomeD)
next
  case (Alt a b)
  from Alt.IH Alt.prems show ?case by (rule re_run_Alt_SomeD)
next
  case (Grp i a)
  from Grp.IH Grp.prems show ?case by (rule re_run_Grp_SomeD)
qed

lemma re_run_complete:
  "matches r p s w \<Longrightarrow> (\<And>g'. k (p + length w) (drop (length w) s) g' \<noteq> None) \<Longrightarrow>
   re_run r p s g k \<noteq> None"
proof (induction arbitrary: g k rule: matches.induct)
  case (m_rep w s P mn gr p)
  then obtain t where "s = w @ t"
    by (auto simp: prefix_def)
  with m_rep show ?case
    using rep_greedy_complete [of P w mn 0 k p t g] rep_lazy_complete [of P w mn 0 k p t g]
    by (cases gr) simp_all
next
  case (m_seq a p s u b v)
  have "re_run b (p + length u) (drop (length u) s) g' k \<noteq> None" for g'
  proof (rule m_seq.IH(2))
    show "k (p + length u + length v) (drop (length v) (drop (length u) s)) g'' \<noteq> None" for g''
      using m_seq.prems [of g''] by (simp add: ac_simps)
  qed
  then show ?case
    by (simp add: m_seq.IH(1))
next
  case (m_alt1 a p s w b)
  have "re_run a p s g k \<noteq> None"
    by (rule m_alt1.IH) (rule m_alt1.prems)
  then show ?case
    by (auto split: option.splits)
next
  case (m_alt2 b p s w a)
  have "re_run b p s g k \<noteq> None"
    by (rule m_alt2.IH) (rule m_alt2.prems)
  then show ?case
    by (auto split: option.splits)
qed (auto split: option.splits)

section \<open>Computing a match on a subject with unknown parts\<close>

text \<open>
  A pattern written as a list is run element by element; a literal consumes
  itself; a greedy \<open>+\<close> consumes a whole run of its class when the rest of
  the match succeeds behind it, and nothing where the subject starts outside
  the class. With these a match on \<open>''GET '' @ path @ '' HTTP''\<close> is computed
  stage by stage from the right, the known parts by evaluation.
\<close>

lemma seqs_Cons: "rs \<noteq> [] \<Longrightarrow> seqs (r # rs) = Seq r (seqs rs)"
  by (cases rs) simp_all

lemma re_run_seqs_Cons:
  "rs \<noteq> [] \<Longrightarrow>
   re_run (seqs (r # rs)) p s g k = re_run r p s g (\<lambda>p' s' g'. re_run (seqs rs) p' s' g' k)"
  by (simp add: seqs_Cons)

lemma re_run_Plus_max:
  "list_all P w \<Longrightarrow> w \<noteq> [] \<Longrightarrow> t = [] \<or> \<not> P (hd t) \<Longrightarrow> k (p + length w) t g = Some x \<Longrightarrow>
   re_run (Plus P) p (w @ t) g k = Some x"
  by (simp add: rep_greedy_max Suc_le_eq)

lemma re_run_Grp_Plus_max:
  "list_all P w \<Longrightarrow> w \<noteq> [] \<Longrightarrow> t = [] \<or> \<not> P (hd t) \<Longrightarrow>
   k (p + length w) t (g(i \<mapsto> w)) = Some x \<Longrightarrow>
   re_run (Grp i (Plus P)) p (w @ t) g k = Some x"
  by (simp add: rep_greedy_max Suc_le_eq)

lemma rep_greedy_stop:
  "w \<noteq> [] \<Longrightarrow> \<not> P (hd w) \<Longrightarrow>
   rep_greedy P mn n p (w @ t) g k = (if mn \<le> n then k p (w @ t) g else None)"
  by (cases w) auto

text \<open>The groups of a successful \<open>re_match\<close>: every group of \<open>grp_ids\<close> is set.\<close>

lemma re_match_groups: "re_match r s = Some g \<Longrightarrow> grp_ids r \<subseteq> dom g"
  unfolding re_match_def by (drule re_run_SomeD) auto

lemma re_match_matches: "re_match r s = Some g \<Longrightarrow> \<exists>w. matches r 0 s w"
  unfolding re_match_def by (drule re_run_SomeD) auto

lemma matches_re_match: "matches r 0 s w \<Longrightarrow> \<exists>g. re_match r s = Some g"
  unfolding re_match_def using re_run_complete [of r 0 s w "\<lambda>p s' g. Some g" Map.empty] by auto

text \<open>The matcher finds a match exactly when there is one.\<close>

lemma re_match_iff: "re_match r s \<noteq> None \<longleftrightarrow> (\<exists>w. matches r 0 s w)"
  using re_match_matches [of r s] matches_re_match [of r s] by auto

end
