(* ===== verification/Escape.thy ===== *)
theory Escape
  imports Prelude
begin

text \<open>
  Quoting and templates: \<^verbatim>\<open>_escape\<close> and \<^verbatim>\<open>_escaped\<close> of the script, and
  the \<^verbatim>\<open>template % dict\<close> operator they feed.

  \<^verbatim>\<open>_escape(s)\<close> is \<^verbatim>\<open>json.dumps(unicode(s).encode('utf-8'))[1:-1]\<close>. Every
  value the script passes is a byte string, and \<^verbatim>\<open>unicode\<close> of a byte string
  decodes it as ASCII: a byte above 127 raises \<^verbatim>\<open>UnicodeDecodeError\<close>. What
  is left is the JSON encoding of an ASCII string with the two quotes cut off:
  the quote and the backslash get a backslash, the control characters their
  short or \<^verbatim>\<open>\u00xx\<close> form, and everything else between space and tilde
  stands for itself.
\<close>

section \<open>Escaping\<close>

definition BS :: char where
  "BS = CHR 0x5C"

definition DQ :: char where
  "DQ = CHR 0x22"

definition hex_digit :: "nat \<Rightarrow> char" where
  "hex_digit d = ''0123456789abcdef'' ! d"

definition escape_char :: "char \<Rightarrow> string" where
  "escape_char c =
     (if c = DQ then [BS, DQ]
      else if c = BS then [BS, BS]
      else if c = CHR 0x0A then [BS, CHR ''n'']
      else if c = CHR 0x0D then [BS, CHR ''r'']
      else if c = CHR 0x09 then [BS, CHR ''t'']
      else if c = CHR 0x08 then [BS, CHR ''b'']
      else if c = CHR 0x0C then [BS, CHR ''f'']
      else if of_char c < (32 :: nat) \<or> of_char c = (127 :: nat) then
        [BS, CHR ''u'', CHR ''0'', CHR ''0'',
         hex_digit (of_char c div 16), hex_digit (of_char c mod 16)]
      else [c])"

definition escape :: "string \<Rightarrow> string result" where
  "escape s =
     (if list_all is_ascii s then Inr (concat (map escape_char s)) else Inl UnicodeDecodeError)"

definition escaped :: "(string, string) pydict \<Rightarrow> (string, string) pydict result" where
  "escaped idict = rmapM (\<lambda>(k, v). rmap (Pair k) (escape v)) idict"

text \<open>
  The reader of what \<open>escape\<close> writes: a JSON string body back to the
  characters it stands for. It is the inverse that makes \<open>escape\<close>
  injective; the script itself never decodes.
\<close>

definition hex_val :: "char \<Rightarrow> nat" where
  "hex_val c = (if is_digit c then of_char c - 48 else of_char c - 87)"

fun unescape :: "string \<Rightarrow> string" where
  "unescape [] = []"
| "unescape [c] = [c]"
| "unescape (c # d # cs) =
     (if c \<noteq> BS then c # unescape (d # cs)
      else if d = CHR ''n'' then CHR 0x0A # unescape cs
      else if d = CHR ''r'' then CHR 0x0D # unescape cs
      else if d = CHR ''t'' then CHR 0x09 # unescape cs
      else if d = CHR ''b'' then CHR 0x08 # unescape cs
      else if d = CHR ''f'' then CHR 0x0C # unescape cs
      else if d = CHR ''u'' then
        (case cs of
           a # b # x # y # rest \<Rightarrow> char_of (16 * hex_val x + hex_val y) # unescape rest
         | _ \<Rightarrow> [])
      else d # unescape cs)"

text \<open>
  A string is \<open>quote_closed\<close> when every double quote in it stands behind a
  backslash that is not itself escaped: placed between two double quotes,
  it cannot end the quotation.
\<close>

fun quote_closed :: "string \<Rightarrow> bool" where
  "quote_closed [] = True"
| "quote_closed [c] = (c \<noteq> DQ \<and> c \<noteq> BS)"
| "quote_closed (c # d # cs) =
     (if c = BS then quote_closed cs else c \<noteq> DQ \<and> quote_closed (d # cs))"

section \<open>Templates\<close>

text \<open>
  \<^verbatim>\<open>template % dict\<close> for the directives the script's templates contain:
  \<^verbatim>\<open>%(key)s\<close> and \<^verbatim>\<open>%%\<close>. The scan is from the left, as CPython's is: a
  key is looked up as soon as its closing parenthesis is read (a missing key
  is a \<^verbatim>\<open>KeyError\<close> before the conversion character is seen), and
  parentheses inside a key nest. Any other directive is \<open>FormatError\<close>.
  The values are byte strings and are inserted as they are.
\<close>

fun fmt_text :: "(string, string) pydict \<Rightarrow> string \<Rightarrow> string result"
  and fmt_pct :: "(string, string) pydict \<Rightarrow> string \<Rightarrow> string result"
  and fmt_key :: "(string, string) pydict \<Rightarrow> nat \<Rightarrow> string \<Rightarrow> string \<Rightarrow> string result"
  and fmt_conv :: "(string, string) pydict \<Rightarrow> string \<Rightarrow> string \<Rightarrow> string result"
where
  "fmt_text d [] = Inr []"
| "fmt_text d (c # cs) =
     (if c = CHR ''%'' then fmt_pct d cs else rmap ((#) c) (fmt_text d cs))"
| "fmt_pct d [] = Inl FormatError"
| "fmt_pct d (c # cs) =
     (if c = CHR ''%'' then rmap ((#) c) (fmt_text d cs)
      else if c = CHR ''('' then fmt_key d 0 [] cs
      else Inl FormatError)"
| "fmt_key d depth key [] = Inl FormatError"
| "fmt_key d depth key (c # cs) =
     (if c = CHR '')'' \<and> depth = 0 then
        (case map_of d (rev key) of
           None \<Rightarrow> Inl (KeyError (rev key))
         | Some v \<Rightarrow> fmt_conv d v cs)
      else if c = CHR '')'' then fmt_key d (depth - 1) (c # key) cs
      else if c = CHR ''('' then fmt_key d (Suc depth) (c # key) cs
      else fmt_key d depth (c # key) cs)"
| "fmt_conv d v [] = Inl FormatError"
| "fmt_conv d v (c # cs) =
     (if c = CHR ''s'' then rmap ((@) v) (fmt_text d cs) else Inl FormatError)"

definition py_format :: "string \<Rightarrow> (string, string) pydict \<Rightarrow> string result" where
  "py_format template d = fmt_text d template"

section \<open>Facts about escaping\<close>

lemmas escape_defs [py_defs] = BS_def DQ_def hex_digit_def hex_val_def

lemma escape_Nil [simp]: "escape [] = Inr []"
  by (simp add: escape_def)

lemma escape_Inr_iff: "escape s = Inr t \<longleftrightarrow> list_all is_ascii s \<and> t = concat (map escape_char s)"
  by (auto simp: escape_def)

lemma escape_Inl_iff: "escape s = Inl e \<longleftrightarrow> \<not> list_all is_ascii s \<and> e = UnicodeDecodeError"
  by (auto simp: escape_def)

text \<open>A dictionary is escaped value by value; it fails as its first bad value does.\<close>

lemma escaped_Nil [simp]: "escaped [] = Inr []"
  by (simp add: escaped_def)

lemma escaped_Cons:
  "escaped ((k, v) # d) =
     rbind (escape v) (\<lambda>v'. rbind (escaped d) (\<lambda>d'. Inr ((k, v') # d')))"
  by (cases "escape v"; cases "escaped d") (simp_all add: escaped_def)

lemma escaped_Inl: "escaped d = Inl e \<Longrightarrow> e = UnicodeDecodeError"
proof (induction d)
  case Nil
  then show ?case by simp
next
  case (Cons x d)
  obtain k v where "x = (k, v)"
    by (cases x)
  with Cons show ?case
    by (cases "escape v"; cases "escaped d") (auto simp: escaped_Cons escape_Inl_iff)
qed

lemma escaped_total:
  "(\<And>k v. (k, v) \<in> set d \<Longrightarrow> list_all is_ascii v) \<Longrightarrow> \<exists>es. escaped d = Inr es"
proof (induction d)
  case Nil
  then show ?case by simp
next
  case (Cons x d)
  obtain k v where x: "x = (k, v)"
    by (cases x)
  from Cons obtain es where "escaped d = Inr es"
    by auto
  moreover from Cons.prems [of k v] x have "escape v = Inr (concat (map escape_char v))"
    by (simp add: escape_def)
  ultimately show ?case
    by (simp add: x escaped_Cons)
qed

lemma map_of_escaped:
  "escaped d = Inr es \<Longrightarrow>
   map_of es k = map_option (\<lambda>v. concat (map escape_char v)) (map_of d k)"
proof (induction d arbitrary: es)
  case Nil
  then show ?case by simp
next
  case (Cons x d)
  obtain k' v where x: "x = (k', v)"
    by (cases x)
  with Cons.prems obtain v' es' where "escape v = Inr v'" "escaped d = Inr es'" "es = (k', v') # es'"
    by (auto simp: escaped_Cons rbind_eq_Inr_iff)
  with Cons.IH [of es'] x show ?case
    by (auto simp: escape_def split: if_splits)
qed

text \<open>A character that needs no escape is one of the printable ones but quote and backslash.\<close>

definition plain_char :: "char \<Rightarrow> bool" where
  "plain_char c \<longleftrightarrow> 32 \<le> (of_char c :: nat) \<and> (of_char c :: nat) < 127 \<and> c \<noteq> DQ \<and> c \<noteq> BS"

lemma escape_char_plain: "plain_char c \<Longrightarrow> escape_char c = [c]"
  by (auto simp: plain_char_def escape_char_def)

lemma plain_char_ascii: "plain_char c \<Longrightarrow> is_ascii c"
  by (simp add: plain_char_def is_ascii_def)

lemma escape_plain: "list_all plain_char s \<Longrightarrow> escape s = Inr s"
proof -
  assume p: "list_all plain_char s"
  then have "concat (map escape_char s) = s"
    by (induction s) (simp_all add: escape_char_plain)
  with p show ?thesis
    by (simp add: escape_def list_all_iff plain_char_ascii)
qed

lemma plain_lower_digit: "is_lower c \<or> is_digit c \<Longrightarrow> plain_char c"
  by (auto simp: plain_char_def py_defs less_eq_char_def)

lemma hex_digit_cases:
  "d < 16 \<Longrightarrow> hex_digit d \<in> set ''0123456789abcdef''"
  unfolding hex_digit_def by (rule nth_mem) simp

lemma hex_val_hex_digit: "d < 16 \<Longrightarrow> hex_val (hex_digit d) = d"
proof -
  assume "d < 16"
  then have "d = 0 \<or> d = 1 \<or> d = 2 \<or> d = 3 \<or> d = 4 \<or> d = 5 \<or> d = 6 \<or> d = 7 \<or> d = 8
     \<or> d = 9 \<or> d = 10 \<or> d = 11 \<or> d = 12 \<or> d = 13 \<or> d = 14 \<or> d = 15"
    by arith
  then show ?thesis
    by (auto simp: hex_val_def hex_digit_def is_digit_def less_eq_char_def)
qed

lemma hex_digit_not_special: "d < 16 \<Longrightarrow> hex_digit d \<noteq> BS \<and> hex_digit d \<noteq> DQ"
  using hex_digit_cases [of d] by (auto simp: BS_def DQ_def)

text \<open>One escape in front of a string: how the reader and the scanner see it.\<close>

lemma control_div_mod:
  "of_char c < (32 :: nat) \<or> of_char c = (127 :: nat) \<Longrightarrow>
   (of_char c :: nat) div 16 < 16 \<and> (of_char c :: nat) mod 16 < 16"
  by auto

lemma unescape_escape_char: "unescape (escape_char c @ t) = c # unescape t"
proof (cases "of_char c < (32 :: nat) \<or> of_char c = (127 :: nat)")
  case True
  then have "char_of (16 * hex_val (hex_digit (of_char c div 16))
      + hex_val (hex_digit (of_char c mod 16))) = c"
    using control_div_mod [of c] by (simp add: hex_val_hex_digit)
  with True show ?thesis
    by (auto simp: escape_char_def BS_def DQ_def)
next
  case False
  then show ?thesis
    by (cases t) (auto simp: escape_char_def BS_def DQ_def)
qed

lemma quote_closed_escape_char: "quote_closed t \<Longrightarrow> quote_closed (escape_char c @ t)"
proof (cases "of_char c < (32 :: nat) \<or> of_char c = (127 :: nat)")
  case True
  assume "quote_closed t"
  with True hex_digit_not_special [of "of_char c div 16"]
    hex_digit_not_special [of "of_char c mod 16"] control_div_mod [of c]
  show ?thesis
    by (cases t) (auto simp: escape_char_def BS_def DQ_def)
next
  case False
  assume "quote_closed t"
  with False show ?thesis
    by (cases t) (auto simp: escape_char_def BS_def DQ_def)
qed

lemma unescape_concat_escape: "unescape (concat (map escape_char s)) = s"
  by (induction s) (simp_all add: unescape_escape_char)

lemma quote_closed_concat_escape: "quote_closed (concat (map escape_char s))"
  by (induction s) (simp_all add: quote_closed_escape_char)

section \<open>Facts about templates\<close>

lemma fmt_text_plain: "CHR ''%'' \<notin> set t \<Longrightarrow> fmt_text d t = Inr t"
  by (induction t) auto

lemma fmt_text_append_plain:
  "CHR ''%'' \<notin> set t \<Longrightarrow> fmt_text d (t @ u) = rmap ((@) t) (fmt_text d u)"
proof (induction t)
  case Nil
  then show ?case
    by (cases "fmt_text d u") simp_all
next
  case (Cons c t)
  then show ?case
    by (cases "fmt_text d u") auto
qed

lemma fmt_key_plain:
  "CHR ''('' \<notin> set k \<Longrightarrow> CHR '')'' \<notin> set k \<Longrightarrow>
   fmt_key d 0 acc (k @ CHR '')'' # u) =
     (case map_of d (rev acc @ k) of
        None \<Rightarrow> Inl (KeyError (rev acc @ k))
      | Some v \<Rightarrow> fmt_conv d v u)"
  by (induction k arbitrary: acc) (auto cong: option.case_cong)

text \<open>A directive whose key is in the dictionary is replaced by the value.\<close>

lemma fmt_text_directive:
  "CHR ''('' \<notin> set k \<Longrightarrow> CHR '')'' \<notin> set k \<Longrightarrow> map_of d k = Some v \<Longrightarrow>
   fmt_text d (CHR ''%'' # CHR ''('' # k @ CHR '')'' # CHR ''s'' # u) = rmap ((@) v) (fmt_text d u)"
  using fmt_key_plain [of k d "[]" "CHR ''s'' # u"] by simp

text \<open>A missing key is the only error of a template whose directives are all \<^verbatim>\<open>%(key)s\<close>.\<close>

lemma fmt_text_missing:
  "CHR ''('' \<notin> set k \<Longrightarrow> CHR '')'' \<notin> set k \<Longrightarrow> map_of d k = None \<Longrightarrow>
   fmt_text d (CHR ''%'' # CHR ''('' # k @ CHR '')'' # u) = Inl (KeyError k)"
  using fmt_key_plain [of k d "[]" u] by simp

section \<open>Properties\<close>

text \<open>
  C36: \<^verbatim>\<open>_escape\<close> loses nothing: reading its result as the body of a JSON
  string gives the argument back, so two different strings are never escaped
  to the same text.
\<close>

theorem escape_roundtrip:
  assumes "escape s = Inr t"
  shows "unescape t = s"
  using assms by (auto simp: escape_Inr_iff unescape_concat_escape)

text \<open>
  What \<^verbatim>\<open>_escape\<close> returns cannot end a double-quoted word: every
  double quote in it stands behind an odd run of backslashes. It raises
  exactly on a string with a byte outside ASCII, with
  \<^verbatim>\<open>UnicodeDecodeError\<close>.
\<close>

theorem escape_quote_closed:
  "(case escape s of
      Inr t \<Rightarrow> list_all is_ascii s \<and> quote_closed t
    | Inl e \<Rightarrow> \<not> list_all is_ascii s \<and> e = UnicodeDecodeError)"
  by (simp add: escape_def quote_closed_concat_escape)


theorem escape_roundtrip_witness:
  "escape [CHR ''a'', DQ, BS, CHR 0x0A] = Inr ([CHR ''a'', BS, DQ, BS, BS, BS] @ ''n'') \<and>
   unescape ([CHR ''a'', BS, DQ, BS, BS, BS] @ ''n'') = [CHR ''a'', DQ, BS, CHR 0x0A]"
proof -
  have "escape [CHR ''a'', DQ, BS, CHR 0x0A] = Inr ([CHR ''a'', BS, DQ, BS, BS, BS] @ ''n'')"
    by (simp add: escape_def escape_char_def py_defs)
  with escape_roundtrip [OF this] show ?thesis
    by simp
qed

end
