(* ===== verification/World.thy ===== *)
theory World
  imports Prelude
begin

text \<open>
  What the script reads and changes outside itself, as one record, and the
  library calls that touch it. Nothing here is code of the script: it is the
  interface the components agree on. A call that can raise returns the world
  it leaves behind together with the error, since a claim about a failed
  save is a claim about that world.

  \<^item> \<open>files\<close>: path to content, for the routing file, its \<^verbatim>\<open>.new\<close> twin and
    the pid files. Directories and permissions are not modelled: a path can be
    read if it is there and written always.
  \<^item> \<open>stdout\<close>: the lines printed so far.
  \<^item> \<open>ps_output\<close>, \<open>netstat_output\<close>: what \<^verbatim>\<open>ps auxw\<close> and
    \<^verbatim>\<open>netstat -ant --program\<close> print; \<open>None\<close> when the program cannot be
    started (\<^verbatim>\<open>subprocess.Popen\<close> raises \<^verbatim>\<open>OSError\<close>).
  \<^item> \<open>randoms\<close>, \<open>rand_used\<close>: the values \<^verbatim>\<open>random.randint\<close> will draw and
    how many were drawn. Any sequence of naturals is a source; \<open>randint\<close>
    folds a value into the requested range, so every sequence of in-range
    draws is the image of some source.
  \<^item> \<open>shell\<close>, \<open>commands\<close>: \<^verbatim>\<open>os.system\<close> as a function from the command
    line and the files to an exit status and the files it leaves, and the
    command lines run so far, each with its exit status.
  \<^item> \<open>expect\<close>, \<open>expect_log\<close>: the \<^verbatim>\<open>expect -\<close> child of
    \<^verbatim>\<open>run_as_user\<close>, from its script to what it prints on stdout and
    stderr (\<open>None\<close> when \<^verbatim>\<open>expect\<close> cannot be started), and the scripts
    it was given so far. What the child does to the files is not modelled.
  \<^item> \<open>usage_text\<close>, \<open>help_text\<close>: what \<^verbatim>\<open>ArgumentParser.print_usage\<close>
    and \<^verbatim>\<open>print_help\<close> print.
  \<^item> \<open>argv\<close>: \<^verbatim>\<open>sys.argv[1:]\<close>, the words of the command line after the
    name of the script.
  \<^item> \<open>form\<close>, \<open>request_method\<close>, \<open>slept\<close>: the fields of the CGI
    request, the environment variable \<^verbatim>\<open>REQUEST_METHOD\<close>, and the seconds
    spent in \<^verbatim>\<open>time.sleep\<close>.
  \<^item> \<open>euid\<close>, \<open>login\<close>, \<open>accounts\<close>, \<open>hostname\<close>, \<open>argv0\<close>,
    \<open>script_file\<close>, \<open>realpath\<close>: \<^verbatim>\<open>os.getuid()\<close>, the name
    \<^verbatim>\<open>pwd.getpwuid\<close> gives for it, the names \<^verbatim>\<open>pwd.getpwnam\<close> knows,
    \<^verbatim>\<open>socket.gethostname()\<close>, \<^verbatim>\<open>sys.argv[0]\<close>, \<^verbatim>\<open>__file__\<close> and
    \<^verbatim>\<open>os.path.realpath\<close>.
\<close>

section \<open>The world\<close>

record world =
  files :: "string \<rightharpoonup> string"
  stdout :: "string list"
  ps_output :: "string option"
  netstat_output :: "string option"
  randoms :: "nat \<Rightarrow> nat"
  rand_used :: nat
  shell :: "string \<Rightarrow> (string \<rightharpoonup> string) \<Rightarrow> nat \<times> (string \<rightharpoonup> string)"
  commands :: "(string \<times> nat) list"
  expect :: "(string \<Rightarrow> string \<times> string) option"
  expect_log :: "string list"
  usage_text :: string
  form :: "string \<rightharpoonup> string"
  request_method :: "string option"
  slept :: nat
  euid :: nat
  login :: string
  accounts :: "string list"
  hostname :: string
  argv0 :: string
  script_file :: string
  realpath :: "string \<Rightarrow> string"
  argv :: "string list"
  help_text :: string

type_synonym 'a io = "'a result \<times> world"

definition then_do :: "'a io \<Rightarrow> ('a \<Rightarrow> world \<Rightarrow> 'b io) \<Rightarrow> 'b io" where
  "then_do m f = (case m of (Inl e, w) \<Rightarrow> (Inl e, w) | (Inr x, w) \<Rightarrow> f x w)"

section \<open>Library calls\<close>

definition print_line :: "world \<Rightarrow> string \<Rightarrow> world" where
  "print_line w line = w\<lparr>stdout := stdout w @ [line]\<rparr>"

definition path_exists :: "world \<Rightarrow> string \<Rightarrow> bool" where
  "path_exists w p \<longleftrightarrow> files w p \<noteq> None"

definition read_file :: "world \<Rightarrow> string \<Rightarrow> string result" where
  "read_file w p = (case files w p of None \<Rightarrow> Inl (OSError p) | Some text \<Rightarrow> Inr text)"

definition write_file :: "world \<Rightarrow> string \<Rightarrow> string \<Rightarrow> world" where
  "write_file w p text = w\<lparr>files := (files w)(p \<mapsto> text)\<rparr>"

definition os_remove :: "world \<Rightarrow> string \<Rightarrow> unit io" where
  "os_remove w p =
     (if files w p = None then (Inl (OSError p), w)
      else (Inr (), w\<lparr>files := (files w)(p := None)\<rparr>))"

definition os_rename :: "world \<Rightarrow> string \<Rightarrow> string \<Rightarrow> unit io" where
  "os_rename w src dst =
     (case files w src of
        None \<Rightarrow> (Inl (OSError src), w)
      | Some text \<Rightarrow> (Inr (), w\<lparr>files := (files w)(src := None, dst \<mapsto> text)\<rparr>))"

definition randint :: "world \<Rightarrow> nat \<Rightarrow> nat \<Rightarrow> nat \<times> world" where
  "randint w lo hi =
     (lo + randoms w (rand_used w) mod (hi - lo + 1), w\<lparr>rand_used := Suc (rand_used w)\<rparr>)"

definition os_system :: "world \<Rightarrow> string \<Rightarrow> nat \<times> world" where
  "os_system w line =
     (let (rv, fs) = shell w line (files w)
      in (rv, w\<lparr>files := fs, commands := commands w @ [(line, rv)]\<rparr>))"

definition run_expect :: "world \<Rightarrow> string \<Rightarrow> (string \<times> string) io" where
  "run_expect w script =
     (case expect w of
        None \<Rightarrow> (Inl (OSError ''expect''), w)
      | Some child \<Rightarrow> (Inr (child script), w\<lparr>expect_log := expect_log w @ [script]\<rparr>))"

definition print_usage :: "world \<Rightarrow> world" where
  "print_usage w = print_line w (usage_text w)"

definition sleep :: "world \<Rightarrow> nat \<Rightarrow> world" where
  "sleep w seconds = w\<lparr>slept := slept w + seconds\<rparr>"

text \<open>
  A small world for the closed instances of the theorems: no files, no
  processes, a shell in which every command succeeds and changes nothing.
\<close>

definition quiet_world :: world where
  "quiet_world =
     \<lparr>files = Map.empty, stdout = [], ps_output = Some [], netstat_output = Some [],
      randoms = (\<lambda>i. 0), rand_used = 0, shell = (\<lambda>line fs. (0, fs)), commands = [],
      expect = Some (\<lambda>script. ([], [])), expect_log = [],
      usage_text = ''usage: mailpile-admin.py'', form = Map.empty, request_method = None,
      slept = 0, euid = 1000, login = ''bre'', accounts = [''bre''],
      hostname = ''mailhost'', argv0 = ''/opt/Mailpile/scripts/mailpile-admin.py'',
      script_file = ''/opt/Mailpile/scripts/mailpile-admin.py'', realpath = (\<lambda>p. p),
      argv = [], help_text = ''usage: mailpile-admin.py [-h]''\<rparr>"

text \<open>
  Two frames. An operation that \<open>only_printed\<close> has at most printed lines and
  drawn random numbers; one that \<open>only_ran\<close> has at most printed lines and run
  shell commands, which may have changed the files.
\<close>

definition only_printed :: "world \<Rightarrow> world \<Rightarrow> bool" where
  "only_printed w w' \<longleftrightarrow>
     (\<exists>out n. w' = w\<lparr>stdout := stdout w @ out, rand_used := rand_used w + n\<rparr>)"

definition only_ran :: "world \<Rightarrow> world \<Rightarrow> bool" where
  "only_ran w w' \<longleftrightarrow>
     (\<exists>out cs fs. w' = w\<lparr>stdout := stdout w @ out, commands := commands w @ cs, files := fs\<rparr>)"

text \<open>
  The frame of the whole script: whatever it does, it prints, runs commands
  (which may change files), writes files, hands scripts to \<^verbatim>\<open>expect\<close>, draws
  random numbers and sleeps. What it was given, the command line, the form,
  the accounts, the processes, it leaves alone.
\<close>

definition only_acted :: "world \<Rightarrow> world \<Rightarrow> bool" where
  "only_acted w w' \<longleftrightarrow>
     (\<exists>out cs fs el n t.
        w' = w\<lparr>stdout := stdout w @ out, commands := commands w @ cs, files := fs,
               expect_log := expect_log w @ el, rand_used := rand_used w + n,
               slept := slept w + t\<rparr>)"

text \<open>A shell in which no command changes a file.\<close>

definition keeps_files :: "world \<Rightarrow> bool" where
  "keeps_files w \<longleftrightarrow> (\<forall>line fs. snd (shell w line fs) = fs)"

lemmas world_defs [py_defs] =
  print_line_def path_exists_def read_file_def write_file_def os_remove_def os_rename_def
  randint_def os_system_def run_expect_def print_usage_def sleep_def

section \<open>Facts\<close>

lemma then_do_simps [simp]:
  "then_do (Inl e, w) f = (Inl e, w)"
  "then_do (Inr x, w) f = f x w"
  by (simp_all add: then_do_def)

lemma then_do_eq_Inr_iff:
  "then_do m f = (Inr y, w') \<longleftrightarrow> (\<exists>x w1. m = (Inr x, w1) \<and> f x w1 = (Inr y, w'))"
  by (cases m; cases "fst m") (auto simp: then_do_def)

lemma print_line_frame [simp]:
  "files (print_line w l) = files w"
  "commands (print_line w l) = commands w"
  "rand_used (print_line w l) = rand_used w"
  "randoms (print_line w l) = randoms w"
  "netstat_output (print_line w l) = netstat_output w"
  "ps_output (print_line w l) = ps_output w"
  "shell (print_line w l) = shell w"
  "expect_log (print_line w l) = expect_log w"
  "expect (print_line w l) = expect w"
  "euid (print_line w l) = euid w"
  "login (print_line w l) = login w"
  "realpath (print_line w l) = realpath w"
  "argv0 (print_line w l) = argv0 w"
  "script_file (print_line w l) = script_file w"
  "usage_text (print_line w l) = usage_text w"
  "help_text (print_line w l) = help_text w"
  "hostname (print_line w l) = hostname w"
  "accounts (print_line w l) = accounts w"
  "form (print_line w l) = form w"
  "argv (print_line w l) = argv w"
  "slept (print_line w l) = slept w"
  by (simp_all add: print_line_def)

lemma stdout_print_line [simp]: "stdout (print_line w l) = stdout w @ [l]"
  by (simp add: print_line_def)

lemma write_file_frame [simp]:
  "stdout (write_file w p t) = stdout w"
  "commands (write_file w p t) = commands w"
  "rand_used (write_file w p t) = rand_used w"
  "shell (write_file w p t) = shell w"
  by (simp_all add: write_file_def)

lemma files_write_file [simp]: "files (write_file w p t) = (files w)(p \<mapsto> t)"
  by (simp add: write_file_def)

lemma randint_range: "lo \<le> hi \<Longrightarrow> lo \<le> fst (randint w lo hi) \<and> fst (randint w lo hi) \<le> hi"
proof -
  assume "lo \<le> hi"
  have "randoms w (rand_used w) mod (hi - lo + 1) \<le> hi - lo"
    using mod_less_divisor [of "hi - lo + 1" "randoms w (rand_used w)"] by simp
  with \<open>lo \<le> hi\<close> show ?thesis
    unfolding randint_def fst_conv by linarith
qed

lemma os_system_frame [simp]:
  "commands (snd (os_system w line)) = commands w @ [(line, fst (shell w line (files w)))]"
  "stdout (snd (os_system w line)) = stdout w"
  "rand_used (snd (os_system w line)) = rand_used w"
  "expect_log (snd (os_system w line)) = expect_log w"
  "shell (snd (os_system w line)) = shell w"
  "netstat_output (snd (os_system w line)) = netstat_output w"
  "ps_output (snd (os_system w line)) = ps_output w"
  "fst (os_system w line) = fst (shell w line (files w))"
  "files (snd (os_system w line)) = snd (shell w line (files w))"
  by (simp_all add: os_system_def split_beta)

lemma randint_world [simp]:
  "rand_used (snd (randint w lo hi)) = Suc (rand_used w)"
  "files (snd (randint w lo hi)) = files w"
  "stdout (snd (randint w lo hi)) = stdout w"
  "commands (snd (randint w lo hi)) = commands w"
  "randoms (snd (randint w lo hi)) = randoms w"
  by (simp_all add: randint_def)

section \<open>Frames\<close>

lemma only_printedI:
  "w' = w\<lparr>stdout := stdout w @ out, rand_used := rand_used w + n\<rparr> \<Longrightarrow> only_printed w w'"
  unfolding only_printed_def by blast

lemma only_printed_refl [simp, intro]: "only_printed w w"
  by (rule only_printedI [where out = "[]" and n = 0]) simp

lemma only_printed_trans [trans]:
  assumes "only_printed w1 w2" and "only_printed w2 w3"
  shows "only_printed w1 w3"
proof -
  from assms obtain out1 n1 out2 n2
    where "w2 = w1\<lparr>stdout := stdout w1 @ out1, rand_used := rand_used w1 + n1\<rparr>"
      and "w3 = w2\<lparr>stdout := stdout w2 @ out2, rand_used := rand_used w2 + n2\<rparr>"
    unfolding only_printed_def by blast
  then show ?thesis
    by (intro only_printedI [where out = "out1 @ out2" and n = "n1 + n2"]) simp
qed

lemma only_printed_print_line [simp, intro]: "only_printed w (print_line w l)"
  by (rule only_printedI [where out = "[l]" and n = 0]) (simp add: print_line_def)

lemma only_printed_print_usage [simp, intro]: "only_printed w (print_usage w)"
  by (simp add: print_usage_def)

lemma only_printed_randint [simp, intro]: "only_printed w (snd (randint w lo hi))"
  by (rule only_printedI [where out = "[]" and n = 1]) (simp add: randint_def)

lemma only_printedD:
  assumes "only_printed w w'"
  shows "files w' = files w" and "commands w' = commands w" and "expect_log w' = expect_log w"
    and "shell w' = shell w" and "expect w' = expect w" and "euid w' = euid w"
    and "login w' = login w" and "realpath w' = realpath w" and "argv0 w' = argv0 w"
    and "script_file w' = script_file w" and "netstat_output w' = netstat_output w"
    and "ps_output w' = ps_output w" and "randoms w' = randoms w"
    and "usage_text w' = usage_text w" and "form w' = form w" and "slept w' = slept w"
    and "accounts w' = accounts w" and "prefix (stdout w) (stdout w')"
    and "rand_used w \<le> rand_used w'" and "hostname w' = hostname w" and "argv w' = argv w"
    and "help_text w' = help_text w" and "request_method w' = request_method w"
  using assms by (auto simp: only_printed_def)

lemma only_ranI:
  "w' = w\<lparr>stdout := stdout w @ out, commands := commands w @ cs, files := fs\<rparr> \<Longrightarrow> only_ran w w'"
  unfolding only_ran_def by blast

lemma only_ran_refl [simp, intro]: "only_ran w w"
  by (rule only_ranI [where out = "[]" and cs = "[]" and fs = "files w"]) simp

lemma only_ran_trans [trans]:
  assumes "only_ran w1 w2" and "only_ran w2 w3"
  shows "only_ran w1 w3"
proof -
  from assms obtain out1 ran1 fs1 out2 ran2 fs2
    where "w2 = w1\<lparr>stdout := stdout w1 @ out1, commands := commands w1 @ ran1, files := fs1\<rparr>"
      and "w3 = w2\<lparr>stdout := stdout w2 @ out2, commands := commands w2 @ ran2, files := fs2\<rparr>"
    unfolding only_ran_def by blast
  then show ?thesis
    by (intro only_ranI [where out = "out1 @ out2" and cs = "ran1 @ ran2" and fs = fs2]) simp
qed

lemma only_ran_print_line [simp, intro]: "only_ran w (print_line w l)"
  by (rule only_ranI [where out = "[l]" and cs = "[]" and fs = "files w"]) (simp add: print_line_def)

lemma only_ran_print_usage [simp, intro]: "only_ran w (print_usage w)"
  by (simp add: print_usage_def)

lemma only_ran_os_system [simp, intro]: "only_ran w (snd (os_system w line))"
  by (rule only_ranI [where out = "[]" and cs = "[(line, fst (shell w line (files w)))]"
        and fs = "snd (shell w line (files w))"]) (simp add: os_system_def split_beta)

lemma only_printed_only_ran: "only_printed w w' \<Longrightarrow> rand_used w' = rand_used w \<Longrightarrow> only_ran w w'"
proof -
  assume "only_printed w w'" and "rand_used w' = rand_used w"
  then obtain out where "w' = w\<lparr>stdout := stdout w @ out\<rparr>"
    by (auto simp: only_printed_def)
  then show ?thesis
    by (intro only_ranI [where out = out and cs = "[]" and fs = "files w"]) simp
qed

lemma only_ranD:
  assumes "only_ran w w'"
  shows "expect_log w' = expect_log w" and "shell w' = shell w" and "rand_used w' = rand_used w"
    and "expect w' = expect w" and "euid w' = euid w" and "netstat_output w' = netstat_output w"
    and "ps_output w' = ps_output w" and "randoms w' = randoms w" and "login w' = login w"
    and "realpath w' = realpath w" and "argv0 w' = argv0 w" and "script_file w' = script_file w"
    and "usage_text w' = usage_text w" and "prefix (stdout w) (stdout w')"
    and "prefix (commands w) (commands w')" and "hostname w' = hostname w"
    and "accounts w' = accounts w" and "form w' = form w" and "slept w' = slept w"
    and "argv w' = argv w" and "help_text w' = help_text w"
  using assms by (auto simp: only_ran_def)

lemma only_actedI:
  "w' = w\<lparr>stdout := stdout w @ out, commands := commands w @ cs, files := fs,
          expect_log := expect_log w @ el, rand_used := rand_used w + n, slept := slept w + t\<rparr>
   \<Longrightarrow> only_acted w w'"
  unfolding only_acted_def by blast

lemma only_acted_refl [simp, intro]: "only_acted w w"
  by (rule only_actedI [where out = "[]" and cs = "[]" and fs = "files w" and el = "[]"
        and n = 0 and t = 0]) simp

lemma only_acted_trans [trans]:
  assumes "only_acted w1 w2" and "only_acted w2 w3"
  shows "only_acted w1 w3"
proof -
  from assms obtain out1 cs1 fs1 el1 n1 t1 out2 cs2 fs2 el2 n2 t2
    where "w2 = w1\<lparr>stdout := stdout w1 @ out1, commands := commands w1 @ cs1, files := fs1,
             expect_log := expect_log w1 @ el1, rand_used := rand_used w1 + n1,
             slept := slept w1 + t1\<rparr>"
      and "w3 = w2\<lparr>stdout := stdout w2 @ out2, commands := commands w2 @ cs2, files := fs2,
             expect_log := expect_log w2 @ el2, rand_used := rand_used w2 + n2,
             slept := slept w2 + t2\<rparr>"
    unfolding only_acted_def by blast
  then show ?thesis
    by (intro only_actedI [where out = "out1 @ out2" and cs = "cs1 @ cs2" and fs = fs2
          and el = "el1 @ el2" and n = "n1 + n2" and t = "t1 + t2"]) simp
qed

lemma only_printed_only_acted [intro]: "only_printed w w' \<Longrightarrow> only_acted w w'"
proof -
  assume "only_printed w w'"
  then obtain out n where "w' = w\<lparr>stdout := stdout w @ out, rand_used := rand_used w + n\<rparr>"
    unfolding only_printed_def by blast
  then show ?thesis
    by (intro only_actedI [where out = out and cs = "[]" and fs = "files w" and el = "[]"
          and n = n and t = 0]) simp
qed

lemma only_ran_only_acted [intro]: "only_ran w w' \<Longrightarrow> only_acted w w'"
proof -
  assume "only_ran w w'"
  then obtain out cs fs
    where "w' = w\<lparr>stdout := stdout w @ out, commands := commands w @ cs, files := fs\<rparr>"
    unfolding only_ran_def by blast
  then show ?thesis
    by (intro only_actedI [where out = out and cs = cs and fs = fs and el = "[]"
          and n = 0 and t = 0]) simp
qed

lemma only_acted_sleep [simp, intro]: "only_acted w (sleep w seconds)"
  by (rule only_actedI [where out = "[]" and cs = "[]" and fs = "files w" and el = "[]"
        and n = 0 and t = seconds]) (simp add: sleep_def)

lemma only_acted_run_expect: "run_expect w script = (r, w') \<Longrightarrow> only_acted w w'"
  by (cases "expect w")
    (auto simp: run_expect_def intro!: only_actedI [where out = "[]" and cs = "[]"
       and fs = "files w" and el = "[script]" and n = 0 and t = 0])

lemma only_acted_write_file [simp, intro]: "only_acted w (write_file w p t)"
  by (rule only_actedI [where out = "[]" and cs = "[]" and fs = "(files w)(p \<mapsto> t)"
        and el = "[]" and n = 0 and t = 0]) (simp add: write_file_def)

lemma only_actedD:
  assumes "only_acted w w'"
  shows "prefix (stdout w) (stdout w')" and "prefix (commands w) (commands w')"
    and "prefix (expect_log w) (expect_log w')" and "rand_used w \<le> rand_used w'"
    and "slept w \<le> slept w'" and "shell w' = shell w" and "expect w' = expect w"
    and "euid w' = euid w" and "login w' = login w" and "accounts w' = accounts w"
    and "form w' = form w" and "request_method w' = request_method w" and "argv w' = argv w"
    and "hostname w' = hostname w" and "ps_output w' = ps_output w"
    and "netstat_output w' = netstat_output w" and "randoms w' = randoms w"
    and "realpath w' = realpath w" and "argv0 w' = argv0 w" and "script_file w' = script_file w"
    and "usage_text w' = usage_text w" and "help_text w' = help_text w"
  using assms by (auto simp: only_acted_def)

text \<open>The two ways a sequence of two operations ends.\<close>

lemma then_doE:
  assumes "then_do m f = (r, w')"
  obtains (fails) e where "m = (Inl e, w')" and "r = Inl e"
    | (goes) x w1 where "m = (Inr x, w1)" and "f x w1 = (r, w')"
  using assms by (cases m; cases "fst m") (auto simp: then_do_def)

text \<open>A frame that is transitive goes through a sequence of two operations.\<close>

lemma then_do_frame:
  assumes "then_do m f = (r, w')"
    and "R w (snd m)"
    and "\<And>x. fst m = Inr x \<Longrightarrow> f x (snd m) = (r, w') \<Longrightarrow> R (snd m) w'"
    and "\<And>a b c. R a b \<Longrightarrow> R b c \<Longrightarrow> R a c"
  shows "R w w'"
proof (cases "fst m")
  case (Inl e)
  with assms(1,2) show ?thesis
    by (cases m) simp
next
  case (Inr x)
  with assms(1) have "f x (snd m) = (r, w')"
    by (cases m) simp
  from assms(4) [OF assms(2) assms(3) [OF Inr this]] show ?thesis .
qed

end
