(* ===== verification/Instance.thy ===== *)
theory Instance
  imports Prelude
begin

text \<open>
  The registry of the script: the dictionary \<^verbatim>\<open>mailpiles\<close>, from
  \<^verbatim>\<open>host:port\<close> to the six values \<^verbatim>\<open>(user, host, port, in_htaccess, pid,
  rss)\<close>. \<^verbatim>\<open>parse_htaccess\<close> stores them as a list, \<^verbatim>\<open>discover_mailpiles\<close>
  and \<^verbatim>\<open>start_mailpile\<close> as a tuple, and the difference shows: a tuple
  cannot be assigned to. \<open>m_kind\<close> records which of the two an entry is.
\<close>

datatype seq_kind = PyList | PyTuple

record details =
  m_user :: string
  m_host :: string
  m_port :: string
  m_in_htaccess :: bool
  m_pid :: "string option"
  m_rss :: "string option"
  m_kind :: seq_kind

type_synonym mailpiles = "(string, details) pydict"

text \<open>\<^verbatim>\<open>'%s:%s' % (host, port)\<close>, the key of an entry.\<close>

definition hostport_of :: "string \<Rightarrow> string \<Rightarrow> string" where
  "hostport_of h p = h @ '':'' @ p"

text \<open>
  The entry \<^verbatim>\<open>parse_htaccess\<close> makes of a rule: a list, marked as being in
  the file, without pid.
\<close>

definition registered :: "string \<Rightarrow> string \<Rightarrow> string \<Rightarrow> details" where
  "registered u h p =
     \<lparr>m_user = u, m_host = h, m_port = p, m_in_htaccess = True, m_pid = None, m_rss = None,
      m_kind = PyList\<rparr>"

text \<open>
  \<^verbatim>\<open>mailpiles[hostport][4] = pid; mailpiles[hostport][5] = rss\<close>: item
  assignment, which a tuple refuses with \<^verbatim>\<open>TypeError\<close>.
\<close>

definition set_live :: "details \<Rightarrow> string \<Rightarrow> string \<Rightarrow> details result" where
  "set_live d pid rss =
     (case m_kind d of
        PyTuple \<Rightarrow> Inl TypeError
      | PyList \<Rightarrow> Inr (d\<lparr>m_pid := Some pid, m_rss := Some rss\<rparr>))"

text \<open>
  The registry is well formed when its keys are distinct and each entry sits
  under the key made of its own host and port.
\<close>

definition keyed :: "mailpiles \<Rightarrow> bool" where
  "keyed mp \<longleftrightarrow> (\<forall>(k, d) \<in> set mp. k = hostport_of (m_host d) (m_port d))"

definition registry_ok :: "mailpiles \<Rightarrow> bool" where
  "registry_ok mp \<longleftrightarrow> dict_ok mp \<and> keyed mp"

lemma registry_ok_Nil [simp, mp_intros]: "registry_ok []"
  by (simp add: registry_ok_def keyed_def)

lemma keyed_update:
  "keyed mp \<Longrightarrow> k = hostport_of (m_host d) (m_port d) \<Longrightarrow> keyed (AList.update k d mp)"
  by (induction mp) (auto simp: keyed_def)

lemma registry_ok_update [mp_intros]:
  "registry_ok mp \<Longrightarrow> k = hostport_of (m_host d) (m_port d) \<Longrightarrow>
   registry_ok (AList.update k d mp)"
  by (simp add: registry_ok_def keyed_update)

lemma set_live_frame:
  "set_live d pid rss = Inr d' \<Longrightarrow>
   m_user d' = m_user d \<and> m_host d' = m_host d \<and> m_port d' = m_port d \<and>
   m_in_htaccess d' = m_in_htaccess d \<and> m_kind d' = m_kind d \<and>
   m_pid d' = Some pid \<and> m_rss d' = Some rss"
  by (auto simp: set_live_def split: seq_kind.splits)

lemma set_live_Inr_iff: "(\<exists>d'. set_live d pid rss = Inr d') \<longleftrightarrow> m_kind d = PyList"
  by (auto simp: set_live_def split: seq_kind.splits)

end
