(* ===== verification/ProcessSnapshot.thy ===== *)
theory ProcessSnapshot
  imports Regex World Instance
begin

text \<open>
  Discovery of running Mailpiles: \<^verbatim>\<open>_parse_ps\<close>, \<^verbatim>\<open>_parse_netstat\<close> and
  \<^verbatim>\<open>discover_mailpiles\<close>. The two parsers are generators over the lines a
  child process prints; here they are the list of what they yield, and the
  one place where the laziness shows (\<^verbatim>\<open>_get_random_port\<close>) consumes that
  list explicitly. \<^verbatim>\<open>discover_mailpiles\<close> changes the dictionary it is given in
  place and returns it; the model returns the new dictionary, or the error
  that ended the run.
\<close>

section \<open>The process table\<close>

text \<open>
  \<^verbatim>\<open>^(\S+)\s+(\d+)\s+\S+\s+\S+\s+\S+\s+(\S+).*\s(python2 .*/mp|mailpile)(?:\s+|$)\<close>
\<close>

definition ps_re :: regex where
  "ps_re = seqs
     [Bol, Grp 1 (Plus cls_nonspace), Plus is_space, Grp 2 (Plus is_digit), Plus is_space,
      Plus cls_nonspace, Plus is_space, Plus cls_nonspace, Plus is_space,
      Plus cls_nonspace, Plus is_space, Grp 3 (Plus cls_nonspace), Star cls_any, Cls is_space,
      Grp 4 (Alt (seqs [Lit ''python2 '', Star cls_any, Lit ''/mp'']) (Lit ''mailpile'')),
      Alt (Plus is_space) Eol]"

type_synonym ps_row = "string \<times> string \<times> string \<times> string"

definition ps_row_of :: "string \<Rightarrow> ps_row option" where
  "ps_row_of line =
     map_option (\<lambda>m. (group m 1, group m 2, group m 3, group m 4)) (re_match ps_re line)"

definition parse_ps :: "world \<Rightarrow> ps_row list result" where
  "parse_ps w =
     (case ps_output w of
        None \<Rightarrow> Inl (OSError ''ps'')
      | Some out \<Rightarrow> Inr (List.map_filter ps_row_of (splitlines out)))"

section \<open>The socket table\<close>

text \<open>
  \<^verbatim>\<open>^tcp\s+\S+\s+\S+\s+(\S+:\d+)\s+(\S+:.)\s+.*?\s(\d+)\/(\S+)\s*$\<close>
\<close>

definition ns_re :: regex where
  "ns_re = seqs
     [Bol, Lit ''tcp'', Plus is_space, Plus cls_nonspace, Plus is_space, Plus cls_nonspace,
      Plus is_space, Grp 1 (seqs [Plus cls_nonspace, Lit '':'', Plus is_digit]), Plus is_space,
      Grp 2 (seqs [Plus cls_nonspace, Lit '':'', Cls cls_any]), Plus is_space,
      StarLazy cls_any, Cls is_space, Grp 3 (Plus is_digit), Lit ''/'', Grp 4 (Plus cls_nonspace),
      Star is_space, Eol]"

type_synonym ns_row = "string \<times> string \<times> string \<times> string"

definition ns_row_of :: "string \<Rightarrow> ns_row option" where
  "ns_row_of line =
     map_option (\<lambda>m. (group m 1, group m 2, group m 3, group m 4)) (re_match ns_re line)"

definition parse_netstat :: "world \<Rightarrow> ns_row list result" where
  "parse_netstat w =
     (case netstat_output w of
        None \<Rightarrow> Inl (OSError ''netstat'')
      | Some out \<Rightarrow> Inr (List.map_filter ns_row_of (splitlines out)))"

section \<open>Discovery\<close>

text \<open>
  \<^verbatim>\<open>processes[pid] = [username, proc, rss]\<close>, to which the listening
  addresses of the process are appended.
\<close>

record process =
  p_user :: string
  p_proc :: string
  p_rss :: string
  p_listening :: "string list"

definition add_process :: "ps_row \<Rightarrow> (string, process) pydict \<Rightarrow> (string, process) pydict" where
  "add_process row processes =
     (case row of (username, pid, rss, proc) \<Rightarrow>
        AList.update pid \<lparr>p_user = username, p_proc = proc, p_rss = rss, p_listening = []\<rparr>
          processes)"

definition add_listening :: "ns_row \<Rightarrow> (string, process) pydict \<Rightarrow> (string, process) pydict" where
  "add_listening row processes =
     (case row of (listening_hostport, rhp, pid, proc) \<Rightarrow>
        (case map_of processes pid of
           None \<Rightarrow> processes
         | Some p \<Rightarrow>
             AList.update pid (p\<lparr>p_listening := p_listening p @ [listening_hostport]\<rparr>)
               processes))"

definition merge_process :: "string \<times> process \<Rightarrow> mailpiles \<Rightarrow> mailpiles result" where
  "merge_process item mailpiles =
     (case item of (pid, p) \<Rightarrow>
        if p_listening p = [] then Inr mailpiles
        else
          let hostport = hd (sort (p_listening p))
          in (case py_split CHR '':'' hostport of
                [host, port] \<Rightarrow>
                  (case map_of mailpiles hostport of
                     None \<Rightarrow>
                       Inr (AList.update hostport
                             \<lparr>m_user = p_user p, m_host = host, m_port = port,
                              m_in_htaccess = False, m_pid = Some pid, m_rss = Some (p_rss p),
                              m_kind = PyTuple\<rparr> mailpiles)
                   | Some d \<Rightarrow>
                       rmap (\<lambda>d'. AList.update hostport d' mailpiles) (set_live d pid (p_rss p)))
              | _ \<Rightarrow> Inl ValueError))"

definition processes_of :: "ps_row list \<Rightarrow> ns_row list \<Rightarrow> (string, process) pydict" where
  "processes_of ps ns = fold add_listening ns (fold add_process ps [])"

definition discover_mailpiles :: "world \<Rightarrow> mailpiles \<Rightarrow> mailpiles result" where
  "discover_mailpiles w mailpiles =
     rbind (parse_ps w) (\<lambda>ps.
     rbind (parse_netstat w) (\<lambda>ns.
       rfold merge_process (processes_of ps ns) mailpiles))"

lemmas discover_defs [mp_defs] =
  ps_row_of_def ns_row_of_def parse_ps_def parse_netstat_def add_process_def add_listening_def
  merge_process_def processes_of_def discover_mailpiles_def

section \<open>What one process does to the registry\<close>

text \<open>
  Two entries that differ at most in what discovery writes: pid and rss.
\<close>

definition same_identity :: "details \<Rightarrow> details \<Rightarrow> bool" where
  "same_identity d d' \<longleftrightarrow>
     m_user d' = m_user d \<and> m_host d' = m_host d \<and> m_port d' = m_port d \<and>
     m_in_htaccess d' = m_in_htaccess d \<and> m_kind d' = m_kind d"

lemma same_identity_refl [simp]: "same_identity d d"
  by (simp add: same_identity_def)

lemma same_identity_trans: "same_identity a b \<Longrightarrow> same_identity b c \<Longrightarrow> same_identity a c"
  by (simp add: same_identity_def)

lemma set_live_same_identity: "set_live d pid rss = Inr d' \<Longrightarrow> same_identity d d'"
  by (drule set_live_frame) (simp add: same_identity_def)

lemma py_split_pair: "py_split CHR '':'' hp = [h, p] \<Longrightarrow> hp = hostport_of h p"
  using py_join_py_split [of "CHR '':''" hp] by (simp add: hostport_of_def)

text \<open>
  The cases of \<open>merge_process\<close> that return: nothing listens; a new entry
  is appended under the smallest address; an entry read from the routing file
  gets pid and rss.
\<close>

lemma merge_process_InrE:
  assumes "merge_process (pid, p) mp = Inr mp'"
  obtains (idle) "p_listening p = []" "mp' = mp"
    | (fresh) h q where "p_listening p \<noteq> []" "hd (sort (p_listening p)) = hostport_of h q"
        "map_of mp (hostport_of h q) = None"
        "mp' = AList.update (hostport_of h q)
           \<lparr>m_user = p_user p, m_host = h, m_port = q, m_in_htaccess = False,
            m_pid = Some pid, m_rss = Some (p_rss p), m_kind = PyTuple\<rparr> mp"
    | (known) h q d d' where "p_listening p \<noteq> []" "hd (sort (p_listening p)) = hostport_of h q"
        "map_of mp (hostport_of h q) = Some d" "set_live d pid (p_rss p) = Inr d'"
        "mp' = AList.update (hostport_of h q) d' mp"
proof (cases "p_listening p = []")
  case True
  with assms idle show ?thesis
    by (simp add: merge_process_def)
next
  case False
  let ?hp = "hd (sort (p_listening p))"
  from assms False obtain h q where split: "py_split CHR '':'' ?hp = [h, q]"
    by (auto simp: merge_process_def Let_def split: list.splits)
  then have hp: "?hp = hostport_of h q"
    by (rule py_split_pair)
  show ?thesis
  proof (cases "map_of mp ?hp")
    case None
    with assms False split hp fresh [of h q] show ?thesis
      by (simp add: merge_process_def Let_def)
  next
    case (Some d)
    with assms False split hp obtain d' where "set_live d pid (p_rss p) = Inr d'"
      "mp' = AList.update (hostport_of h q) d' mp"
      by (cases "set_live d pid (p_rss p)") (auto simp: merge_process_def Let_def)
    with False hp Some known [of h q d d'] show ?thesis
      by simp
  qed
qed

lemma merge_process_registry_ok:
  assumes "merge_process (pid, p) mp = Inr mp'" and "registry_ok mp"
  shows "registry_ok mp'"
  using assms(1)
proof (cases rule: merge_process_InrE)
  case idle
  with assms(2) show ?thesis by simp
next
  case (fresh h q)
  with assms(2) show ?thesis
    by (simp add: registry_ok_update)
next
  case (known h q d d')
  from known(3) assms(2) have "(hostport_of h q, d) \<in> set mp"
    by (simp add: registry_ok_def map_of_eq_Some_mem)
  with assms(2) have "hostport_of h q = hostport_of (m_host d) (m_port d)"
    by (auto simp: registry_ok_def keyed_def)
  with set_live_frame [OF known(4)] have "hostport_of h q = hostport_of (m_host d') (m_port d')"
    by simp
  with known(5) assms(2) show ?thesis
    by (simp add: registry_ok_update)
qed

lemma merge_process_keeps:
  assumes "merge_process (pid, p) mp = Inr mp'" and "map_of mp k = Some d"
  shows "\<exists>d'. map_of mp' k = Some d' \<and> same_identity d d'"
  using assms(1)
proof (cases rule: merge_process_InrE)
  case idle
  with assms(2) show ?thesis by simp
next
  case (fresh h q)
  with assms(2) show ?thesis
    by (auto simp: update_conv')
next
  case (known h q d0 d')
  with assms(2) set_live_same_identity [OF known(4)] show ?thesis
    by (auto simp: update_conv')
qed

lemma merge_process_keys:
  assumes "merge_process (pid, p) mp = Inr mp'"
  shows "fst ` set mp' =
    fst ` set mp \<union> (if p_listening p = [] then {} else {hd (sort (p_listening p))})"
  using assms
  by (cases rule: merge_process_InrE) (auto simp: keys_update)

text \<open>What is appended is an unregistered tuple that carries a pid.\<close>

definition discovered :: "details \<Rightarrow> bool" where
  "discovered d \<longleftrightarrow> \<not> m_in_htaccess d \<and> m_pid d \<noteq> None \<and> m_kind d = PyTuple"

lemma merge_process_new:
  assumes "merge_process (pid, p) mp = Inr mp'"
    and "\<forall>d. map_of mp k = Some d \<longrightarrow> discovered d"
  shows "\<forall>d. map_of mp' k = Some d \<longrightarrow> discovered d"
  using assms(1)
proof (cases rule: merge_process_InrE)
  case idle
  with assms(2) show ?thesis by simp
next
  case (fresh h q)
  with assms(2) show ?thesis
    by (auto simp: update_conv' discovered_def)
next
  case (known h q d0 d')
  from known(4) have "m_kind d0 = PyList"
    using set_live_Inr_iff by blast
  with known(3) assms(2) have "k \<noteq> hostport_of h q"
    by (auto simp: discovered_def)
  with known(5) assms(2) show ?thesis
    by (simp add: update_conv')
qed

section \<open>Discovery as a whole\<close>

lemma discover_InrD:
  "discover_mailpiles w mp = Inr mp' \<Longrightarrow>
   \<exists>ps ns. parse_ps w = Inr ps \<and> parse_netstat w = Inr ns \<and>
     rfold merge_process (processes_of ps ns) mp = Inr mp'"
  by (auto simp: discover_mailpiles_def rbind_eq_Inr_iff)

text \<open>
  C22: Discovery keeps the registry well formed: when \<^verbatim>\<open>discover_mailpiles\<close>
  returns, the keys of the dictionary are still distinct and every entry,
  old or new, sits under its own \<^verbatim>\<open>host:port\<close>.
\<close>

theorem discover_registry_ok:
  assumes "registry_ok mp" and "discover_mailpiles w mp = Inr mp'"
  shows "registry_ok mp'"
proof -
  from assms(2) obtain ps ns where "rfold merge_process (processes_of ps ns) mp = Inr mp'"
    by (blast dest: discover_InrD)
  then show ?thesis
    using assms(1) by (rule rfold_invariant) (auto intro: merge_process_registry_ok)
qed

text \<open>
  C4: Discovery never changes who an entry belongs to: an entry that was in
  the registry before is still there under the same key, with the same user,
  host, port and \<^verbatim>\<open>in_htaccess\<close> flag; only pid and rss may be new.
\<close>

theorem discover_keeps_identity:
  assumes "discover_mailpiles w mp = Inr mp'" and "map_of mp k = Some d"
  shows "\<exists>d'. map_of mp' k = Some d' \<and> same_identity d d'"
proof -
  from assms(1) obtain ps ns where "rfold merge_process (processes_of ps ns) mp = Inr mp'"
    by (blast dest: discover_InrD)
  then show ?thesis
  proof (rule rfold_invariant)
    show "\<exists>d'. map_of mp k = Some d' \<and> same_identity d d'"
      using assms(2) by simp
  next
    fix x a b
    assume "\<exists>d'. map_of a k = Some d' \<and> same_identity d d'" and "merge_process x a = Inr b"
    then show "\<exists>d'. map_of b k = Some d' \<and> same_identity d d'"
      by (cases x) (blast dest: merge_process_keeps intro: same_identity_trans)
  qed
qed

text \<open>
  C23: What discovery adds is unregistered: an entry under a key that was not
  in the registry before is a tuple with \<^verbatim>\<open>in_htaccess = False\<close> and the pid
  of the process found.
\<close>

theorem discover_new_unregistered:
  assumes "discover_mailpiles w mp = Inr mp'" and "map_of mp k = None"
    and "map_of mp' k = Some d"
  shows "discovered d"
proof -
  from assms(1) obtain ps ns where "rfold merge_process (processes_of ps ns) mp = Inr mp'"
    by (blast dest: discover_InrD)
  then have "\<forall>d. map_of mp' k = Some d \<longrightarrow> discovered d"
  proof (rule rfold_invariant)
    show "\<forall>d. map_of mp k = Some d \<longrightarrow> discovered d"
      using assms(2) by simp
  next
    fix x a b
    assume "\<forall>d. map_of a k = Some d \<longrightarrow> discovered d" and "merge_process x a = Inr b"
    then show "\<forall>d. map_of b k = Some d \<longrightarrow> discovered d"
      by (cases x) (blast dest: merge_process_new)
  qed
  with assms(3) show ?thesis
    by simp
qed

section \<open>The example of the specification\<close>

text \<open>
  The routing file knows alice at \<^verbatim>\<open>h:1\<close>; process 100 listens on
  \<^verbatim>\<open>h:1\<close> and bob's process 200 on \<^verbatim>\<open>h:2\<close>.
\<close>

definition two_processes :: world where
  "two_processes = quiet_world
     \<lparr>ps_output := Some (''alice 100 0.0 0.1 5000 2000 ? S 10:00 0:01 mailpile\<newline>'' @
                          ''bob 200 0.0 0.1 5000 3000 ? S 10:00 0:01 python2 /opt/mp\<newline>''),
      netstat_output := Some (''tcp 0 0 h:1 0.0.0.0:* LISTEN 100/python2\<newline>'' @
                               ''tcp 0 0 h:2 0.0.0.0:* LISTEN 200/python2\<newline>'')\<rparr>"

definition alice_registered :: mailpiles where
  "alice_registered =
     [(''h:1'', \<lparr>m_user = ''alice'', m_host = ''h'', m_port = ''1'', m_in_htaccess = True,
                m_pid = None, m_rss = None, m_kind = PyList\<rparr>)]"

definition alice_and_bob :: mailpiles where
  "alice_and_bob =
     [(''h:1'', \<lparr>m_user = ''alice'', m_host = ''h'', m_port = ''1'', m_in_htaccess = True,
                m_pid = Some ''100'', m_rss = Some ''2000'', m_kind = PyList\<rparr>),
      (''h:2'', \<lparr>m_user = ''bob'', m_host = ''h'', m_port = ''2'', m_in_htaccess = False,
                m_pid = Some ''200'', m_rss = Some ''3000'', m_kind = PyTuple\<rparr>)]"

lemmas eval_defs =
  re_match_def group_def py_defs less_eq_char_def splitlines_def List.map_filter_def Let_def

lemma parse_ps_two_processes:
  "parse_ps two_processes =
     Inr [(''alice'', ''100'', ''2000'', ''mailpile''), (''bob'', ''200'', ''3000'', ''python2 /opt/mp'')]"
  by (simp add: two_processes_def quiet_world_def parse_ps_def ps_row_of_def ps_re_def eval_defs)

lemma parse_netstat_two_processes:
  "parse_netstat two_processes =
     Inr [(''h:1'', ''0.0.0.0:*'', ''100'', ''python2''), (''h:2'', ''0.0.0.0:*'', ''200'', ''python2'')]"
  by (simp add: two_processes_def quiet_world_def parse_netstat_def ns_row_of_def ns_re_def
      eval_defs)

lemma discover_two_processes:
  "discover_mailpiles two_processes alice_registered = Inr alice_and_bob"
  by (simp add: discover_mailpiles_def parse_ps_two_processes parse_netstat_two_processes
      processes_of_def add_process_def add_listening_def merge_process_def set_live_def
      alice_registered_def alice_and_bob_def)

theorem discover_registry_ok_witness:
  "registry_ok alice_registered \<and>
   discover_mailpiles two_processes alice_registered = Inr alice_and_bob \<and>
   registry_ok alice_and_bob"
proof -
  have ok: "registry_ok alice_registered"
    by (simp add: registry_ok_def keyed_def alice_registered_def hostport_of_def)
  with discover_registry_ok [OF ok discover_two_processes] discover_two_processes
  show ?thesis
    by simp
qed

theorem discover_keeps_identity_witness:
  "\<exists>d'. map_of alice_and_bob ''h:1'' = Some d' \<and> m_user d' = ''alice'' \<and> m_in_htaccess d' \<and>
     m_pid d' = Some ''100''"
proof -
  have "map_of alice_registered ''h:1'' = Some (snd (hd alice_registered))"
    by (simp add: alice_registered_def)
  from discover_keeps_identity [OF discover_two_processes this]
  show ?thesis
    by (auto simp: same_identity_def alice_registered_def alice_and_bob_def)
qed

theorem discover_new_unregistered_witness:
  "map_of alice_registered ''h:2'' = None \<and>
   (\<exists>d. map_of alice_and_bob ''h:2'' = Some d \<and> m_user d = ''bob'' \<and> \<not> m_in_htaccess d)"
proof -
  have none: "map_of alice_registered ''h:2'' = None"
    by (simp add: alice_registered_def)
  have some: "map_of alice_and_bob ''h:2'' = Some (snd (alice_and_bob ! 1))"
    by (simp add: alice_and_bob_def)
  from discover_new_unregistered [OF discover_two_processes none some] none some
  show ?thesis
    by (simp add: discovered_def alice_and_bob_def)
qed

text \<open>
  Discovery is not best effort. When \<^verbatim>\<open>ps\<close> or \<^verbatim>\<open>netstat\<close> cannot
  be started, \<^verbatim>\<open>discover_mailpiles\<close> raises the \<^verbatim>\<open>OSError\<close> of
  \<^verbatim>\<open>subprocess.Popen\<close>, and no caller catches it.
\<close>

theorem discover_needs_tools:
  assumes "ps_output w = None \<or> netstat_output w = None"
  shows "discover_mailpiles w mp = Inl (OSError (if ps_output w = None then ''ps'' else ''netstat''))"
  using assms
  by (auto simp: discover_mailpiles_def parse_ps_def parse_netstat_def split: option.splits)

theorem discover_needs_tools_witness:
  "discover_mailpiles (two_processes\<lparr>netstat_output := None\<rparr>) [] = Inl (OSError ''netstat'')"
  using discover_needs_tools [of "two_processes\<lparr>netstat_output := None\<rparr>" "[]"]
  by (simp add: two_processes_def)


end
