(* ===== verification/PortAllocator.thy ===== *)
theory PortAllocator
  imports ProcessSnapshot
begin

text \<open>
  \<^verbatim>\<open>_get_random_port\<close>: up to a hundred random ports between 34110 and
  64110, each checked against the local addresses \<^verbatim>\<open>netstat\<close> lists.

  \<^verbatim>\<open>ns = _parse_netstat()\<close> is a generator, made once before the loop over
  the tries, and the inner \<^verbatim>\<open>for ... in ns\<close> takes rows from it until one
  collides. So a try does not see the rows an earlier try has taken: the
  model passes what is left of the generator from one try to the next.
\<close>

section \<open>The allocator\<close>

definition port_taken :: "string \<Rightarrow> ns_row \<Rightarrow> bool" where
  "port_taken cport row = (case row of (lhp, rhp, pid, proc) \<Rightarrow> endswith lhp cport)"

text \<open>
  The inner loop: whether a row collides, and the rows left in the generator
  when the loop ends (by \<^verbatim>\<open>break\<close> behind the colliding row, or at the end).
\<close>

fun scan_ports :: "string \<Rightarrow> ns_row list \<Rightarrow> bool \<times> ns_row list" where
  "scan_ports cport [] = (False, [])"
| "scan_ports cport (row # ns) =
     (if port_taken cport row then (True, ns) else scan_ports cport ns)"

fun try_ports :: "nat \<Rightarrow> ns_row list \<Rightarrow> world \<Rightarrow> string io" where
  "try_ports 0 ns w = (Inl AssertionError, w)"
| "try_ports (Suc tries) ns w =
     (let (n, w') = randint w 34110 64110;
          port = str_of_nat n;
          (taken, ns') = scan_ports (CHR '':'' # port) ns
      in if taken then try_ports tries ns' w' else (Inr port, w'))"

text \<open>
  The child process is started when the generator is first asked for a row,
  which is after the first draw: if \<^verbatim>\<open>netstat\<close> cannot be started, one
  random number is gone.
\<close>

definition get_random_port :: "world \<Rightarrow> string io" where
  "get_random_port w =
     (case parse_netstat w of
        Inl e \<Rightarrow> (Inl e, snd (randint w 34110 64110))
      | Inr ns \<Rightarrow> try_ports 100 ns w)"

lemmas port_defs [mp_defs] = port_taken_def get_random_port_def

section \<open>The inner loop\<close>

text \<open>
  Without a collision every row was looked at; with one, the rows up to it
  are gone and it was the first that collides.
\<close>

lemma scan_ports_taken_iff:
  "fst (scan_ports cport ns) \<longleftrightarrow> (\<exists>row \<in> set ns. port_taken cport row)"
  by (induction ns) auto

lemma scan_ports_free: "scan_ports cport ns = (False, ns') \<Longrightarrow> row \<in> set ns \<Longrightarrow> \<not> port_taken cport row"
  using scan_ports_taken_iff [of cport ns] by auto

lemma scan_ports_True:
  "scan_ports cport ns = (True, ns') \<Longrightarrow>
   \<exists>pre row. ns = pre @ row # ns' \<and> port_taken cport row \<and> (\<forall>r \<in> set pre. \<not> port_taken cport r)"
proof (induction ns)
  case Nil
  then show ?case by simp
next
  case (Cons r ns)
  show ?case
  proof (cases "port_taken cport r")
    case True
    with Cons.prems show ?thesis
      by (intro exI [of _ "[]"] exI [of _ r]) simp
  next
    case False
    with Cons obtain pre row where "ns = pre @ row # ns'" "port_taken cport row"
      "\<forall>r \<in> set pre. \<not> port_taken cport r"
      by auto
    with False show ?thesis
      by (intro exI [of _ "r # pre"] exI [of _ row]) simp
  qed
qed

lemma scan_ports_shorter: "scan_ports cport ns = (True, ns') \<Longrightarrow> length ns' < length ns"
  by (drule scan_ports_True) auto

lemma scan_ports_suffix: "scan_ports cport ns = (b, ns') \<Longrightarrow> suffix ns' ns"
proof (induction ns)
  case Nil
  then show ?case by simp
next
  case (Cons r ns)
  then show ?case
    by (auto simp: suffix_Cons split: if_splits)
qed

section \<open>The tries\<close>

text \<open>
  One unfolding of the loop over the tries, with the draw and the scan named.
\<close>

lemma try_ports_Suc:
  "try_ports (Suc tries) ns w =
     (if fst (scan_ports (CHR '':'' # str_of_nat (fst (randint w 34110 64110))) ns)
      then try_ports tries (snd (scan_ports (CHR '':'' # str_of_nat (fst (randint w 34110 64110))) ns))
             (snd (randint w 34110 64110))
      else (Inr (str_of_nat (fst (randint w 34110 64110))), snd (randint w 34110 64110)))"
  by (simp add: Let_def split_beta)

declare try_ports.simps(2) [simp del]

lemma scan_ports_consumed:
  assumes "scan_ports cport ns = (True, ns')" and "suffix rest ns'"
    and "k \<le> length ns' - length rest"
  shows "suffix rest ns" and "Suc k \<le> length ns - length rest"
proof -
  from assms(2) scan_ports_suffix [OF assms(1)] show "suffix rest ns"
    by (rule suffix_order.trans)
  from scan_ports_shorter [OF assms(1)] assms(3) suffix_length_le [OF assms(2)]
  show "Suc k \<le> length ns - length rest"
    by simp
qed

text \<open>
  What a returned port is known to be free of: the rows that were left in the
  generator when its try began.
\<close>

lemma try_ports_Inr:
  "try_ports tries ns w = (Inr port, w') \<Longrightarrow>
   \<exists>n rest. port = str_of_nat n \<and> 34110 \<le> n \<and> n \<le> 64110 \<and> suffix rest ns \<and>
     (\<forall>row \<in> set rest. \<not> port_taken (CHR '':'' # port) row) \<and>
     rand_used w < rand_used w' \<and> rand_used w' \<le> rand_used w + tries \<and>
     length ns - length rest \<ge> rand_used w' - Suc (rand_used w)"
proof (induction tries arbitrary: ns w)
  case 0
  then show ?case by simp
next
  case (Suc tries)
  let ?n = "fst (randint w 34110 64110)"
  let ?w = "snd (randint w 34110 64110)"
  let ?sc = "scan_ports (CHR '':'' # str_of_nat ?n) ns"
  have range: "34110 \<le> ?n \<and> ?n \<le> 64110"
    by (rule randint_range) simp
  show ?case
  proof (cases "fst ?sc")
    case False
    with Suc.prems have "port = str_of_nat ?n" and "w' = ?w"
      by (simp_all add: try_ports_Suc)
    with False range show ?thesis
      by (intro exI [of _ ?n] exI [of _ ns]) (simp add: scan_ports_taken_iff)
  next
    case True
    with Suc.prems have rec: "try_ports tries (snd ?sc) ?w = (Inr port, w')"
      by (simp add: try_ports_Suc)
    from True have sc: "?sc = (True, snd ?sc)"
      by (metis prod.collapse)
    from Suc.IH [OF rec] obtain n rest where r: "port = str_of_nat n" "34110 \<le> n" "n \<le> 64110"
      "suffix rest (snd ?sc)" "\<forall>row \<in> set rest. \<not> port_taken (CHR '':'' # port) row"
      "rand_used ?w < rand_used w'" "rand_used w' \<le> rand_used ?w + tries"
      "length (snd ?sc) - length rest \<ge> rand_used w' - Suc (rand_used ?w)"
      by blast
    from scan_ports_consumed [OF sc r(4,8)] r show ?thesis
      by (intro exI [of _ n] exI [of _ rest]) simp
  qed
qed

text \<open>Giving up takes a collision in every try, and each collision takes a row.\<close>

lemma try_ports_Inl:
  "try_ports tries ns w = (Inl e, w') \<Longrightarrow>
   e = AssertionError \<and> tries \<le> length ns \<and> rand_used w' = rand_used w + tries"
proof (induction tries arbitrary: ns w)
  case 0
  then show ?case by simp
next
  case (Suc tries)
  let ?w = "snd (randint w 34110 64110)"
  let ?sc = "scan_ports (CHR '':'' # str_of_nat (fst (randint w 34110 64110))) ns"
  from Suc.prems have taken: "fst ?sc" and rec: "try_ports tries (snd ?sc) ?w = (Inl e, w')"
    by (auto simp: try_ports_Suc split: if_splits)
  from taken have "?sc = (True, snd ?sc)"
    by (metis prod.collapse)
  then have "length (snd ?sc) < length ns"
    by (rule scan_ports_shorter)
  with Suc.IH [OF rec] show ?case
    by simp
qed

lemma try_ports_numeral:
  "try_ports (numeral k) ns w =
     (if fst (scan_ports (CHR '':'' # str_of_nat (fst (randint w 34110 64110))) ns)
      then try_ports (pred_numeral k)
             (snd (scan_ports (CHR '':'' # str_of_nat (fst (randint w 34110 64110))) ns))
             (snd (randint w 34110 64110))
      else (Inr (str_of_nat (fst (randint w 34110 64110))), snd (randint w 34110 64110)))"
  unfolding numeral_eq_Suc [of k] by (rule try_ports_Suc)

section \<open>The allocator as a whole\<close>

text \<open>
  C3: A port returned by the first try is free: if \<^verbatim>\<open>_get_random_port\<close>
  returns after one draw, no local address that \<^verbatim>\<open>netstat\<close> lists ends in
  \<^verbatim>\<open>:port\<close>.
\<close>

theorem first_try_port_free:
  assumes "parse_netstat w = Inr ns" and "get_random_port w = (Inr port, w')"
    and "rand_used w' = Suc (rand_used w)" and "row \<in> set ns"
  shows "\<not> port_taken (CHR '':'' # port) row"
proof -
  let ?n = "fst (randint w 34110 64110)"
  let ?sc = "scan_ports (CHR '':'' # str_of_nat ?n) ns"
  from assms(1,2) have "try_ports 100 ns w = (Inr port, w')"
    by (simp add: get_random_port_def)
  then have run: "(if fst ?sc then try_ports 99 (snd ?sc) (snd (randint w 34110 64110))
      else (Inr (str_of_nat ?n), snd (randint w 34110 64110))) = (Inr port, w')"
    using try_ports_Suc [of 99 ns w] by simp
  have free: "\<not> fst ?sc"
  proof
    assume "fst ?sc"
    with run have "try_ports 99 (snd ?sc) (snd (randint w 34110 64110)) = (Inr port, w')"
      by (simp only: if_True)
    from try_ports_Inr [OF this] have "Suc (rand_used w) < rand_used w'"
      by auto
    with assms(3) show False
      by simp
  qed
  with run have port: "port = str_of_nat ?n"
    by (simp only: if_False prod.inject sum.inject)
  from free have "\<forall>r \<in> set ns. \<not> port_taken (CHR '':'' # str_of_nat ?n) r"
    by (simp add: scan_ports_taken_iff)
  then show ?thesis
    unfolding port using assms(4) by (rule bspec)
qed

text \<open>
  C24: A returned port is the decimal form of a number between 34110 and
  64110, and \<^verbatim>\<open>_get_random_port\<close> draws at least one and at most a hundred
  random numbers to find it.
\<close>

theorem port_in_range:
  assumes "get_random_port w = (Inr port, w')"
  shows "\<exists>n. port = str_of_nat n \<and> 34110 \<le> n \<and> n \<le> 64110 \<and>
    rand_used w < rand_used w' \<and> rand_used w' \<le> rand_used w + 100"
proof -
  from assms obtain ns where "try_ports 100 ns w = (Inr port, w')"
    by (auto simp: get_random_port_def split: sum.splits)
  from try_ports_Inr [OF this] show ?thesis
    by blast
qed

text \<open>The allocator does nothing but draw numbers.\<close>

lemma try_ports_only_printed: "try_ports tries ns w = (r, w') \<Longrightarrow> only_printed w w'"
proof (induction tries arbitrary: ns w)
  case 0
  then show ?case by auto
next
  case (Suc tries)
  have "only_printed w (snd (randint w 34110 64110))"
    by simp
  also from Suc.prems have "only_printed (snd (randint w 34110 64110)) w'"
    by (auto simp: try_ports_Suc split: if_splits dest: Suc.IH)
  finally show ?case .
qed

lemma get_random_port_only_printed: "get_random_port w = (r, w') \<Longrightarrow> only_printed w w'"
  by (auto simp: get_random_port_def split: sum.splits dest: try_ports_only_printed)

text \<open>
  The other direction: when every draw gives the same port and that port
  collides with each of at least as many rows as there are tries, every try
  fails.
\<close>

lemma try_ports_all_taken:
  assumes "\<And>i. str_of_nat (34110 + randoms w i mod 30001) = port"
    and "port_taken (CHR '':'' # port) row" and "tries \<le> m"
  shows "try_ports tries (replicate m row) w = (Inl AssertionError, w\<lparr>rand_used := rand_used w + tries\<rparr>)"
  using assms
proof (induction tries arbitrary: m w)
  case 0
  then show ?case by simp
next
  case (Suc tries)
  then obtain m' where m: "m = Suc m'" "tries \<le> m'"
    by (cases m) auto
  have "try_ports tries (replicate m' row) (w\<lparr>rand_used := Suc (rand_used w)\<rparr>) =
    (Inl AssertionError, w\<lparr>rand_used := Suc (rand_used w)\<rparr>\<lparr>rand_used := rand_used (w\<lparr>rand_used := Suc (rand_used w)\<rparr>) + tries\<rparr>)"
    using Suc.prems(1,2) m(2) by (intro Suc.IH) simp_all
  with Suc.prems(1,2) show ?case
    by (simp add: try_ports_Suc m randint_def)
qed

text \<open>
  C25: \<^verbatim>\<open>_get_random_port\<close> gives up only with \<^verbatim>\<open>AssertionError\<close>, after
  exactly a hundred draws, and only if \<^verbatim>\<open>netstat\<close> listed at least a hundred
  sockets: every failed try takes at least one row from the generator. Any
  other error is that of starting \<^verbatim>\<open>netstat\<close>.
\<close>

theorem gives_up_after_100:
  assumes "parse_netstat w = Inr ns" and "get_random_port w = (Inl e, w')"
  shows "e = AssertionError \<and> 100 \<le> length ns \<and> rand_used w' = rand_used w + 100"
proof -
  from assms have "try_ports 100 ns w = (Inl e, w')"
    by (simp add: get_random_port_def)
  from try_ports_Inl [OF this] show ?thesis .
qed

text \<open>
  C16: With fewer than a hundred listening sockets the allocator always
  returns a port, whatever the random source draws, and it draws at most one
  number more than \<^verbatim>\<open>netstat\<close> has rows: every try that fails uses up a row
  of the generator, and a try that finds the generator empty succeeds.
\<close>

theorem returns_port_within_rows:
  assumes "parse_netstat w = Inr ns" and "length ns < 100"
  shows "\<exists>port w'. get_random_port w = (Inr port, w') \<and> rand_used w' \<le> rand_used w + length ns + 1"
proof -
  obtain r w' where t: "try_ports 100 ns w = (r, w')"
    by force
  show ?thesis
  proof (cases r)
    case (Inl e)
    with t try_ports_Inl [of 100 ns w e w'] assms(2) show ?thesis
      by simp
  next
    case (Inr port)
    with t have "try_ports 100 ns w = (Inr port, w')"
      by simp
    from try_ports_Inr [OF this] obtain rest :: "ns_row list"
      where "length ns - length rest \<ge> rand_used w' - Suc (rand_used w)"
      by blast
    then have "rand_used w' \<le> rand_used w + length ns + 1"
      by simp
    with t Inr assms(1) show ?thesis
      by (simp add: get_random_port_def)
  qed
qed

section \<open>Closed instances\<close>

text \<open>
  Two sockets, on ports 40000 and 40001. In \<open>one_draw\<close> the first number
  drawn is 40002; in \<open>stale_scan\<close> it is 40001 and the second 40000.
\<close>

definition two_sockets :: string where
  "two_sockets = ''tcp 0 0 h:40000 0.0.0.0:* LISTEN 1/x\<newline>'' @
                 ''tcp 0 0 h:40001 0.0.0.0:* LISTEN 2/y\<newline>''"

definition one_draw :: world where
  "one_draw = quiet_world\<lparr>netstat_output := Some two_sockets, randoms := (\<lambda>i. 5892)\<rparr>"

definition stale_scan :: world where
  "stale_scan = quiet_world
     \<lparr>netstat_output := Some two_sockets, randoms := (\<lambda>i. if i = 0 then 5891 else 5890)\<rparr>"

lemma parse_two_sockets:
  "List.map_filter ns_row_of (splitlines two_sockets) =
     [(''h:40000'', ''0.0.0.0:*'', ''1'', ''x''), (''h:40001'', ''0.0.0.0:*'', ''2'', ''y'')]"
  by (simp add: two_sockets_def ns_row_of_def ns_re_def eval_defs)

lemma parse_netstat_one_draw:
  "parse_netstat one_draw =
     Inr [(''h:40000'', ''0.0.0.0:*'', ''1'', ''x''), (''h:40001'', ''0.0.0.0:*'', ''2'', ''y'')]"
  by (simp add: parse_netstat_def one_draw_def quiet_world_def parse_two_sockets)

lemma parse_netstat_stale_scan:
  "parse_netstat stale_scan =
     Inr [(''h:40000'', ''0.0.0.0:*'', ''1'', ''x''), (''h:40001'', ''0.0.0.0:*'', ''2'', ''y'')]"
  by (simp add: parse_netstat_def stale_scan_def quiet_world_def parse_two_sockets)

lemmas port_eval =
  try_ports_numeral randint_def quiet_world_def digit_char_def port_taken_def endswith_def

lemma get_random_port_one_draw:
  "get_random_port one_draw = (Inr ''40002'', one_draw\<lparr>rand_used := 1\<rparr>)"
proof -
  have "get_random_port one_draw =
      try_ports 100 [(''h:40000'', ''0.0.0.0:*'', ''1'', ''x''), (''h:40001'', ''0.0.0.0:*'', ''2'', ''y'')]
        one_draw"
    by (simp add: get_random_port_def parse_netstat_one_draw)
  also have "\<dots> = (Inr ''40002'', one_draw\<lparr>rand_used := 1\<rparr>)"
    by (simp add: port_eval one_draw_def)
  finally show ?thesis .
qed

theorem first_try_port_free_witness:
  "get_random_port one_draw = (Inr ''40002'', one_draw\<lparr>rand_used := 1\<rparr>) \<and>
   \<not> port_taken '':40002'' (''h:40000'', ''0.0.0.0:*'', ''1'', ''x'') \<and>
   \<not> port_taken '':40002'' (''h:40001'', ''0.0.0.0:*'', ''2'', ''y'')"
proof -
  have used: "rand_used (one_draw\<lparr>rand_used := 1\<rparr>) = Suc (rand_used one_draw)"
    by (simp add: one_draw_def quiet_world_def)
  note free = first_try_port_free [OF parse_netstat_one_draw get_random_port_one_draw used]
  from free [of "(''h:40000'', ''0.0.0.0:*'', ''1'', ''x'')"]
    free [of "(''h:40001'', ''0.0.0.0:*'', ''2'', ''y'')"] get_random_port_one_draw
  show ?thesis
    by simp
qed

theorem port_in_range_witness:
  "\<exists>n. ''40002'' = str_of_nat n \<and> 34110 \<le> n \<and> n \<le> 64110"
  using port_in_range [OF get_random_port_one_draw] by blast

theorem returns_port_within_rows_witness:
  "\<exists>port w'. get_random_port stale_scan = (Inr port, w') \<and>
     rand_used w' \<le> rand_used stale_scan + length [(''h:40000'', ''0.0.0.0:*'', ''1'', ''x''),
       (''h:40001'', ''0.0.0.0:*'', ''2'', ''y'')] + 1"
  by (rule returns_port_within_rows [OF parse_netstat_stale_scan]) simp

text \<open>
  A hundred sockets on port 40000 and a source that always draws 40000.
\<close>

definition crowded :: world where
  "crowded = quiet_world
     \<lparr>netstat_output := Some (concat (replicate 100 (''tcp 0 0 h:40000 0.0.0.0:* LISTEN 1/x'' @ [CHR 0x0A]))),
      randoms := (\<lambda>i. 5890)\<rparr>"

lemma parse_netstat_crowded:
  "parse_netstat crowded = Inr (replicate 100 (''h:40000'', ''0.0.0.0:*'', ''1'', ''x''))"
proof -
  have "ns_row_of ''tcp 0 0 h:40000 0.0.0.0:* LISTEN 1/x'' = Some (''h:40000'', ''0.0.0.0:*'', ''1'', ''x'')"
    by (simp add: ns_row_of_def ns_re_def eval_defs)
  moreover have "splitlines (concat (replicate 100 (''tcp 0 0 h:40000 0.0.0.0:* LISTEN 1/x'' @ [CHR 0x0A])))
      = replicate 100 ''tcp 0 0 h:40000 0.0.0.0:* LISTEN 1/x''"
    by (rule splitlines_replicate) simp_all
  ultimately show ?thesis
    unfolding parse_netstat_def crowded_def quiet_world_def
    by (simp only: world.simps option.case map_filter_replicate)
qed

lemma get_random_port_crowded:
  "get_random_port crowded = (Inl AssertionError, crowded\<lparr>rand_used := 100\<rparr>)"
proof -
  have "get_random_port crowded = try_ports 100 (replicate 100 (''h:40000'', ''0.0.0.0:*'', ''1'', ''x'')) crowded"
    by (simp add: get_random_port_def parse_netstat_crowded)
  also have "\<dots> = (Inl AssertionError, crowded\<lparr>rand_used := rand_used crowded + 100\<rparr>)"
    by (rule try_ports_all_taken [where port = "''40000''"])
      (simp_all add: crowded_def quiet_world_def port_taken_def endswith_def digit_char_def)
  finally show ?thesis
    by (simp add: crowded_def quiet_world_def)
qed

theorem gives_up_after_100_witness:
  "get_random_port crowded = (Inl AssertionError, crowded\<lparr>rand_used := 100\<rparr>) \<and>
   100 \<le> length (replicate 100 (''h:40000'', ''0.0.0.0:*'', ''1'', ''x'')) \<and>
   rand_used (crowded\<lparr>rand_used := 100\<rparr>) = rand_used crowded + 100"
  using gives_up_after_100 [OF parse_netstat_crowded get_random_port_crowded]
    get_random_port_crowded by simp

text \<open>
  C26: The port check misses sockets. In \<open>stale_scan\<close> the first try draws
  40001, which collides with the second row; the rows up to there are gone
  from the generator, the second try draws 40000, finds nothing left to
  compare with, and \<^verbatim>\<open>_get_random_port\<close> returns 40000, the port of the first
  socket \<^verbatim>\<open>netstat\<close> listed.
\<close>

theorem stale_scan_returns_taken_port:
  "\<exists>port w' ns. get_random_port stale_scan = (Inr port, w') \<and>
     parse_netstat stale_scan = Inr ns \<and> (\<exists>row \<in> set ns. port_taken (CHR '':'' # port) row)"
proof -
  have "get_random_port stale_scan =
      try_ports 100 [(''h:40000'', ''0.0.0.0:*'', ''1'', ''x''), (''h:40001'', ''0.0.0.0:*'', ''2'', ''y'')]
        stale_scan"
    by (simp add: get_random_port_def parse_netstat_stale_scan)
  also have "\<dots> = (Inr ''40000'', stale_scan\<lparr>rand_used := 2\<rparr>)"
    by (simp add: port_eval stale_scan_def)
  finally have "get_random_port stale_scan = (Inr ''40000'', stale_scan\<lparr>rand_used := 2\<rparr>)" .
  moreover have "port_taken '':40000'' (''h:40000'', ''0.0.0.0:*'', ''1'', ''x'')"
    by (simp add: port_taken_def endswith_def)
  ultimately show ?thesis
    using parse_netstat_stale_scan by auto
qed

end
