(* ===== verification/RouteStore.thy ===== *)
theory RouteStore
  imports Regex Escape World Instance
begin

text \<open>
  The routing file: \<^verbatim>\<open>parse_htaccess\<close> reads the registered Mailpiles from
  it and \<^verbatim>\<open>save_htaccess\<close> writes it again from a registry, one
  \<^verbatim>\<open>RewriteRule\<close> per user. Both take \<^verbatim>\<open>args\<close> and use nothing of it;
  \<^verbatim>\<open>parse_htaccess\<close> takes \<^verbatim>\<open>os_settings\<close> and uses nothing of it either.
  The iteration order of the registry is the order of its list.
\<close>

section \<open>Constants\<close>

definition APACHE_HTACCESS_PATH :: string where
  "APACHE_HTACCESS_PATH = ''/var/lib/mailpile/apache/.htaccess''"

definition APACHE_REWRITE_TEMPLATE :: string where
  "APACHE_REWRITE_TEMPLATE =
     ''RewriteRule ^(%(user)s/.*)$  http://%(host)s:%(port)s/mailpile/$1  [P,L,QSA]  # MP''"

definition APACHE_HTACCESS_TEMPLATE :: string where
  \<open>APACHE_HTACCESS_TEMPLATE =
     ''# Note: Autogenerated by mailpile-admin.py, edit at your own risk!\<newline>'' @
     ''\<newline>'' @
     ''# These are our configured Mailpiles:\<newline>'' @
     ''%(rewriterules)s\<newline>'' @
     ''\<newline>'' @
     ''# Redirect any proxy errors or 404 errors to mailpile-admin.py:\<newline>'' @
     ''ErrorDocument 503 %(webroot)snot-running.html\<newline>'' @
     ''ErrorDocument 404 %(webroot)snot-running.html\<newline>'' @
     ''RewriteRule ^not-running.html %(webroot)s [L,R=302,E=nolcache:1]\<newline>'' @
     ''Header always set Cache-Control "no-store, no-cache, must-revalidate" env=nocache\<newline>'' @
     ''Header always set Expires "Thu, 01 Jan 1970 00:00:00 GMT" env=nocache\<newline>''\<close>

section \<open>Reading\<close>

text \<open>
  \<^verbatim>\<open>^RewriteRule\s+[^a-z]+([a-z0-9]+).*?\/\/([^:]+):(\d+)\/.*# MP\s*$\<close>
\<close>

definition htaccess_re :: regex where
  "htaccess_re = seqs
     [Bol, Lit ''RewriteRule'', Plus is_space, Plus cls_nonlower, Grp 1 (Plus cls_lower_digit),
      StarLazy cls_any, Lit ''//'', Grp 2 (Plus (cls_not CHR '':'')), Lit '':'',
      Grp 3 (Plus is_digit), Lit ''/'', Star cls_any, Lit ''# MP'', Star is_space, Eol]"

definition parse_line :: "string \<Rightarrow> mailpiles \<Rightarrow> mailpiles" where
  "parse_line line mailpiles =
     (case re_match htaccess_re line of
        None \<Rightarrow> mailpiles
      | Some m \<Rightarrow>
          let host = group m 2; port = group m 3
          in AList.update (hostport_of host port) (registered (group m 1) host port) mailpiles)"

text \<open>
  A routing file that cannot be opened is reported on standard output and
  leaves the registry as it was.
\<close>

definition parse_htaccess :: "world \<Rightarrow> mailpiles \<Rightarrow> mailpiles \<times> world" where
  "parse_htaccess w mailpiles =
     (case read_file w APACHE_HTACCESS_PATH of
        Inl err \<Rightarrow>
          (mailpiles,
           print_line w (''WARNING: [Errno 2] No such file or directory: '' @ [CHR 0x27] @
             APACHE_HTACCESS_PATH @ [CHR 0x27]))
      | Inr text \<Rightarrow> (fold parse_line (file_lines text) mailpiles, w))"

section \<open>Writing\<close>

text \<open>
  The loop of \<^verbatim>\<open>save_htaccess\<close>: \<open>rules\<close> and \<open>added\<close> are its two
  accumulators, the warnings go to standard output.
\<close>

definition rule_for :: "details \<Rightarrow> string result" where
  "rule_for d =
     rbind (escape (m_user d)) (\<lambda>u.
       py_format APACHE_REWRITE_TEMPLATE
         [(''user'', u), (''host'', m_host d), (''port'', m_port d)])"

fun save_loop :: "mailpiles \<Rightarrow> string list \<Rightarrow> string list \<Rightarrow> world \<Rightarrow> string list io" where
  "save_loop [] rules added w = (Inr rules, w)"
| "save_loop ((hostport, d) # rest) rules added w =
     (if m_user d \<notin> set added then
        (case rule_for d of
           Inl e \<Rightarrow> (Inl e, w)
         | Inr rule \<Rightarrow> save_loop rest (rules @ [rule]) (added @ [m_user d]) w)
      else
        save_loop rest rules added
          (print_line w (''WARNING: User '' @ m_user d @ '' has multiple Mailpiles! Skipped '' @
             hostport)))"

text \<open>
  The new file is opened for writing before its text is made, then written,
  then the old file is removed and the new one renamed. The caller's
  \<^verbatim>\<open>os_settings\<close> gets the key \<^verbatim>\<open>rewriterules\<close>; it is returned.
\<close>

definition save_htaccess ::
  "world \<Rightarrow> (string, string) pydict \<Rightarrow> mailpiles \<Rightarrow> (string, string) pydict io" where
  "save_htaccess w os_settings mailpiles =
     then_do (save_loop mailpiles [] [] w) (\<lambda>rules w1.
       let new = APACHE_HTACCESS_PATH @ ''.new'';
           w2 = write_file w1 new [];
           os_settings' = AList.update ''rewriterules'' (py_join ''\<newline>'' rules) os_settings
       in (case py_format APACHE_HTACCESS_TEMPLATE os_settings' of
             Inl e \<Rightarrow> (Inl e, w2)
           | Inr text \<Rightarrow>
               then_do (os_remove (write_file w2 new text) APACHE_HTACCESS_PATH) (\<lambda>_ w4.
               then_do (os_rename w4 new APACHE_HTACCESS_PATH) (\<lambda>_ w5.
                 (Inr os_settings', w5)))))"

lemmas route_defs [mp_defs] =
  APACHE_HTACCESS_PATH_def APACHE_REWRITE_TEMPLATE_def APACHE_HTACCESS_TEMPLATE_def
  registered_def parse_line_def parse_htaccess_def rule_for_def save_htaccess_def

section \<open>What a registry should leave in the file\<close>

text \<open>
  The entries that get a rule, written without the accumulators of the loop:
  the first entry stays, and behind it those of other users.
\<close>

fun first_per_user :: "mailpiles \<Rightarrow> mailpiles" where
  "first_per_user [] = []"
| "first_per_user (x # xs) =
     x # first_per_user (filter (\<lambda>y. m_user (snd y) \<noteq> m_user (snd x)) xs)"

text \<open>The rule line of a user, host and port whose characters need no escape.\<close>

definition rule_line :: "string \<Rightarrow> string \<Rightarrow> string \<Rightarrow> string" where
  "rule_line u h p =
     ''RewriteRule ^('' @ u @ ''/.*)$  http://'' @ h @ '':'' @ p @ ''/mailpile/$1  [P,L,QSA]  # MP''"

text \<open>
  What \<^verbatim>\<open>parse_htaccess\<close> can read back: a user of lower-case letters and
  digits that starts with a letter, a host without colon, a port of digits.
\<close>

definition clean_user :: "string \<Rightarrow> bool" where
  "clean_user u \<longleftrightarrow> u \<noteq> [] \<and> is_lower (hd u) \<and> list_all cls_lower_digit u"

definition clean_host :: "string \<Rightarrow> bool" where
  "clean_host h \<longleftrightarrow> h \<noteq> [] \<and> list_all (cls_not CHR '':'') h"

definition clean_port :: "string \<Rightarrow> bool" where
  "clean_port p \<longleftrightarrow> p \<noteq> [] \<and> list_all is_digit p"

section \<open>Facts about writing\<close>

lemma first_per_user_users:
  "m_user ` snd ` set (first_per_user mp) = m_user ` snd ` set mp"
proof (induction mp rule: first_per_user.induct)
  case 1
  then show ?case by simp
next
  case (2 x xs)
  then show ?case
    by (auto simp: image_iff)
qed

lemma first_per_user_distinct: "distinct (map (m_user \<circ> snd) (first_per_user mp))"
proof (induction mp rule: first_per_user.induct)
  case 1
  then show ?case by simp
next
  case (2 x xs)
  have "m_user (snd x) \<notin> m_user ` snd ` set (filter (\<lambda>y. m_user (snd y) \<noteq> m_user (snd x)) xs)"
    by auto
  with 2 show ?case
    by (simp add: first_per_user_users image_image [symmetric] del: image_image)
qed

lemma length_first_per_user: "length (first_per_user mp) = card (m_user ` snd ` set mp)"
proof -
  have "length (first_per_user mp) = length (map (m_user \<circ> snd) (first_per_user mp))"
    by simp
  also have "\<dots> = card (set (map (m_user \<circ> snd) (first_per_user mp)))"
    by (rule distinct_card [symmetric]) (rule first_per_user_distinct)
  also have "\<dots> = card (m_user ` snd ` set mp)"
    by (simp add: first_per_user_users image_image [symmetric] del: image_image)
  finally show ?thesis .
qed

lemma rule_for_registered:
  "rule_for d = rbind (escape (m_user d)) (\<lambda>u. Inr (rule_line u (m_host d) (m_port d)))"
  by (cases "escape (m_user d)")
    (simp_all add: rule_for_def py_format_def APACHE_REWRITE_TEMPLATE_def rule_line_def)

lemma rule_for_clean: "clean_user (m_user d) \<Longrightarrow> rule_for d = Inr (rule_line (m_user d) (m_host d) (m_port d))"
  by (simp add: rule_for_registered clean_user_def escape_plain list_all_iff
      plain_lower_digit cls_lower_digit_def)

lemma rule_for_Inl: "rule_for d = Inl e \<Longrightarrow> e = UnicodeDecodeError"
  by (cases "escape (m_user d)") (auto simp: rule_for_registered escape_Inl_iff)

text \<open>
  The loop with its accumulators at any value: the rules it appends are those
  of the first entries of the users not yet in \<open>added\<close>.
\<close>

lemma save_loop_Inr:
  "save_loop mp rules added w = (Inr rules', w') \<Longrightarrow>
   \<exists>new. rules' = rules @ new \<and>
     rmapM rule_for (map snd (first_per_user (filter (\<lambda>y. m_user (snd y) \<notin> set added) mp)))
       = Inr new"
proof (induction mp arbitrary: rules added w)
  case Nil
  then show ?case by simp
next
  case (Cons x mp)
  obtain k d where x: "x = (k, d)"
    by (cases x)
  show ?case
  proof (cases "m_user d \<in> set added")
    case True
    with Cons x show ?thesis
      by simp
  next
    case False
    with Cons.prems x obtain rule where rule: "rule_for d = Inr rule"
      and rec: "save_loop mp (rules @ [rule]) (added @ [m_user d]) w = (Inr rules', w')"
      by (auto split: sum.splits)
    from Cons.IH [OF rec] obtain new where new: "rules' = (rules @ [rule]) @ new"
      "rmapM rule_for (map snd (first_per_user
         (filter (\<lambda>y. m_user (snd y) \<notin> set (added @ [m_user d])) mp))) = Inr new"
      by blast
    have "filter (\<lambda>y. m_user (snd y) \<noteq> m_user d) (filter (\<lambda>y. m_user (snd y) \<notin> set added) mp)
        = filter (\<lambda>y. m_user (snd y) \<notin> set (added @ [m_user d])) mp"
      by (auto simp: filter_filter intro: filter_cong)
    with new rule False x show ?thesis
      by (intro exI [of _ "rule # new"]) simp
  qed
qed

lemma save_loop_files: "save_loop mp rules added w = (r, w') \<Longrightarrow> files w' = files w"
proof (induction mp arbitrary: rules added w)
  case Nil
  then show ?case by auto
next
  case (Cons x mp)
  obtain k d where "x = (k, d)"
    by (cases x)
  with Cons show ?case
    by (auto split: if_splits sum.splits)
qed

lemma save_loop_only_printed:
  "save_loop mp rules added w = (r, w') \<Longrightarrow> only_printed w w' \<and> rand_used w' = rand_used w"
proof (induction mp arbitrary: rules added w)
  case Nil
  then show ?case by auto
next
  case (Cons x mp)
  obtain k d where x: "x = (k, d)"
    by (cases x)
  show ?case
  proof (cases "m_user d \<in> set added")
    case True
    let ?w = "print_line w (''WARNING: User '' @ m_user d @ '' has multiple Mailpiles! Skipped '' @ k)"
    from Cons.prems x True have "save_loop mp rules added ?w = (r, w')"
      by simp
    from Cons.IH [OF this] have "only_printed ?w w'" "rand_used w' = rand_used ?w"
      by simp_all
    with only_printed_trans [OF only_printed_print_line] show ?thesis
      by (auto simp: print_line_def)
  next
    case False
    with Cons.prems x show ?thesis
      by (cases "rule_for d") (auto dest: Cons.IH)
  qed
qed

text \<open>Saving runs no command; it prints, and changes the two paths.\<close>

lemma save_htaccess_only_ran:
  assumes "save_htaccess w os_settings mp = (r, w')"
  shows "only_ran w w' \<and> commands w' = commands w"
proof (cases "save_loop mp [] [] w")
  case (Pair r1 w1)
  from save_loop_only_printed [OF Pair] have w1: "only_ran w w1" "commands w1 = commands w"
    by (simp_all add: only_printed_only_ran only_printedD)
  have step: "only_ran w1 (w1\<lparr>files := fs\<rparr>)" for fs
    by (rule only_ranI [where out = "[]" and cs = "[]"]) simp
  from assms Pair have "(\<exists>fs. w' = w1\<lparr>files := fs\<rparr>) \<or> w' = w1"
    by (cases r1)
      (auto simp: save_htaccess_def Let_def then_do_def os_remove_def os_rename_def write_file_def
        split: sum.splits if_splits option.splits)
  with w1 step show ?thesis
    by (auto intro: only_ran_trans)
qed

lemma parse_htaccess_only_printed [simp]:
  "only_printed w (snd (parse_htaccess w mp))" "rand_used (snd (parse_htaccess w mp)) = rand_used w"
  by (cases "files w APACHE_HTACCESS_PATH"; simp add: parse_htaccess_def read_file_def)
    (cases "files w APACHE_HTACCESS_PATH"; simp add: parse_htaccess_def read_file_def print_line_def)

text \<open>
  A world without routing file in which no command writes a file, and the
  frame of an operation that leaves such a world such a world. A save does:
  it stops at \<^verbatim>\<open>os.remove\<close>.
\<close>

definition unrouted :: "world \<Rightarrow> bool" where
  "unrouted w \<longleftrightarrow> keeps_files w \<and> files w APACHE_HTACCESS_PATH = None"

definition stays_unrouted :: "world \<Rightarrow> world \<Rightarrow> bool" where
  "stays_unrouted w w' \<longleftrightarrow> (unrouted w \<longrightarrow> unrouted w')"

lemma stays_unroutedI: "files w' = files w \<Longrightarrow> shell w' = shell w \<Longrightarrow> stays_unrouted w w'"
  by (simp add: stays_unrouted_def unrouted_def keeps_files_def)

lemma save_htaccess_stays_unrouted:
  assumes "save_htaccess w os_settings mp = (r, w')"
  shows "stays_unrouted w w'"
proof -
  obtain r1 w1 where loop: "save_loop mp [] [] w = (r1, w1)"
    by force
  from save_loop_only_printed [OF loop] have w1: "files w1 = files w" "shell w1 = shell w"
    by (simp_all add: only_printedD)
  with assms loop show ?thesis
    by (cases r1)
      (auto simp: save_htaccess_def Let_def stays_unrouted_def unrouted_def keeps_files_def
        os_remove_def os_rename_def write_file_def split: sum.splits if_splits option.splits)
qed

lemma save_loop_stdout:
  "save_loop mp rules added w = (Inr rules', w') \<Longrightarrow>
   length (stdout w') + length (first_per_user (filter (\<lambda>y. m_user (snd y) \<notin> set added) mp))
     = length (stdout w) + length mp"
proof (induction mp arbitrary: rules added w)
  case Nil
  then show ?case by simp
next
  case (Cons x mp)
  obtain k d where x: "x = (k, d)"
    by (cases x)
  show ?case
  proof (cases "m_user d \<in> set added")
    case True
    with Cons.prems x have "save_loop mp rules added
        (print_line w (''WARNING: User '' @ m_user d @ '' has multiple Mailpiles! Skipped '' @ k))
        = (Inr rules', w')"
      by simp
    from Cons.IH [OF this] True x show ?thesis
      by simp
  next
    case False
    with Cons.prems x obtain rule where
      rec: "save_loop mp (rules @ [rule]) (added @ [m_user d]) w = (Inr rules', w')"
      by (auto split: sum.splits)
    have "filter (\<lambda>y. m_user (snd y) \<noteq> m_user d) (filter (\<lambda>y. m_user (snd y) \<notin> set added) mp)
        = filter (\<lambda>y. m_user (snd y) \<notin> set (added @ [m_user d])) mp"
      by (auto simp: filter_filter intro: filter_cong)
    with Cons.IH [OF rec] False x show ?thesis
      by simp
  qed
qed

text \<open>The text of the routing file for given rules and web root.\<close>

definition htaccess_text :: "string \<Rightarrow> string \<Rightarrow> string" where
  \<open>htaccess_text rewriterules webroot =
     ''# Note: Autogenerated by mailpile-admin.py, edit at your own risk!\<newline>'' @
     ''\<newline>'' @
     ''# These are our configured Mailpiles:\<newline>'' @
     rewriterules @ ''\<newline>'' @
     ''\<newline>'' @
     ''# Redirect any proxy errors or 404 errors to mailpile-admin.py:\<newline>'' @
     ''ErrorDocument 503 '' @ webroot @ ''not-running.html\<newline>'' @
     ''ErrorDocument 404 '' @ webroot @ ''not-running.html\<newline>'' @
     ''RewriteRule ^not-running.html '' @ webroot @ '' [L,R=302,E=nolcache:1]\<newline>'' @
     ''Header always set Cache-Control "no-store, no-cache, must-revalidate" env=nocache\<newline>'' @
     ''Header always set Expires "Thu, 01 Jan 1970 00:00:00 GMT" env=nocache\<newline>''\<close>

lemma format_htaccess:
  "map_of os_settings ''webroot'' = Some webroot \<Longrightarrow>
   py_format APACHE_HTACCESS_TEMPLATE (AList.update ''rewriterules'' rs os_settings)
     = Inr (htaccess_text rs webroot)"
  by (simp add: py_format_def APACHE_HTACCESS_TEMPLATE_def htaccess_text_def update_conv')

lemma format_htaccess_no_webroot:
  "map_of os_settings ''webroot'' = None \<Longrightarrow>
   py_format APACHE_HTACCESS_TEMPLATE (AList.update ''rewriterules'' rs os_settings)
     = Inl (KeyError ''webroot'')"
  by (simp add: py_format_def APACHE_HTACCESS_TEMPLATE_def update_conv')

lemma new_path_neq [simp]:
  "APACHE_HTACCESS_PATH @ ''.new'' \<noteq> APACHE_HTACCESS_PATH"
  "APACHE_HTACCESS_PATH \<noteq> APACHE_HTACCESS_PATH @ ''.new''"
  by simp_all

text \<open>What a successful save has found and what it leaves.\<close>

lemma save_htaccess_InrD:
  assumes "save_htaccess w os_settings mp = (Inr os', w')"
  shows "\<exists>rules webroot. rmapM rule_for (map snd (first_per_user mp)) = Inr rules \<and>
    map_of os_settings ''webroot'' = Some webroot \<and> files w APACHE_HTACCESS_PATH \<noteq> None \<and>
    files w' = (files w)(APACHE_HTACCESS_PATH @ ''.new'' := None,
       APACHE_HTACCESS_PATH \<mapsto> htaccess_text (py_join ''\<newline>'' rules) webroot)"
proof -
  from assms obtain rules w1 where loop: "save_loop mp [] [] w = (Inr rules, w1)"
    by (auto simp: save_htaccess_def then_do_eq_Inr_iff)
  from save_loop_Inr [OF loop] have rules: "rmapM rule_for (map snd (first_per_user mp)) = Inr rules"
    by simp
  from save_loop_files [OF loop] have files: "files w1 = files w" .
  from assms loop obtain webroot where webroot: "map_of os_settings ''webroot'' = Some webroot"
    by (cases "map_of os_settings ''webroot''")
      (auto simp: save_htaccess_def Let_def format_htaccess_no_webroot)
  from assms loop files show ?thesis
    by (auto simp: save_htaccess_def Let_def format_htaccess [OF webroot] rules webroot
        os_remove_def os_rename_def then_do_def fun_upd_twist split: if_splits)
qed

section \<open>Properties of writing\<close>

text \<open>
  C1: \<^verbatim>\<open>save_htaccess\<close> writes exactly one rule per user: the rules its loop
  collects are those of the first entry of each user, in iteration order, and
  there are as many as the registry has users.
\<close>

theorem save_loop_first_per_user:
  assumes "save_loop mp [] [] w = (Inr rules, w')"
  shows "rmapM rule_for (map snd (first_per_user mp)) = Inr rules \<and>
    length rules = card (m_user ` snd ` set mp)"
proof -
  from save_loop_Inr [OF assms] have rules: "rmapM rule_for (map snd (first_per_user mp)) = Inr rules"
    by simp
  from rmapM_Inr_length [OF this] show ?thesis
    using rules by (simp add: length_first_per_user)
qed

text \<open>
  Every entry that gets no rule is reported: \<^verbatim>\<open>save_htaccess\<close> prints one
  warning for each entry beyond the first of its user, and nothing else.
\<close>

theorem save_loop_warnings:
  assumes "save_loop mp [] [] w = (Inr rules, w')"
  shows "length (stdout w') = length (stdout w) + (length mp - card (m_user ` snd ` set mp))"
proof -
  have "card (m_user ` snd ` set mp) \<le> card (snd ` set mp)"
    by (rule card_image_le) simp
  also have "\<dots> \<le> card (set mp)"
    by (rule card_image_le) simp
  also have "\<dots> \<le> length mp"
    by (rule card_length)
  finally show ?thesis
    using save_loop_stdout [OF assms] by (simp add: length_first_per_user)
qed

text \<open>
  C8: With a routing file in place and \<^verbatim>\<open>webroot\<close> among the settings,
  \<^verbatim>\<open>save_htaccess\<close> returns, the routing file holds the template filled with
  the collected rules, the \<^verbatim>\<open>.new\<close> file is gone and no other file has
  changed.
\<close>

theorem save_htaccess_replaces:
  assumes "files w APACHE_HTACCESS_PATH = Some old"
    and "map_of os_settings ''webroot'' = Some webroot"
    and "save_loop mp [] [] w = (Inr rules, w1)"
  shows "\<exists>os' w'. save_htaccess w os_settings mp = (Inr os', w') \<and>
    files w' = (files w)
      (APACHE_HTACCESS_PATH @ ''.new'' := None,
       APACHE_HTACCESS_PATH \<mapsto> htaccess_text (py_join ''\<newline>'' rules) webroot) \<and>
    map_of os' ''rewriterules'' = Some (py_join ''\<newline>'' rules)"
proof -
  from assms(3) have "files w1 = files w"
    by (rule save_loop_files)
  with assms(1) show ?thesis
    by (simp add: save_htaccess_def assms(3) Let_def format_htaccess [OF assms(2)]
        os_remove_def os_rename_def update_conv' fun_upd_twist)
qed

text \<open>
  C28: \<^verbatim>\<open>save_htaccess\<close> cannot create the routing file: where there is none,
  it ends with an error (at the latest the \<^verbatim>\<open>OSError\<close> of \<^verbatim>\<open>os.remove\<close>)
  and there is still none.
\<close>

theorem save_htaccess_needs_file:
  assumes "files w APACHE_HTACCESS_PATH = None"
  shows "\<exists>e w'. save_htaccess w os_settings mp = (Inl e, w') \<and>
    files w' APACHE_HTACCESS_PATH = None"
proof (cases "save_loop mp [] [] w")
  case (Pair r w1)
  then have w1: "files w1 = files w"
    by (rule save_loop_files)
  show ?thesis
  proof (cases r)
    case (Inl e)
    with Pair w1 assms show ?thesis
      by (simp add: save_htaccess_def)
  next
    case (Inr rules)
    with Pair w1 assms show ?thesis
      by (cases "py_format APACHE_HTACCESS_TEMPLATE
            (AList.update ''rewriterules'' (py_join ''\<newline>'' rules) os_settings)")
        (simp_all add: save_htaccess_def Let_def os_remove_def)
  qed
qed

section \<open>Properties of reading\<close>

lemma parse_line_registry_ok [mp_intros]: "registry_ok mp \<Longrightarrow> registry_ok (parse_line line mp)"
  by (auto simp: parse_line_def Let_def registered_def intro: registry_ok_update
      split: option.splits)

lemma fold_parse_line_registry_ok: "registry_ok mp \<Longrightarrow> registry_ok (fold parse_line ls mp)"
  by (induction ls arbitrary: mp) (simp_all add: parse_line_registry_ok)

text \<open>The match of the pattern on a rule line, computed stage by stage from the right.\<close>

lemma re_run_rule_target:
  assumes "clean_host h" and "clean_port p"
  shows "re_run (seqs [Grp 2 (Plus (cls_not CHR '':'')), Lit '':'', Grp 3 (Plus is_digit),
           Lit ''/'', Star cls_any, Lit ''# MP'', Star is_space, Eol]) q
           (h @ '':'' @ p @ ''/mailpile/$1  [P,L,QSA]  # MP\<newline>'') g (\<lambda>p s g. Some g)
         = Some (g(2 \<mapsto> h, 3 \<mapsto> p))"
proof -
  let ?K = "\<lambda>(p :: nat) (s :: string) (g :: groups). Some g"
  define tailR where "tailR = [Lit ''/'', Star cls_any, Lit ''# MP'', Star is_space, Eol]"
  define portR where "portR = Grp 3 (Plus is_digit) # tailR"
  define tl where "tl = ''/mailpile/$1  [P,L,QSA]  # MP\<newline>''"
  from assms have h: "h \<noteq> []" "list_all (cls_not CHR '':'') h"
    and p: "p \<noteq> []" "list_all is_digit p"
    by (simp_all add: clean_host_def clean_port_def)
  have ne: "tailR \<noteq> []" "portR \<noteq> []"
    by (simp_all add: tailR_def portR_def)
  have A: "re_run (seqs tailR) q tl g ?K = Some g" for q g
    by (simp add: tailR_def tl_def py_defs)
  have B: "re_run (seqs portR) q (p @ tl) g ?K = Some (g(3 \<mapsto> p))" for q g
    unfolding portR_def re_run_seqs_Cons [OF ne(1)]
    by (rule re_run_Grp_Plus_max) (simp_all add: p A, simp add: tl_def py_defs less_eq_char_def)
  have "re_run (seqs (Grp 2 (Plus (cls_not CHR '':'')) # Lit '':'' # portR)) q
      (h @ '':'' @ p @ tl) g ?K = Some (g(2 \<mapsto> h, 3 \<mapsto> p))"
    unfolding re_run_seqs_Cons [OF list.distinct(2)]
    by (rule re_run_Grp_Plus_max) (simp_all add: h re_run_seqs_Cons [OF ne(2)] B py_defs)
  then show ?thesis
    by (simp only: portR_def tailR_def tl_def)
qed

lemma re_match_rule_line:
  assumes "clean_user u" and "clean_host h" and "clean_port p"
  shows "re_match htaccess_re (rule_line u h p @ ''\<newline>'') = Some [1 \<mapsto> u, 2 \<mapsto> h, 3 \<mapsto> p]"
proof -
  let ?K = "\<lambda>(p :: nat) (s :: string) (g :: groups). Some g"
  define hostR where "hostR = [Grp 2 (Plus (cls_not CHR '':'')), Lit '':'', Grp 3 (Plus is_digit),
    Lit ''/'', Star cls_any, Lit ''# MP'', Star is_space, Eol]"
  define lazyR where "lazyR = StarLazy cls_any # Lit ''//'' # hostR"
  define userR where "userR = Grp 1 (Plus cls_lower_digit) # lazyR"
  define tl where "tl = ''/mailpile/$1  [P,L,QSA]  # MP\<newline>''"
  from assms(1) have u: "u \<noteq> []" "list_all cls_lower_digit u" "is_lower (hd u)"
    by (simp_all add: clean_user_def)
  have ne: "hostR \<noteq> []" "lazyR \<noteq> []" "userR \<noteq> []"
    by (simp_all add: hostR_def lazyR_def userR_def)
  have C: "re_run (seqs hostR) q (h @ '':'' @ p @ tl) g ?K = Some (g(2 \<mapsto> h, 3 \<mapsto> p))" for q g
    unfolding hostR_def tl_def by (rule re_run_rule_target [OF assms(2,3)])
  have D: "re_run (seqs lazyR) q (''/.*)$  http://'' @ h @ '':'' @ p @ tl) g ?K
      = Some (g(2 \<mapsto> h, 3 \<mapsto> p))" for q g
    unfolding lazyR_def re_run_seqs_Cons [OF list.distinct(2)]
    using C [unfolded append_Cons append_Nil]
    by (simp add: re_run_seqs_Cons [OF ne(1)] py_defs)
  have E: "re_run (seqs userR) q (u @ ''/.*)$  http://'' @ h @ '':'' @ p @ tl) g ?K
      = Some (g(1 \<mapsto> u, 2 \<mapsto> h, 3 \<mapsto> p))" for q g
    unfolding userR_def re_run_seqs_Cons [OF ne(2)]
    by (rule re_run_Grp_Plus_max) (simp_all add: u D [simplified], simp add: py_defs less_eq_char_def)
  have F: "htaccess_re = seqs (Bol # Lit ''RewriteRule'' # Plus is_space # Plus cls_nonlower # userR)"
    by (simp add: htaccess_re_def userR_def lazyR_def hostR_def)
  have nl: "\<not> cls_nonlower (hd u)"
    using u(3) by (simp add: cls_nonlower_def)
  show ?thesis
    unfolding re_match_def F rule_line_def
    using E [unfolded append_Cons append_Nil tl_def] u(1) nl
    by (simp add: re_run_seqs_Cons ne rep_greedy_stop py_defs less_eq_char_def tl_def)
qed

lemma parse_line_rule_line:
  "clean_user u \<Longrightarrow> clean_host h \<Longrightarrow> clean_port p \<Longrightarrow>
   parse_line (rule_line u h p @ ''\<newline>'') mp = AList.update (hostport_of h p) (registered u h p) mp"
  by (simp add: parse_line_def re_match_rule_line group_def Let_def)

lemma rule_line_no_newline:
  "CHR 0x0A \<notin> set u \<Longrightarrow> CHR 0x0A \<notin> set h \<Longrightarrow> CHR 0x0A \<notin> set p \<Longrightarrow>
   CHR 0x0A \<notin> set (rule_line u h p)"
  by (simp add: rule_line_def)

text \<open>
  C2: What \<^verbatim>\<open>save_htaccess\<close> writes for an entry, \<^verbatim>\<open>parse_htaccess\<close> reads
  back: for a user of lower-case letters and digits that starts with a letter,
  a host without colon and a port of digits, the rule is made without error,
  and its line puts the same user, host and port into the registry under
  \<^verbatim>\<open>host:port\<close>, as a registered entry without pid.
\<close>

theorem parse_rule_roundtrip:
  assumes "clean_user (m_user d)" and "clean_host (m_host d)" and "clean_port (m_port d)"
  shows "\<exists>rule. rule_for d = Inr rule \<and>
    parse_line (rule @ ''\<newline>'') mp =
      AList.update (hostport_of (m_host d) (m_port d))
        (registered (m_user d) (m_host d) (m_port d)) mp"
  using assms by (simp add: rule_for_clean parse_line_rule_line)

section \<open>Closed instances\<close>

definition three_entries :: mailpiles where
  "three_entries =
     [(''h:1'', registered ''alice'' ''h'' ''1''), (''h:2'', registered ''alice'' ''h'' ''2''),
      (''h:3'', registered ''bob'' ''h'' ''3'')]"

lemma clean_examples:
  "clean_user ''alice''" "clean_user ''bob''" "clean_user ''bre''"
  "clean_host ''h''" "clean_host ''127.0.0.1''" "clean_port ''1''" "clean_port ''33411''"
  by (simp_all add: clean_user_def clean_host_def clean_port_def py_defs less_eq_char_def)

lemma save_loop_three_entries:
  "save_loop three_entries [] [] w =
     (Inr [rule_line ''alice'' ''h'' ''1'', rule_line ''bob'' ''h'' ''3''],
      print_line w ''WARNING: User alice has multiple Mailpiles! Skipped h:2'')"
  by (simp add: three_entries_def rule_for_clean clean_examples registered_def)

theorem save_loop_first_per_user_witness:
  "rmapM rule_for (map snd (first_per_user three_entries)) =
     Inr [rule_line ''alice'' ''h'' ''1'', rule_line ''bob'' ''h'' ''3''] \<and>
   card (m_user ` snd ` set three_entries) = 2"
  using save_loop_first_per_user [OF save_loop_three_entries] by simp

theorem save_loop_warnings_witness:
  "length three_entries - card (m_user ` snd ` set three_entries) = 1"
  using save_loop_warnings [OF save_loop_three_entries [of quiet_world]]
  by (simp add: quiet_world_def)

definition with_routing_file :: world where
  "with_routing_file = quiet_world\<lparr>files := [APACHE_HTACCESS_PATH \<mapsto> ''old'']\<rparr>"

theorem save_htaccess_replaces_witness:
  "\<exists>os' w'. save_htaccess with_routing_file [(''webroot'', ''/mailpile/'')] three_entries
       = (Inr os', w') \<and>
     files w' APACHE_HTACCESS_PATH =
       Some (htaccess_text
         (rule_line ''alice'' ''h'' ''1'' @ ''\<newline>'' @ rule_line ''bob'' ''h'' ''3'') ''/mailpile/'') \<and>
     files w' (APACHE_HTACCESS_PATH @ ''.new'') = None"
proof -
  have "files with_routing_file APACHE_HTACCESS_PATH = Some ''old''"
    by (simp add: with_routing_file_def)
  moreover have "map_of [(''webroot'', ''/mailpile/'')] ''webroot'' = Some ''/mailpile/''"
    by simp
  ultimately obtain os' w' where
    "save_htaccess with_routing_file [(''webroot'', ''/mailpile/'')] three_entries = (Inr os', w')"
    "files w' = (files with_routing_file)
      (APACHE_HTACCESS_PATH @ ''.new'' := None,
       APACHE_HTACCESS_PATH \<mapsto> htaccess_text
         (py_join ''\<newline>'' [rule_line ''alice'' ''h'' ''1'', rule_line ''bob'' ''h'' ''3''])
         ''/mailpile/'')"
    using save_htaccess_replaces [OF _ _ save_loop_three_entries] by blast
  then show ?thesis
    by (intro exI [of _ os'] exI [of _ w']) simp
qed

theorem save_htaccess_needs_file_witness:
  "\<exists>e w'. save_htaccess quiet_world [(''webroot'', ''/mailpile/'')] three_entries = (Inl e, w') \<and>
     files w' APACHE_HTACCESS_PATH = None"
proof -
  have "files quiet_world APACHE_HTACCESS_PATH = None"
    by (simp add: quiet_world_def)
  then show ?thesis
    by (rule save_htaccess_needs_file)
qed

theorem parse_rule_roundtrip_witness:
  "\<exists>rule. rule_for (registered ''bre'' ''127.0.0.1'' ''33411'') = Inr rule \<and>
     parse_line (rule @ ''\<newline>'') [] =
       [(''127.0.0.1:33411'', registered ''bre'' ''127.0.0.1'' ''33411'')]"
  using parse_rule_roundtrip [of "registered ''bre'' ''127.0.0.1'' ''33411''" "[]"]
  by (simp add: registered_def clean_examples hostport_of_def)

text \<open>
  C29: A user name that starts with a digit does not survive the file: the
  rule written for user \<^verbatim>\<open>42\<close> is read back as a rule of user \<^verbatim>\<open>http\<close>,
  because \<^verbatim>\<open>[^a-z]+\<close> runs over the digits and the first lower-case letters
  behind them are those of the scheme.
\<close>

theorem digit_user_not_restored:
  "rule_for (registered ''42'' ''127.0.0.1'' ''33411'') =
     Inr (rule_line ''42'' ''127.0.0.1'' ''33411'') \<and>
   parse_line (rule_line ''42'' ''127.0.0.1'' ''33411'' @ ''\<newline>'') [] =
     [(''127.0.0.1:33411'', registered ''http'' ''127.0.0.1'' ''33411'')]"
proof -
  have "list_all plain_char ''42''"
    by (simp add: plain_char_def py_defs)
  then have "rule_for (registered ''42'' ''127.0.0.1'' ''33411'') =
      Inr (rule_line ''42'' ''127.0.0.1'' ''33411'')"
    by (simp add: rule_for_registered escape_plain registered_def)
  moreover have "re_match htaccess_re (rule_line ''42'' ''127.0.0.1'' ''33411'' @ ''\<newline>'') =
      Some [1 \<mapsto> ''http'', 2 \<mapsto> ''127.0.0.1'', 3 \<mapsto> ''33411'']"
    by (simp add: re_match_def htaccess_re_def rule_line_def py_defs less_eq_char_def)
  ultimately show ?thesis
    by (simp add: parse_line_def group_def Let_def hostport_of_def)
qed

end
