(* ===== verification/Settings.thy ===== *)
theory Settings
  imports PortAllocator
begin

text \<open>
  The command line as the script sees it after \<^verbatim>\<open>argparse\<close>, and the two
  dictionaries of settings the actions are run with: \<^verbatim>\<open>get_os_settings\<close>
  (where Mailpile and Apache live) and \<^verbatim>\<open>get_user_settings\<close> (whose
  Mailpile, on which port, with which pid file).

  \<^verbatim>\<open>get_user_settings\<close> returns a dictionary with seven fixed keys, of which
  \<^verbatim>\<open>pid\<close> holds \<^verbatim>\<open>False\<close> when there is no pid file and a string
  otherwise. It is a record here, with an optional pid;
  \<open>settings_dict\<close> is the dictionary of strings that \<^verbatim>\<open>_escaped\<close> makes
  its values into, where \<^verbatim>\<open>unicode(False)\<close> is \<^verbatim>\<open>False\<close>.
\<close>

section \<open>Arguments\<close>

text \<open>
  The namespace \<^verbatim>\<open>parse_args\<close> returns: a flag for each
  \<^verbatim>\<open>store_true\<close> option, \<open>None\<close> for an option that was not given and
  has no default.
\<close>

record args =
  a_list :: bool
  a_start :: bool
  a_stop :: bool
  a_install_apache :: bool
  a_force :: bool
  a_password :: "string option"
  a_user :: "string option"
  a_port :: "string option"
  a_host :: string
  a_discover :: bool
  a_webroot :: string
  a_mailpile_root :: "string option"
  a_packager :: "string option"
  a_apache_user :: "string option"
  a_apache_group :: "string option"

definition MAILPILE_PIDS_PATH :: string where
  "MAILPILE_PIDS_PATH = ''/var/lib/mailpile/pids''"

definition APACHE_DEFAULT_WEBROOT :: string where
  "APACHE_DEFAULT_WEBROOT = ''/mailpile/''"

text \<open>The namespace of an empty command line, before the action is chosen.\<close>

definition default_args :: args where
  "default_args =
     \<lparr>a_list = False, a_start = False, a_stop = False, a_install_apache = False,
      a_force = False, a_password = None, a_user = None, a_port = None,
      a_host = ''localhost'', a_discover = False, a_webroot = APACHE_DEFAULT_WEBROOT,
      a_mailpile_root = None, a_packager = None, a_apache_user = None,
      a_apache_group = None\<rparr>"

section \<open>Paths\<close>

text \<open>
  \<^verbatim>\<open>os.path.join\<close> and \<^verbatim>\<open>os.path.dirname\<close> of \<^verbatim>\<open>posixpath\<close>: an
  absolute component drops what is before it, a separator is put between
  components unless one is there; the directory name is what is before the
  last separator, without trailing separators unless it is the root.
\<close>

definition join2 :: "string \<Rightarrow> string \<Rightarrow> string" where
  "join2 path b =
     (if b \<noteq> [] \<and> hd b = CHR ''/'' then b
      else if path = [] \<or> last path = CHR ''/'' then path @ b
      else path @ ''/'' @ b)"

definition os_path_join :: "string \<Rightarrow> string list \<Rightarrow> string" where
  "os_path_join a p = foldl join2 a p"

definition os_path_dirname :: "string \<Rightarrow> string" where
  "os_path_dirname p =
     (let head = rev (dropWhile (\<lambda>c. c \<noteq> CHR ''/'') (rev p))
      in if head \<noteq> [] \<and> \<not> list_all (\<lambda>c. c = CHR ''/'') head
         then rev (dropWhile (\<lambda>c. c = CHR ''/'') (rev head)) else head)"

section \<open>Settings of the installation\<close>

definition mp_root :: "world \<Rightarrow> args \<Rightarrow> string" where
  "mp_root w args =
     realpath w (os_path_join
       (py_or (a_mailpile_root args)
          (os_path_join (os_path_dirname (script_file w)) [''..''])) [])"

definition get_os_settings :: "world \<Rightarrow> args \<Rightarrow> (string, string) pydict" where
  "get_os_settings w args =
     (let mp_root = mp_root w args;
          mpa_root = os_path_join mp_root [''packages'', ''apache'']
      in [(''packager'', py_or (a_packager args) ''apt-get''),
          (''apache-user'', py_or (a_apache_user args) ''www-data''),
          (''apache-group'', py_or (a_apache_group args) ''www-data''),
          (''webroot'', a_webroot args),
          (''mailpile'', os_path_join mp_root [''mp'']),
          (''mailpile-root'', mp_root),
          (''mailpile-admin'', realpath w (argv0 w)),
          (''mailpile-static'', os_path_join mp_root [''mailpile'', ''www'', ''default'']),
          (''mailpile-www'', os_path_join mpa_root [''www'']),
          (''mailpile-conf'', os_path_join mpa_root [''mailpile.conf''])])"

section \<open>Settings of one user\<close>

record user_settings =
  us_user :: string
  us_mailpile :: string
  us_host :: string
  us_port :: string
  us_path :: string
  us_pidfile :: string
  us_pid :: "string option"

definition settings_dict :: "user_settings \<Rightarrow> (string, string) pydict" where
  "settings_dict s =
     [(''user'', us_user s), (''mailpile'', us_mailpile s), (''host'', us_host s),
      (''port'', us_port s), (''path'', us_path s), (''pidfile'', us_pidfile s),
      (''pid'', case us_pid s of None \<Rightarrow> ''False'' | Some pid \<Rightarrow> pid)]"

text \<open>
  The ports of the user's entries, as numbers: \<^verbatim>\<open>int\<close> raises on the first
  port that is not a number.
\<close>

definition registered_ports :: "string \<Rightarrow> mailpiles \<Rightarrow> nat list result" where
  "registered_ports user mailpiles =
     rmapM py_int (map m_port (filter (\<lambda>m. m_user m = user) (map snd mailpiles)))"

text \<open>
  Lines 206 to 212: the port asked for, else the lowest port the registry has
  for the user, else a random one. An empty registry and no registry are the
  same to \<^verbatim>\<open>if mailpiles\<close>.
\<close>

definition choose_port :: "world \<Rightarrow> args \<Rightarrow> string \<Rightarrow> mailpiles \<Rightarrow> string io" where
  "choose_port w args user mailpiles =
     (case (if mailpiles \<noteq> [] \<and> \<not> truthy (a_port args)
            then rbind (registered_ports user mailpiles) (\<lambda>ports.
                   Inr (if ports \<noteq> [] then Some (str_of_nat (py_min ports)) else a_port args))
            else Inr (a_port args)) of
        Inl e \<Rightarrow> (Inl e, w)
      | Inr port \<Rightarrow> if truthy port then (Inr (py_or port []), w) else get_random_port w)"

definition get_user_settings ::
  "world \<Rightarrow> args \<Rightarrow> string option \<Rightarrow> mailpiles \<Rightarrow> user_settings io" where
  "get_user_settings w args user mailpiles =
     (let settings = get_os_settings w args;
          user = py_or user (login w)
      in if CHR ''.'' \<in> set user \<or> CHR ''/'' \<in> set user then (Inl AssertionError, w)
         else
           let pidfile = os_path_join MAILPILE_PIDS_PATH [user @ ''.pid'']
           in then_do (choose_port w args user mailpiles) (\<lambda>port w'.
                case getitem settings ''mailpile'' of
                  Inl e \<Rightarrow> (Inl e, w')
                | Inr mailpile \<Rightarrow>
                    (Inr \<lparr>us_user = user, us_mailpile = mailpile, us_host = ''127.0.0.1'',
                          us_port = port,
                          us_path = py_replace ''//'' ''/'' (a_webroot args @ ''/'' @ user @ ''/''),
                          us_pidfile = pidfile,
                          us_pid = (case files w' pidfile of
                                      None \<Rightarrow> None | Some text \<Rightarrow> Some (py_strip text))\<rparr>,
                     w')))"

lemmas settings_defs [mp_defs] =
  MAILPILE_PIDS_PATH_def APACHE_DEFAULT_WEBROOT_def default_args_def join2_def os_path_join_def
  os_path_dirname_def mp_root_def get_os_settings_def settings_dict_def registered_ports_def

section \<open>Facts about paths and the installation\<close>

lemma join2_relative:
  "path \<noteq> [] \<Longrightarrow> last path \<noteq> CHR ''/'' \<Longrightarrow> b \<noteq> [] \<Longrightarrow> hd b \<noteq> CHR ''/'' \<Longrightarrow>
   join2 path b = path @ ''/'' @ b"
  by (simp add: join2_def)

lemma pidfile_path:
  "CHR ''/'' \<notin> set user \<Longrightarrow>
   os_path_join MAILPILE_PIDS_PATH [user @ ''.pid''] = ''/var/lib/mailpile/pids/'' @ user @ ''.pid''"
  by (cases user) (auto simp: os_path_join_def join2_def MAILPILE_PIDS_PATH_def)

lemma keys_get_os_settings:
  "map fst (get_os_settings w args) =
     [''packager'', ''apache-user'', ''apache-group'', ''webroot'', ''mailpile'', ''mailpile-root'',
      ''mailpile-admin'', ''mailpile-static'', ''mailpile-www'', ''mailpile-conf'']"
  by (simp add: get_os_settings_def Let_def)

lemma dict_ok_get_os_settings [mp_intros]: "dict_ok (get_os_settings w args)"
  by (simp add: dict_ok_def keys_get_os_settings)

lemma get_os_settings_lookup [simp]:
  "map_of (get_os_settings w args) ''webroot'' = Some (a_webroot args)"
  "map_of (get_os_settings w args) ''mailpile-admin'' = Some (realpath w (argv0 w))"
  "map_of (get_os_settings w args) ''packager'' = Some (py_or (a_packager args) ''apt-get'')"
  "map_of (get_os_settings w args) ''apache-user'' = Some (py_or (a_apache_user args) ''www-data'')"
  "map_of (get_os_settings w args) ''apache-group'' = Some (py_or (a_apache_group args) ''www-data'')"
  "map_of (get_os_settings w args) ''mailpile'' = Some (os_path_join (mp_root w args) [''mp''])"
  by (simp_all add: get_os_settings_def Let_def)

lemma get_os_settings_frame [simp]:
  "get_os_settings (print_line w l) args = get_os_settings w args"
  "get_os_settings w (args\<lparr>a_host := h\<rparr>) = get_os_settings w args"
  "get_os_settings w (args\<lparr>a_port := p\<rparr>) = get_os_settings w args"
  "get_os_settings w (args\<lparr>a_user := u\<rparr>) = get_os_settings w args"
  by (simp_all add: get_os_settings_def mp_root_def)

section \<open>Facts about the choice of the port\<close>

lemma choose_port_explicit:
  "truthy (a_port args) \<Longrightarrow> choose_port w args user mailpiles = (Inr (py_or (a_port args) []), w)"
  by (simp add: choose_port_def)

lemma choose_port_registered:
  "\<not> truthy (a_port args) \<Longrightarrow> registered_ports user mailpiles = Inr ports \<Longrightarrow> ports \<noteq> [] \<Longrightarrow>
   choose_port w args user mailpiles = (Inr (str_of_nat (py_min ports)), w)"
  by (auto simp: choose_port_def registered_ports_def)

lemma choose_port_random:
  "\<not> truthy (a_port args) \<Longrightarrow> mailpiles = [] \<or> registered_ports user mailpiles = Inr [] \<Longrightarrow>
   choose_port w args user mailpiles = get_random_port w"
  by (auto simp: choose_port_def)

lemma get_random_port_digits:
  "get_random_port w = (Inr port, w') \<Longrightarrow> port \<noteq> [] \<and> list_all is_digit port"
proof -
  assume "get_random_port w = (Inr port, w')"
  then obtain ns where "try_ports 100 ns w = (Inr port, w')"
    by (auto simp: get_random_port_def split: sum.splits)
  from try_ports_Inr [OF this] show ?thesis
    by (auto simp: str_of_nat_digits)
qed

lemma choose_port_digits:
  assumes "\<not> truthy (a_port args)" and "choose_port w args user mailpiles = (Inr port, w')"
  shows "port \<noteq> [] \<and> list_all is_digit port"
  using assms
  by (auto simp: choose_port_def rbind_eq_Inr_iff str_of_nat_digits py_or_def truthy_def
      split: if_splits sum.splits option.splits dest: get_random_port_digits)

lemma choose_port_only_printed:
  "choose_port w args user mailpiles = (r, w') \<Longrightarrow> only_printed w w'"
  by (auto simp: choose_port_def split: if_splits sum.splits dest: get_random_port_only_printed)

section \<open>Facts about the settings of a user\<close>

text \<open>The call written out, with the port chosen by \<open>choose_port\<close>.\<close>

lemma get_user_settings_unfold:
  "get_user_settings w args user mailpiles =
     (if CHR ''.'' \<in> set (py_or user (login w)) \<or> CHR ''/'' \<in> set (py_or user (login w))
      then (Inl AssertionError, w)
      else then_do (choose_port w args (py_or user (login w)) mailpiles) (\<lambda>port w'.
        (Inr \<lparr>us_user = py_or user (login w),
              us_mailpile = os_path_join (mp_root w args) [''mp''], us_host = ''127.0.0.1'',
              us_port = port,
              us_path = py_replace ''//'' ''/'' (a_webroot args @ ''/'' @ py_or user (login w) @ ''/''),
              us_pidfile = ''/var/lib/mailpile/pids/'' @ py_or user (login w) @ ''.pid'',
              us_pid = map_option py_strip
                (files w' (''/var/lib/mailpile/pids/'' @ py_or user (login w) @ ''.pid''))\<rparr>, w')))"
proof -
  have "(case x of None \<Rightarrow> None | Some text \<Rightarrow> Some (py_strip text)) = map_option py_strip x"
    for x by (cases x) simp_all
  then show ?thesis
    by (simp add: get_user_settings_def Let_def pidfile_path cong: if_cong)
qed

text \<open>What a successful call has checked and what it returns.\<close>

lemma get_user_settings_InrD:
  assumes "get_user_settings w args user mailpiles = (Inr us, w')"
  shows "us_user us = py_or user (login w)"
    and "CHR ''.'' \<notin> set (us_user us)" and "CHR ''/'' \<notin> set (us_user us)"
    and "choose_port w args (us_user us) mailpiles = (Inr (us_port us), w')"
    and "us_host us = ''127.0.0.1''"
    and "us_pidfile us = ''/var/lib/mailpile/pids/'' @ us_user us @ ''.pid''"
    and "us_pid us = map_option py_strip (files w' (us_pidfile us))"
proof -
  let ?u = "py_or user (login w)"
  from assms have ok: "CHR ''.'' \<notin> set ?u" "CHR ''/'' \<notin> set ?u"
    by (auto simp: get_user_settings_unfold split: if_splits)
  with assms obtain port where port: "choose_port w args ?u mailpiles = (Inr port, w')"
    and us: "us = \<lparr>us_user = ?u, us_mailpile = os_path_join (mp_root w args) [''mp''],
      us_host = ''127.0.0.1'', us_port = port,
      us_path = py_replace ''//'' ''/'' (a_webroot args @ ''/'' @ ?u @ ''/''),
      us_pidfile = ''/var/lib/mailpile/pids/'' @ ?u @ ''.pid'',
      us_pid = map_option py_strip (files w' (''/var/lib/mailpile/pids/'' @ ?u @ ''.pid''))\<rparr>"
    by (auto simp: get_user_settings_unfold then_do_eq_Inr_iff)
  show "us_user us = ?u" and "CHR ''.'' \<notin> set (us_user us)" and "CHR ''/'' \<notin> set (us_user us)"
    and "choose_port w args (us_user us) mailpiles = (Inr (us_port us), w')"
    and "us_host us = ''127.0.0.1''"
    and "us_pidfile us = ''/var/lib/mailpile/pids/'' @ us_user us @ ''.pid''"
    and "us_pid us = map_option py_strip (files w' (us_pidfile us))"
    using ok port by (simp_all add: us)
qed

lemma get_user_settings_only_printed:
  "get_user_settings w args user mailpiles = (r, w') \<Longrightarrow> only_printed w w'"
  unfolding get_user_settings_unfold
  by (cases "choose_port w args (py_or user (login w)) mailpiles")
    (auto simp: then_do_def split: if_splits sum.splits dest: choose_port_only_printed)

lemma choose_port_host [simp]:
  "choose_port w (args\<lparr>a_host := h\<rparr>) user mailpiles = choose_port w args user mailpiles"
  by (simp add: choose_port_def cong: if_cong sum.case_cong)

lemma mp_root_host [simp]: "mp_root w (args\<lparr>a_host := h\<rparr>) = mp_root w args"
  by (simp add: mp_root_def)

lemma get_user_settings_host [simp]:
  "get_user_settings w (args\<lparr>a_host := h\<rparr>) user mailpiles = get_user_settings w args user mailpiles"
  by (simp add: get_user_settings_unfold cong: if_cong)

section \<open>Properties\<close>

text \<open>
  C30: The pid file of a user is a file directly inside the pid directory:
  \<^verbatim>\<open>get_user_settings\<close> returns only for a user name without \<^verbatim>\<open>/\<close>
  and without \<^verbatim>\<open>.\<close>, and then the pid file is that name, with
  \<^verbatim>\<open>.pid\<close>, under \<^verbatim>\<open>/var/lib/mailpile/pids/\<close>. The user is the one asked
  for, or the one who runs the tool.
\<close>

theorem pidfile_inside_pids_directory:
  assumes "get_user_settings w args user mailpiles = (Inr us, w')"
  shows "us_pidfile us = MAILPILE_PIDS_PATH @ ''/'' @ us_user us @ ''.pid'' \<and>
    CHR ''/'' \<notin> set (us_user us) \<and> CHR ''.'' \<notin> set (us_user us) \<and>
    us_user us = py_or user (login w)"
  using get_user_settings_InrD [OF assms] by (simp add: MAILPILE_PIDS_PATH_def)

text \<open>
  A user name with a dot or a slash is refused with \<^verbatim>\<open>AssertionError\<close>
  before anything is read or drawn.
\<close>

theorem unsafe_user_rejected:
  assumes "CHR ''.'' \<in> set (py_or user (login w)) \<or> CHR ''/'' \<in> set (py_or user (login w))"
  shows "get_user_settings w args user mailpiles = (Inl AssertionError, w)"
  using assms by (simp add: get_user_settings_unfold)

text \<open>
  C9: Without \<^verbatim>\<open>--port\<close>, a user who has entries in the registry gets the
  lowest of their ports, written in decimal, and no random number is drawn:
  the world is left as it was.
\<close>

theorem reuses_lowest_registered_port:
  assumes "\<not> truthy (a_port args)"
    and "registered_ports (py_or user (login w)) mailpiles = Inr ports" and "ports \<noteq> []"
    and "CHR ''.'' \<notin> set (py_or user (login w))" and "CHR ''/'' \<notin> set (py_or user (login w))"
  shows "\<exists>us. get_user_settings w args user mailpiles = (Inr us, w) \<and>
    us_port us = str_of_nat (Min (set ports)) \<and> (\<forall>n \<in> set ports. Min (set ports) \<le> n)"
  using assms
  by (simp add: get_user_settings_unfold choose_port_registered py_min_Min)

text \<open>
  A port that \<^verbatim>\<open>get_user_settings\<close> chose itself, from the registry or
  at random, is a non-empty string of digits; a port given with \<^verbatim>\<open>--port\<close>
  is returned as it was given.
\<close>

theorem user_settings_port:
  assumes "get_user_settings w args user mailpiles = (Inr us, w')"
  shows "if truthy (a_port args) then a_port args = Some (us_port us) \<and> w' = w
         else us_port us \<noteq> [] \<and> list_all is_digit (us_port us)"
proof (cases "truthy (a_port args)")
  case True
  with get_user_settings_InrD(4) [OF assms] show ?thesis
    by (auto simp: choose_port_explicit dest: py_or_truthy [where d = "[]"])
next
  case False
  with get_user_settings_InrD(4) [OF assms] show ?thesis
    by (auto dest: choose_port_digits)
qed

section \<open>Closed instances\<close>

definition bob_twice :: mailpiles where
  "bob_twice =
     [(''h:8081'', registered ''bob'' ''h'' ''8081''), (''h:8080'', registered ''bob'' ''h'' ''8080''),
      (''h:9'', registered ''alice'' ''h'' ''9'')]"

lemma registered_ports_bob_twice: "registered_ports ''bob'' bob_twice = Inr [8081, 8080]"
  by (simp add: registered_ports_def bob_twice_def registered_def py_int_def py_strip_def
      nat_of_digits_def digit_val_def py_defs less_eq_char_def)

lemma get_user_settings_port_8080:
  "get_user_settings quiet_world (default_args\<lparr>a_port := Some ''8080''\<rparr>) (Some ''bob'') [] =
     (Inr \<lparr>us_user = ''bob'', us_mailpile = ''/opt/Mailpile/scripts/../mp'', us_host = ''127.0.0.1'',
           us_port = ''8080'', us_path = ''/mailpile/bob/'',
           us_pidfile = ''/var/lib/mailpile/pids/bob.pid'', us_pid = None\<rparr>, quiet_world)"
  by (simp add: get_user_settings_unfold choose_port_explicit default_args_def quiet_world_def
      mp_root_def os_path_join_def join2_def os_path_dirname_def APACHE_DEFAULT_WEBROOT_def
      py_replace.simps)

lemma get_user_settings_bob_twice:
  "get_user_settings quiet_world default_args (Some ''bob'') bob_twice =
     (Inr \<lparr>us_user = ''bob'', us_mailpile = ''/opt/Mailpile/scripts/../mp'', us_host = ''127.0.0.1'',
           us_port = ''8080'', us_path = ''/mailpile/bob/'',
           us_pidfile = ''/var/lib/mailpile/pids/bob.pid'', us_pid = None\<rparr>, quiet_world)"
proof -
  have "choose_port quiet_world default_args ''bob'' bob_twice = (Inr ''8080'', quiet_world)"
    using choose_port_registered [OF _ registered_ports_bob_twice, of default_args quiet_world]
    by (simp add: default_args_def digit_char_def)
  then show ?thesis
    by (simp add: get_user_settings_unfold)
      (simp add: default_args_def quiet_world_def mp_root_def os_path_join_def join2_def
        os_path_dirname_def APACHE_DEFAULT_WEBROOT_def py_replace.simps)
qed

theorem pidfile_inside_pids_directory_witness:
  "us_pidfile \<lparr>us_user = ''bob'', us_mailpile = ''/opt/Mailpile/scripts/../mp'', us_host = ''127.0.0.1'',
      us_port = ''8080'', us_path = ''/mailpile/bob/'',
      us_pidfile = ''/var/lib/mailpile/pids/bob.pid'', us_pid = None\<rparr> =
    MAILPILE_PIDS_PATH @ ''/bob.pid''"
  using pidfile_inside_pids_directory [OF get_user_settings_port_8080] by simp

theorem unsafe_user_rejected_witness:
  "get_user_settings quiet_world default_args (Some ''../etc/cron'') [] =
     (Inl AssertionError, quiet_world)"
  by (rule unsafe_user_rejected) simp

theorem reuses_lowest_registered_port_witness:
  "\<exists>us. get_user_settings quiet_world default_args (Some ''bob'') bob_twice = (Inr us, quiet_world) \<and>
     us_port us = ''8080''"
proof -
  have "\<not> truthy (a_port default_args)"
    by (simp add: default_args_def)
  from reuses_lowest_registered_port [OF this, of "Some ''bob''" quiet_world bob_twice "[8081, 8080]"]
  show ?thesis
    by (simp add: registered_ports_bob_twice quiet_world_def digit_char_def)
qed

theorem user_settings_port_witness:
  "a_port (default_args\<lparr>a_port := Some ''8080''\<rparr>) = Some ''8080''"
  using user_settings_port [OF get_user_settings_port_8080] by simp

end
