(* ===== verification/Lifecycle.thy ===== *)
theory Lifecycle
  imports Settings RouteStore
begin

text \<open>
  The actions of the tool: \<^verbatim>\<open>run_script\<close>, which runs a list of shell
  lines; \<^verbatim>\<open>_get_mailpiles\<close>, which builds the registry;
  \<^verbatim>\<open>install_apache\<close>, \<^verbatim>\<open>start_mailpile\<close> and \<^verbatim>\<open>stop_mailpile\<close>;
  \<^verbatim>\<open>run_as_user\<close>, which hands a command to \<^verbatim>\<open>expect\<close>; and
  \<^verbatim>\<open>usage\<close>. Each takes the world and returns the world it leaves,
  with \<open>Inl\<close> of the exception when it raises; \<^verbatim>\<open>sys.exit\<close> is the
  exception \<open>SystemExit\<close>.
\<close>

section \<open>Scripts\<close>

definition MAILPILE_STOP_SCRIPT :: "string list" where
  \<open>MAILPILE_STOP_SCRIPT =
     [''kill "%(pid)s" || (rm -f "%(pidfile)s"; false)'',
      ''sleep 10'',
      ''kill "%(pid)s" || (rm -f "%(pidfile)s"; true)'']\<close>

definition MAILPILE_FORCE_STOP_SCRIPT :: "string list" where
  \<open>MAILPILE_FORCE_STOP_SCRIPT =
     [''kill -INT "%(pid)s" && (sleep 20; kill -9 "%(pid)s") || true'',
      ''rm -f "%(pidfile)s"'']\<close>

definition MAILPILE_START_SCRIPT :: "string list" where
  \<open>MAILPILE_START_SCRIPT =
     [''screen -S mailpile -d -m "%(mailpile)s"'' @
      '' "--www=%(host)s:%(port)s%(path)s"'' @
      '' "--pid=%(pidfile)s"'' @
      '' --interact'']\<close>

definition INSTALL_APACHE_SCRIPT :: "string list" where
  \<open>INSTALL_APACHE_SCRIPT =
     [''"%(packager)s" install screen expect'',
      ''a2enmod headers rewrite proxy proxy_http'',
      ''mkdir -p /var/lib/mailpile/apache/ /var/lib/mailpile/pids/'',
      ''cp -a "%(mailpile-www)s"/* /var/lib/mailpile/apache/'',
      ''rm -f /var/lib/mailpile/apache/shared'',
      ''ln -fs "%(mailpile-static)s" /var/lib/mailpile/apache/shared'',
      ''ln -fs "%(mailpile-admin)s" /var/lib/mailpile/apache/admin.cgi'',
      ''ln -fs "%(mailpile-conf)s" /etc/apache2/conf-enabled/'',
      ''apache2ctl restart'']\<close>

definition FIX_PERMS_SCRIPT :: "string list" where
  "FIX_PERMS_SCRIPT =
     [''chown -R %(apache-user)s:%(apache-group)s /var/lib/mailpile/apache/'',
      ''chmod go+rwxt /var/lib/mailpile/pids'']"

text \<open>
  The text given to \<^verbatim>\<open>expect\<close>. In the source it is a string literal in
  which \<^verbatim>\<open>\\\<close> stands for one backslash: the script sends the password
  and the command each followed by backslash and \<^verbatim>\<open>n\<close>, and waits for
  a prompt that ends in \<^verbatim>\<open>$\<close>.
\<close>

definition RUN_AS_EXPECT_SCRIPT :: string where
  \<open>RUN_AS_EXPECT_SCRIPT =
     ''    spawn su -l %(user)s\<newline>'' @
     ''    expect assword {\<newline>'' @
     ''        send "%(password)s'' @ [BS] @ ''n"\<newline>'' @
     ''    }\<newline>'' @
     ''    expect {\<newline>'' @
     ''        incorrect   exit\<newline>'' @
     ''        failure     exit\<newline>'' @
     ''        timeout     exit\<newline>'' @
     ''        "'' @ [BS, BS] @ ''$"\<newline>'' @
     ''    }\<newline>'' @
     ''    send "exec %(command)s'' @ [BS] @ ''n"\<newline>'' @
     ''    expect heat_death_of_universe\<newline>''\<close>

section \<open>Running a script\<close>

text \<open>
  Each line is filled in from the escaped settings, printed and given to the
  shell; the first exit status that is not zero ends the script. The function
  returns nothing in either case: what tells the two apart is the last line
  printed.
\<close>

definition fill :: "(string, string) pydict \<Rightarrow> string \<Rightarrow> string result" where
  "fill settings line = rbind (escaped settings) (py_format line)"

fun run_script :: "world \<Rightarrow> (string, string) pydict \<Rightarrow> string list \<Rightarrow> unit io" where
  "run_script w settings [] = (Inr (), print_line w ''===[ SUCCESS! ]==='')"
| "run_script w settings (line # script) =
     (case fill settings line of
        Inl e \<Rightarrow> (Inl e, w)
      | Inr line' \<Rightarrow>
          let w1 = print_line w (''==> '' @ line');
              rv = fst (os_system w1 line');
              w2 = snd (os_system w1 line')
          in if 0 \<noteq> rv
             then (Inr (), print_line w2 (''==[ FAILED! Exit code: '' @ str_of_nat rv @ '' ]==''))
             else run_script w2 settings script)"

section \<open>The registry\<close>

definition get_mailpiles :: "world \<Rightarrow> args \<Rightarrow> mailpiles io" where
  "get_mailpiles w args =
     (let os_settings = get_os_settings w args;
          parsed = parse_htaccess w []
      in if a_discover args then (discover_mailpiles (snd parsed) (fst parsed), snd parsed)
         else (Inr (fst parsed), snd parsed))"

section \<open>Leaving with a message\<close>

definition usage :: "world \<Rightarrow> string \<Rightarrow> nat \<Rightarrow> 'a io" where
  "usage w reason code = (Inl (SystemExit code), print_usage (print_line w (''error: '' @ reason)))"

section \<open>Installing\<close>

text \<open>
  \<^verbatim>\<open>save_htaccess\<close> adds a key to \<^verbatim>\<open>os_settings\<close>, so the second script
  is filled in from a dictionary that holds the rules as well.
\<close>

definition install_apache :: "world \<Rightarrow> args \<Rightarrow> unit io" where
  "install_apache w args =
     (if euid w = 0 then
        let os_settings = get_os_settings w args
        in then_do (run_script w os_settings INSTALL_APACHE_SCRIPT) (\<lambda>_ w1.
           then_do (get_mailpiles w1 args) (\<lambda>mailpiles w2.
           then_do (save_htaccess w2 os_settings mailpiles) (\<lambda>os_settings' w3.
             run_script w3 os_settings' FIX_PERMS_SCRIPT)))
      else usage w ''Please run this as root!'' 3)"

section \<open>Running as another user\<close>

text \<open>
  The child is started before the script for it is made, so a missing
  \<^verbatim>\<open>expect\<close> is reported first.
\<close>

definition run_as_user :: "world \<Rightarrow> string \<Rightarrow> string \<Rightarrow> string \<Rightarrow> (string \<times> string) io" where
  "run_as_user w user password command =
     (if expect w = None then (Inl (OSError ''expect''), w)
      else
        case fill [(''user'', user), (''password'', password), (''command'', command)]
               RUN_AS_EXPECT_SCRIPT of
          Inl e \<Rightarrow> (Inl e, w)
        | Inr expects \<Rightarrow> run_expect w expects)"

definition print_output :: "(string \<times> string) io \<Rightarrow> unit io" where
  "print_output r = then_do r (\<lambda>out w. (Inr (), print_line w (fst out @ snd out)))"

section \<open>Starting\<close>

text \<open>\<^verbatim>\<open>^[0-9]+$\<close> and \<^verbatim>\<open>^[a-z0-9\.]+$\<close>\<close>

definition port_re :: regex where
  "port_re = seqs [Bol, Plus is_digit, Eol]"

definition host_re :: regex where
  "host_re = seqs [Bol, Plus cls_lower_digit_dot, Eol]"

definition sudo_line :: "string \<Rightarrow> string" where
  \<open>sudo_line command = ''sudo -u "%(user)s" -- '' @ command\<close>

text \<open>Lines 359 to 362, the command a start for another user passes on.\<close>

definition start_command :: "(string, string) pydict \<Rightarrow> user_settings \<Rightarrow> string result" where
  \<open>start_command os_settings user_settings =
     rbind (getitem os_settings ''mailpile-admin'') (\<lambda>admin.
     rbind (escape admin) (\<lambda>admin'.
     rbind (escape (us_port user_settings)) (\<lambda>port'.
     rbind (escape (us_host user_settings)) (\<lambda>host'.
       Inr ([DQ] @ admin' @ ''" --start --port="'' @ port' @ ''" --host="'' @ host' @ [DQ])))))\<close>

text \<open>Lines 358 to 372: how the Mailpile is launched.\<close>

definition launch :: "world \<Rightarrow> args \<Rightarrow> (string, string) pydict \<Rightarrow> user_settings \<Rightarrow> unit io" where
  "launch w args os_settings user_settings =
     (if truthy (a_user args) then
        case start_command os_settings user_settings of
          Inl e \<Rightarrow> (Inl e, w)
        | Inr command \<Rightarrow>
            if truthy (a_password args)
            then print_output
                   (run_as_user w (py_or (a_user args) []) (py_or (a_password args) []) command)
            else run_script w (settings_dict user_settings) [sudo_line command]
      else run_script w (settings_dict user_settings) MAILPILE_START_SCRIPT)"

text \<open>The entry a start registers: a tuple, not in the file yet, without pid.\<close>

definition started :: "user_settings \<Rightarrow> details" where
  "started user_settings =
     \<lparr>m_user = us_user user_settings, m_host = us_host user_settings,
      m_port = us_port user_settings, m_in_htaccess = False, m_pid = None, m_rss = None,
      m_kind = PyTuple\<rparr>"

definition start_mailpile :: "world \<Rightarrow> args \<Rightarrow> unit io" where
  "start_mailpile w args =
     (let os_settings = get_os_settings w args;
          parsed = parse_htaccess w [];
          mailpiles = fst parsed
      in then_do (get_user_settings (snd parsed) args (a_user args) mailpiles) (\<lambda>user_settings w2.
         if re_match port_re (us_port user_settings) = None then (Inl AssertionError, w2)
         else if re_match host_re (us_host user_settings) = None then (Inl AssertionError, w2)
         else then_do (launch w2 args os_settings user_settings) (\<lambda>_ w3.
           if truthy (a_user args) then
             let hostport = hostport_of (us_host user_settings) (us_port user_settings);
                 mailpiles' = AList.update hostport (started user_settings) mailpiles
             in then_do (save_htaccess w3 os_settings mailpiles') (\<lambda>os_settings' w4.
                  run_script w4 os_settings' FIX_PERMS_SCRIPT)
           else (Inr (), w3))))"

section \<open>Stopping\<close>

definition stop_command :: "world \<Rightarrow> string result" where
  \<open>stop_command w = rbind (escape (realpath w (argv0 w))) (\<lambda>admin'. Inr ([DQ] @ admin' @ ''" --stop''))\<close>

text \<open>Lines 399 to 402: the script runs only if the pid file gave a pid.\<close>

definition stop_script :: "world \<Rightarrow> user_settings \<Rightarrow> string list \<Rightarrow> unit io" where
  "stop_script w user_settings script =
     (if truthy (us_pid user_settings) then run_script w (settings_dict user_settings) script
      else usage w ''No PID found, cannot stop Mailpile'' 0)"

definition stop_mailpile :: "world \<Rightarrow> args \<Rightarrow> unit io" where
  "stop_mailpile w args =
     then_do (get_user_settings w args (a_user args) []) (\<lambda>user_settings w1.
       if truthy (a_user args) then
         case stop_command w1 of
           Inl e \<Rightarrow> (Inl e, w1)
         | Inr command \<Rightarrow>
             if truthy (a_password args)
             then print_output
                    (run_as_user w1 (py_or (a_user args) []) (py_or (a_password args) []) command)
             else stop_script w1 user_settings [sudo_line command]
       else stop_script w1 user_settings
              (MAILPILE_STOP_SCRIPT @ (if a_force args then MAILPILE_FORCE_STOP_SCRIPT else [])))"

lemmas script_defs =
  MAILPILE_STOP_SCRIPT_def MAILPILE_FORCE_STOP_SCRIPT_def MAILPILE_START_SCRIPT_def
  INSTALL_APACHE_SCRIPT_def FIX_PERMS_SCRIPT_def RUN_AS_EXPECT_SCRIPT_def

lemmas lifecycle_defs [mp_defs] =
  get_mailpiles_def usage_def install_apache_def run_as_user_def print_output_def port_re_def
  host_re_def sudo_line_def start_command_def launch_def started_def stop_command_def
  stop_script_def

section \<open>Facts about scripts\<close>

text \<open>One line of a script, with the shell's answer named.\<close>

lemma run_script_Cons:
  "run_script w settings (line # script) =
     (case fill settings line of
        Inl e \<Rightarrow> (Inl e, w)
      | Inr l \<Rightarrow>
          if fst (shell w l (files w)) \<noteq> 0
          then (Inr (), print_line (snd (os_system (print_line w (''==> '' @ l)) l))
                  (''==[ FAILED! Exit code: '' @ str_of_nat (fst (shell w l (files w))) @ '' ]==''))
          else run_script (snd (os_system (print_line w (''==> '' @ l)) l)) settings script)"
  by (simp add: Let_def split: sum.splits)

text \<open>
  The commands a script has run: each is the filled-in line at its position,
  each but the last has exit status zero, and the last line printed tells
  whether all had.
\<close>

abbreviation (input) script_ran ::
  "(string, string) pydict \<Rightarrow> string list \<Rightarrow> unit result \<Rightarrow> world \<Rightarrow> world \<Rightarrow>
   (string \<times> nat) list \<Rightarrow> bool" where
  "script_ran settings script r w w' cs \<equiv>
     commands w' = commands w @ cs \<and> length cs \<le> length script \<and>
     (\<forall>c \<in> set (butlast cs). snd c = 0) \<and>
     map (\<lambda>c. Inr (fst c)) cs = map (fill settings) (take (length cs) script) \<and>
     (r = Inr () \<longrightarrow> stdout w' \<noteq> [] \<and>
        (last (stdout w') = ''===[ SUCCESS! ]==='' \<longleftrightarrow>
           length cs = length script \<and> (\<forall>c \<in> set cs. snd c = 0))) \<and>
     (\<forall>e. r = Inl e \<longrightarrow> length cs < length script \<and> fill settings (script ! length cs) = Inl e \<and>
        (\<forall>c \<in> set cs. snd c = 0))"

lemma run_script_ran:
  "run_script w settings script = (r, w') \<Longrightarrow> \<exists>ran. script_ran settings script r w w' ran"
proof (induction script arbitrary: w)
  case Nil
  then show ?case by auto
next
  case (Cons line script)
  show ?case
  proof (cases "fill settings line")
    case (Inl e)
    with Cons.prems show ?thesis
      by (intro exI [of _ "[]"]) (auto simp: run_script_Cons)
  next
    case (Inr l)
    let ?rv = "fst (shell w l (files w))"
    let ?w2 = "snd (os_system (print_line w (''==> '' @ l)) l)"
    show ?thesis
    proof (cases "?rv = 0")
      case False
      with Inr Cons.prems show ?thesis
        by (intro exI [of _ "[(l, ?rv)]"]) (auto simp: run_script_Cons)
    next
      case True
      with Inr Cons.prems have "run_script ?w2 settings script = (r, w')"
        by (simp add: run_script_Cons)
      from Cons.IH [OF this] obtain ran where "script_ran settings script r ?w2 w' ran"
        by blast
      with True Inr show ?thesis
        by (intro exI [of _ "(l, 0) # ran"]) (auto dest: in_set_butlastD)
    qed
  qed
qed


declare run_script.simps(2) [simp del]

lemma run_script_only_ran: "run_script w settings script = (r, w') \<Longrightarrow> only_ran w w'"
proof (induction script arbitrary: w)
  case Nil
  then show ?case by auto
next
  case (Cons line script)
  let ?w1 = "print_line w (''==> '' @ projr (fill settings line))"
  let ?w2 = "snd (os_system ?w1 (projr (fill settings line)))"
  have "only_ran w ?w2"
    by (rule only_ran_trans [OF only_ran_print_line only_ran_os_system])
  with Cons show ?case
    by (auto simp: run_script_Cons split: sum.splits if_splits
        intro: only_ran_trans [OF _ only_ran_print_line] dest!: Cons.IH elim: only_ran_trans)
qed

lemma run_script_files:
  "keeps_files w \<Longrightarrow> run_script w settings script = (r, w') \<Longrightarrow> files w' = files w"
proof (induction script arbitrary: w)
  case Nil
  then show ?case by auto
next
  case (Cons line script)
  have keep: "keeps_files (snd (os_system (print_line w l) l'))" for l l'
    using Cons.prems(1) by (simp add: keeps_files_def)
  have "files (snd (os_system (print_line w l) l')) = files w" for l l'
    using Cons.prems(1) by (simp add: keeps_files_def)
  with Cons.prems(2) Cons.IH [OF keep] show ?case
    by (auto simp: run_script_Cons split: sum.splits if_splits)
qed

section \<open>Facts about the helpers\<close>

lemma usage_only_printed [simp]: "only_printed w (snd (usage w reason code))"
  by (auto simp: usage_def intro: only_printed_trans [OF only_printed_print_line])

lemma fst_usage [simp]: "fst (usage w reason code) = Inl (SystemExit code)"
  by (simp add: usage_def)

lemma run_as_user_frame:
  assumes "run_as_user w user password command = (r, w')"
  shows "files w' = files w" and "commands w' = commands w" and "shell w' = shell w"
    and "stdout w' = stdout w" and "rand_used w' = rand_used w"
    and "prefix (expect_log w) (expect_log w')"
  using assms
  by (auto simp: run_as_user_def run_expect_def split: if_splits sum.splits option.splits)

lemma print_output_frame:
  assumes "print_output (run_as_user w user password command) = (r, w')"
  shows "files w' = files w" and "commands w' = commands w" and "shell w' = shell w"
    and "rand_used w' = rand_used w"
proof -
  obtain r1 w1 where r: "run_as_user w user password command = (r1, w1)"
    by force
  from run_as_user_frame [OF r] assms r
  show "files w' = files w" and "commands w' = commands w" and "shell w' = shell w"
    and "rand_used w' = rand_used w"
    by (cases r1; auto simp: print_output_def then_do_def print_line_def)+
qed

lemma launch_frame:
  assumes "launch w args os_settings us = (r, w')"
  shows "shell w' = shell w" and "rand_used w' = rand_used w"
    and "keeps_files w \<Longrightarrow> files w' = files w"
    and "prefix (commands w) (commands w')"
proof -
  have rs: "shell w' = shell w \<and> rand_used w' = rand_used w \<and> (keeps_files w \<longrightarrow> files w' = files w)
      \<and> prefix (commands w) (commands w')"
    if "run_script w s script = (r, w')" for s script
    using run_script_only_ran [OF that] run_script_files [OF _ that] by (simp add: only_ranD)
  have po: "shell w' = shell w \<and> rand_used w' = rand_used w \<and> (keeps_files w \<longrightarrow> files w' = files w)
      \<and> prefix (commands w) (commands w')"
    if "print_output (run_as_user w u p c) = (r, w')" for u p c
    using print_output_frame [OF that] by simp
  from assms have "shell w' = shell w \<and> rand_used w' = rand_used w \<and>
      (keeps_files w \<longrightarrow> files w' = files w) \<and> prefix (commands w) (commands w')"
    by (auto simp: launch_def split: if_splits sum.splits dest: rs po)
  then show "shell w' = shell w" and "rand_used w' = rand_used w"
    and "keeps_files w \<Longrightarrow> files w' = files w" and "prefix (commands w) (commands w')"
    by simp_all
qed

lemma launch_host [simp]: "launch w (args\<lparr>a_host := h\<rparr>) os us = launch w args os us"
  by (simp add: launch_def cong: if_cong sum.case_cong)

lemma start_mailpile_host:
  "start_mailpile w (args\<lparr>a_host := h\<rparr>) = start_mailpile w args"
  by (simp add: start_mailpile_def cong: if_cong)

section \<open>The frame of the actions\<close>

text \<open>
  What holds between the world before and the world after an action, for
  every relation that the steps of the actions keep: printing and drawing
  random numbers, a script, a command run as another user, a save of the
  routing file, a sleep. The actions are sequences of these steps, so a
  relation that is reflexive and transitive and holds for the steps holds for
  the actions; it is proved once here and used for each relation.
\<close>

definition action_frame :: "(world \<Rightarrow> world \<Rightarrow> bool) \<Rightarrow> bool" where
  "action_frame R \<longleftrightarrow>
     (\<forall>w. R w w) \<and> (\<forall>a b c. R a b \<longrightarrow> R b c \<longrightarrow> R a c) \<and>
     (\<forall>w w'. only_printed w w' \<longrightarrow> R w w') \<and>
     (\<forall>w settings script r w'. run_script w settings script = (r, w') \<longrightarrow> R w w') \<and>
     (\<forall>w user password command r w'. run_as_user w user password command = (r, w') \<longrightarrow> R w w') \<and>
     (\<forall>w os_settings mp r w'. save_htaccess w os_settings mp = (r, w') \<longrightarrow> R w w') \<and>
     (\<forall>w seconds. R w (sleep w seconds))"

lemma action_frameD:
  assumes "action_frame R"
  shows "R w w" and "R a b \<Longrightarrow> R b c \<Longrightarrow> R a c" and "only_printed w w' \<Longrightarrow> R w w'"
    and "run_script w settings script = (r, w') \<Longrightarrow> R w w'"
    and "run_as_user w user password command = (r2, w') \<Longrightarrow> R w w'"
    and "save_htaccess w os_settings mp = (r3, w') \<Longrightarrow> R w w'"
    and "R w (sleep w seconds)"
  using assms unfolding action_frame_def by (simp_all (no_asm_simp))

lemma framed_print_output:
  assumes "action_frame R" and "print_output (run_as_user w user password command) = (r, w')"
  shows "R w w'"
  using assms(2) unfolding print_output_def
  by (auto elim!: then_doE dest!: action_frameD(5) [OF assms(1)]
      intro: action_frameD(2) [OF assms(1)] action_frameD(3) [OF assms(1)])

lemma framed_get_user_settings:
  "action_frame R \<Longrightarrow> get_user_settings w args user mp = (r, w') \<Longrightarrow> R w w'"
  by (blast dest: get_user_settings_only_printed action_frameD(3))

lemma framed_usage: "action_frame R \<Longrightarrow> usage w reason code = (r, w') \<Longrightarrow> R w w'"
  by (metis usage_only_printed action_frameD(3) snd_conv)

lemma framed_parse_htaccess: "action_frame R \<Longrightarrow> R w (snd (parse_htaccess w mp))"
  by (simp add: action_frameD(3))

lemma framed_launch:
  assumes "action_frame R" and "launch w args os_settings us = (r, w')"
  shows "R w w'"
  using assms(2)
  by (auto simp: launch_def split: if_splits sum.splits
      dest: action_frameD(4) [OF assms(1)] framed_print_output [OF assms(1)]
      intro: action_frameD(1) [OF assms(1)])

lemma framed_stop_script:
  assumes "action_frame R" and "stop_script w us script = (r, w')"
  shows "R w w'"
  using assms(2)
  by (auto simp: stop_script_def split: if_splits
      dest: action_frameD(4) [OF assms(1)] framed_usage [OF assms(1)])

lemma framed_get_mailpiles:
  assumes "action_frame R" and "get_mailpiles w args = (r, w')"
  shows "R w w'"
  using assms(2) framed_parse_htaccess [OF assms(1), of w "[]"]
  by (auto simp: get_mailpiles_def Let_def split: if_splits)

lemmas framed =
  framed_get_user_settings framed_launch action_frameD(6) action_frameD(4) framed_print_output
  framed_stop_script framed_get_mailpiles framed_usage

lemma framed_start_mailpile:
  assumes "action_frame R" and "start_mailpile w args = (r, w')"
  shows "R w w'"
proof -
  note trans = action_frameD(2) [OF assms(1)]
  have "R (snd (parse_htaccess w [])) w'"
    using assms(2) unfolding start_mailpile_def Let_def
    by (auto elim!: then_doE split: if_splits dest!: framed [OF assms(1)]
        intro: action_frameD(1) [OF assms(1)])
      (blast intro: trans)+
  then show ?thesis
    by (rule trans [OF framed_parse_htaccess [OF assms(1)]])
qed

lemma framed_stop_mailpile:
  assumes "action_frame R" and "stop_mailpile w args = (r, w')"
  shows "R w w'"
  using assms(2) unfolding stop_mailpile_def
  by (auto elim!: then_doE split: if_splits sum.splits dest!: framed [OF assms(1)]
      intro: action_frameD(2) [OF assms(1)])

lemma framed_install_apache:
  assumes "action_frame R" and "install_apache w args = (r, w')"
  shows "R w w'"
  using assms(2) unfolding install_apache_def Let_def
  by (auto elim!: then_doE split: if_splits dest!: framed [OF assms(1)])
    (blast intro: action_frameD(2) [OF assms(1)])+

text \<open>The two frames of the development.\<close>

lemma action_frame_only_acted: "action_frame only_acted"
  unfolding action_frame_def
  by (auto intro: only_acted_trans dest: run_script_only_ran save_htaccess_only_ran
      only_acted_run_expect simp: run_as_user_def split: if_splits sum.splits)

lemma action_frame_stays_unrouted: "action_frame stays_unrouted"
proof -
  have "stays_unrouted w w'" if "run_script w settings script = (r, w')" for w settings script r w'
    using run_script_files [OF _ that] only_ranD(2) [OF run_script_only_ran [OF that]]
    by (auto simp: stays_unrouted_def unrouted_def keeps_files_def)
  moreover have "stays_unrouted w w'" if "run_as_user w u p c = (r, w')" for w u p c r w'
    by (rule stays_unroutedI) (simp_all add: run_as_user_frame [OF that])
  moreover have "stays_unrouted w w'" if "only_printed w w'" for w w'
    by (rule stays_unroutedI) (simp_all add: only_printedD [OF that])
  ultimately show ?thesis
    unfolding action_frame_def
    by (auto dest: save_htaccess_stays_unrouted simp: sleep_def stays_unroutedI)
      (simp_all add: stays_unrouted_def)
qed

section \<open>Facts about starting\<close>

text \<open>What \<^verbatim>\<open>^[0-9]+$\<close> accepts: \<^verbatim>\<open>$\<close> matches before a final newline too.\<close>

lemma port_re_iff:
  "re_match port_re p \<noteq> None \<longleftrightarrow>
   (\<exists>d. d \<noteq> [] \<and> list_all is_digit d \<and> (p = d \<or> p = d @ [CHR 0x0A]))"
proof
  assume "re_match port_re p \<noteq> None"
  then obtain w where "matches port_re 0 p w"
    using re_match_matches by blast
  then obtain d where "list_all is_digit d" "1 \<le> length d" "p = d \<or> p = d @ [CHR 0x0A]"
    by (auto simp: port_re_def prefix_def)
  then show "\<exists>d. d \<noteq> [] \<and> list_all is_digit d \<and> (p = d \<or> p = d @ [CHR 0x0A])"
    by (intro exI [of _ d]) auto
next
  assume "\<exists>d. d \<noteq> [] \<and> list_all is_digit d \<and> (p = d \<or> p = d @ [CHR 0x0A])"
  then obtain d where d: "d \<noteq> []" "list_all is_digit d" "p = d \<or> p = d @ [CHR 0x0A]"
    by blast
  have "re_run (Plus is_digit) 0 (d @ t) Map.empty (\<lambda>p' s' g'. re_run Eol p' s' g' (\<lambda>p s g. Some g))
      = Some Map.empty" if "t = [] \<or> t = [CHR 0x0A]" for t
    using d that by (intro re_run_Plus_max) (auto simp: py_defs)
  from this [of "[]"] this [of "[CHR 0x0A]"] d(3) show "re_match port_re p \<noteq> None"
    by (auto simp: port_re_def re_match_def)
qed

lemma start_mailpile_bad_port:
  assumes "a_port args = Some p" and "p \<noteq> []" and "re_match port_re p = None"
  shows "\<exists>w'. start_mailpile w args = (Inl AssertionError, w') \<and> only_printed w w'"
proof -
  let ?w0 = "snd (parse_htaccess w [])"
  from assms have "choose_port ?w0 args u mp = (Inr p, ?w0)" for u mp
    by (simp add: choose_port_explicit)
  with assms(3) have "start_mailpile w args = (Inl AssertionError, ?w0)"
    by (simp add: start_mailpile_def get_user_settings_unfold Let_def)
  then show ?thesis
    by simp
qed

lemma start_mailpile_InrD:
  assumes "start_mailpile w args = (Inr (), w')" and "truthy (a_user args)"
  shows "\<exists>us w2 w3 os' w4.
    get_user_settings (snd (parse_htaccess w [])) args (a_user args) (fst (parse_htaccess w []))
      = (Inr us, w2) \<and>
    re_match port_re (us_port us) \<noteq> None \<and>
    launch w2 args (get_os_settings w args) us = (Inr (), w3) \<and>
    save_htaccess w3 (get_os_settings w args)
      (AList.update (hostport_of (us_host us) (us_port us)) (started us) (fst (parse_htaccess w [])))
      = (Inr os', w4) \<and>
    run_script w4 os' FIX_PERMS_SCRIPT = (Inr (), w')"
  using assms
  by (auto simp: start_mailpile_def Let_def then_do_eq_Inr_iff split: if_splits)

lemma py_or_truthy_eq: "truthy v \<Longrightarrow> py_or v d = py_or v d'"
  by (cases v) (simp_all add: py_or_def)


section \<open>Facts about stopping\<close>

lemma get_random_port_Inl:
  "get_random_port w = (Inl e, w') \<Longrightarrow> e = AssertionError \<or> e = OSError ''netstat''"
  by (auto simp: get_random_port_def parse_netstat_def split: sum.splits option.splits
      dest: try_ports_Inl)

lemma get_user_settings_Inl:
  assumes "get_user_settings w args user [] = (Inl e, w')"
  shows "e = AssertionError \<or> e = OSError ''netstat''"
proof -
  have "choose_port w args u [] = (Inl e, w') \<Longrightarrow> e = AssertionError \<or> e = OSError ''netstat''"
    for u by (auto simp: choose_port_def split: if_splits dest: get_random_port_Inl)
  with assms show ?thesis
    by (cases "choose_port w args (py_or user (login w)) []")
      (auto simp: get_user_settings_unfold then_do_def split: if_splits sum.splits)
qed

lemma stop_command_Inl: "stop_command w = Inl e \<Longrightarrow> e = UnicodeDecodeError"
  by (cases "escape (realpath w (argv0 w))") (auto simp: stop_command_def escape_Inl_iff)

lemma stop_mailpile_cases [consumes 1, case_names settings_failed no_command as_user script]:
  assumes "stop_mailpile w args = (r, w')"
  obtains (settings_failed) e
      where "get_user_settings w args (a_user args) [] = (Inl e, w')" "r = Inl e"
    | (no_command) us where "get_user_settings w args (a_user args) [] = (Inr us, w')"
        "truthy (a_user args)" "r = Inl UnicodeDecodeError"
    | (as_user) us w1 command where "get_user_settings w args (a_user args) [] = (Inr us, w1)"
        "truthy (a_user args)" "truthy (a_password args)"
        "print_output (run_as_user w1 (py_or (a_user args) []) (py_or (a_password args) []) command)
           = (r, w')"
    | (script) us w1 script where "get_user_settings w args (a_user args) [] = (Inr us, w1)"
        "\<not> (truthy (a_user args) \<and> truthy (a_password args))"
        "stop_script w1 us script = (r, w')"
proof (cases "get_user_settings w args (a_user args) []")
  case (Pair r1 w1)
  show ?thesis
  proof (cases r1)
    case (Inl e)
    with Pair assms settings_failed show ?thesis
      by (simp add: stop_mailpile_def)
  next
    case (Inr us)
    show ?thesis
    proof (cases "stop_command w1")
      case (Inl e)
      with Pair Inr assms no_command [of us] script [of us w1] stop_command_Inl [OF Inl]
      show ?thesis
        by (auto simp: stop_mailpile_def split: if_splits)
    next
      case cmd: (Inr command)
      with Pair Inr assms as_user [of us w1 command] script [of us w1] show ?thesis
        by (auto simp: stop_mailpile_def split: if_splits)
    qed
  qed
qed

lemma stop_script_no_pid:
  "\<not> truthy (us_pid us) \<Longrightarrow> stop_script w us script = (r, w') \<Longrightarrow>
   r = Inl (SystemExit 0) \<and> only_printed w w'"
  by (auto simp: stop_script_def usage_def intro: only_printed_trans [OF only_printed_print_line])

lemma stop_script_files:
  "keeps_files w \<Longrightarrow> stop_script w us script = (r, w') \<Longrightarrow> files w' = files w"
  by (auto simp: stop_script_def usage_def print_usage_def dest: run_script_files split: if_splits)

section \<open>Properties\<close>

text \<open>
  C5: \<^verbatim>\<open>run_script\<close> runs the lines of a script in order, each filled in
  from the escaped settings, and stops at the first exit status that is not
  zero: every command it ran but the last returned zero. When it returns, the
  last line printed is the success line exactly if all lines were run and all
  returned zero.
\<close>

theorem run_script_stops_at_first_failure:
  assumes "run_script w settings script = (r, w')"
  shows "\<exists>ran. commands w' = commands w @ ran \<and> length ran \<le> length script \<and>
     (\<forall>c \<in> set (butlast ran). snd c = 0) \<and>
     map (\<lambda>c. Inr (fst c)) ran = map (fill settings) (take (length ran) script) \<and>
     (r = Inr () \<longrightarrow>
        (last (stdout w') = ''===[ SUCCESS! ]==='' \<longleftrightarrow>
           length ran = length script \<and> (\<forall>c \<in> set ran. snd c = 0)))"
  using run_script_ran [OF assms] by blast

text \<open>
  The files around the rewriting of the routing file: reading the settings
  and launching leave them as they were, and the script that fixes the
  permissions leaves them as the rewriting made them.
\<close>

lemma files_until_save:
  assumes "get_user_settings (snd (parse_htaccess w [])) args u mp = (Inr us, w2)"
    and "launch w2 args os us = (r, w3)" and "keeps_files w"
  shows "keeps_files w3" and "files w3 = files w"
proof -
  have "only_printed w w2"
    using get_user_settings_only_printed [OF assms(1)] by (rule only_printed_trans [rotated]) simp
  note w2 = only_printedD(1,4) [OF this]
  with assms(3) launch_frame(1,3) [OF assms(2)]
  show "keeps_files w3" and "files w3 = files w"
    by (simp_all add: keeps_files_def)
qed

lemma files_after_save:
  assumes "save_htaccess w3 os mp = (Inr os', w4)" and "run_script w4 os' script = (r, w')"
    and "keeps_files w3"
  shows "files w' = files w4"
proof -
  from only_ranD(2) [OF conjunct1 [OF save_htaccess_only_ran [OF assms(1)]]] assms(3)
  have "keeps_files w4"
    by (simp add: keeps_files_def)
  then show ?thesis
    using assms(2) by (rule run_script_files)
qed

text \<open>
  C6: A start for a named user that returns has rewritten the routing file:
  in a shell that leaves the files alone, the file then holds the rules of the
  registry read before, with the entry of the user put under
  \<^verbatim>\<open>127.0.0.1:port\<close>, one rule per user, and the port has passed the
  check. The exit status of the launch is not among the conditions.
\<close>

theorem start_writes_routing_file:
  assumes "start_mailpile w args = (Inr (), w')" and "truthy (a_user args)" and "keeps_files w"
  shows "\<exists>us rules. us_user us = py_or (a_user args) [] \<and> us_host us = ''127.0.0.1'' \<and>
    re_match port_re (us_port us) \<noteq> None \<and>
    rmapM rule_for (map snd (first_per_user
      (AList.update (hostport_of ''127.0.0.1'' (us_port us)) (started us)
         (fst (parse_htaccess w []))))) = Inr rules \<and>
    files w' = (files w)(APACHE_HTACCESS_PATH @ ''.new'' := None,
      APACHE_HTACCESS_PATH \<mapsto> htaccess_text (py_join ''\<newline>'' rules) (a_webroot args))"
proof -
  let ?w0 = "snd (parse_htaccess w [])" and ?mp = "fst (parse_htaccess w [])"
  from start_mailpile_InrD [OF assms(1,2)] obtain us w2 w3 os' w4
    where us: "get_user_settings ?w0 args (a_user args) ?mp = (Inr us, w2)"
      and port: "re_match port_re (us_port us) \<noteq> None"
      and launch: "launch w2 args (get_os_settings w args) us = (Inr (), w3)"
      and save: "save_htaccess w3 (get_os_settings w args)
          (AList.update (hostport_of (us_host us) (us_port us)) (started us) ?mp) = (Inr os', w4)"
      and perms: "run_script w4 os' FIX_PERMS_SCRIPT = (Inr (), w')"
    by blast
  note host = get_user_settings_InrD(5) [OF us]
  note w3 = files_until_save [OF us launch assms(3)]
  have "files w' = files w4"
    using save perms w3(1) by (rule files_after_save)
  moreover from save_htaccess_InrD [OF save] obtain rules
    where "rmapM rule_for (map snd (first_per_user
        (AList.update (hostport_of (us_host us) (us_port us)) (started us) ?mp))) = Inr rules"
      and "files w4 = (files w3)(APACHE_HTACCESS_PATH @ ''.new'' := None,
        APACHE_HTACCESS_PATH \<mapsto> htaccess_text (py_join ''\<newline>'' rules) (a_webroot args))"
    by auto
  moreover have "us_user us = py_or (a_user args) []"
    using get_user_settings_InrD(1) [OF us] py_or_truthy_eq [OF assms(2)] by simp
  ultimately show ?thesis
    using host port w3(2) by (intro exI [of _ us] exI [of _ rules]) simp
qed

text \<open>
  C10: A port given with \<^verbatim>\<open>--port\<close> that \<^verbatim>\<open>^[0-9]+$\<close> does not match
  ends the start with \<^verbatim>\<open>AssertionError\<close> before any command is run and
  before any file is written: at most the warning about a missing routing
  file has been printed.
\<close>

theorem start_rejects_bad_port:
  assumes "a_port args = Some p" and "p \<noteq> []" and "re_match port_re p = None"
  shows "\<exists>w'. start_mailpile w args = (Inl AssertionError, w') \<and> only_printed w w'"
  using assms by (rule start_mailpile_bad_port)

text \<open>
  C33: \<^verbatim>\<open>--host\<close> has no effect on a start. The host of the settings is
  always \<^verbatim>\<open>127.0.0.1\<close>, which passes the check of the host, so that check
  never fails.
\<close>

theorem start_ignores_host:
  "start_mailpile w (args\<lparr>a_host := h\<rparr>) = start_mailpile w args \<and>
   re_match host_re ''127.0.0.1'' \<noteq> None"
  by (simp add: start_mailpile_host host_re_def re_match_def py_defs less_eq_char_def)

text \<open>
  C32: The check of the port accepts exactly the non-empty strings of digits
  and those followed by one newline, since \<^verbatim>\<open>$\<close> also matches before a
  final newline.
\<close>

theorem port_validation:
  "re_match port_re p \<noteq> None \<longleftrightarrow>
   (\<exists>d. d \<noteq> [] \<and> list_all is_digit d \<and> (p = d \<or> p = d @ ''\<newline>''))"
  using port_re_iff [of p] by simp


text \<open>
  C7: Without a pid file nothing is stopped: unless the stop is handed to
  another user with a password, \<^verbatim>\<open>stop_mailpile\<close> then runs no command,
  writes no file and starts no \<^verbatim>\<open>expect\<close>, and it ends with exit status 0
  or with an error of the settings (\<^verbatim>\<open>AssertionError\<close> for the user name or
  the port, \<^verbatim>\<open>OSError\<close> for \<^verbatim>\<open>netstat\<close>) or of escaping the path of
  the tool.
\<close>

theorem stop_without_pid_runs_nothing:
  assumes "stop_mailpile w args = (r, w')"
    and "\<not> (truthy (a_user args) \<and> truthy (a_password args))"
    and "files w (''/var/lib/mailpile/pids/'' @ py_or (a_user args) (login w) @ ''.pid'') = None"
  shows "only_printed w w' \<and>
    (r = Inl (SystemExit 0) \<or> r = Inl AssertionError \<or> r = Inl (OSError ''netstat'') \<or>
     r = Inl UnicodeDecodeError)"
  using assms(1)
proof (cases rule: stop_mailpile_cases)
  case (settings_failed e)
  with get_user_settings_Inl [OF settings_failed(1)] get_user_settings_only_printed show ?thesis
    by blast
next
  case (no_command us)
  with get_user_settings_only_printed show ?thesis
    by blast
next
  case (as_user us w1 command)
  with assms(2) show ?thesis
    by simp
next
  case (script us w1 script)
  note w1 = get_user_settings_only_printed [OF script(1)]
  from get_user_settings_InrD(1,6,7) [OF script(1)] assms(3) only_printedD(1) [OF w1]
  have "\<not> truthy (us_pid us)"
    by simp
  from stop_script_no_pid [OF this script(3)] w1 show ?thesis
    by (blast intro: only_printed_trans)
qed

text \<open>
  C34: Stopping never writes the routing file, nor any other file: in a shell
  whose commands leave the files alone, the files after \<^verbatim>\<open>stop_mailpile\<close>
  are those before.
\<close>

theorem stop_keeps_files:
  assumes "stop_mailpile w args = (r, w')" and "keeps_files w"
  shows "files w' = files w"
  using assms(1)
proof (cases rule: stop_mailpile_cases)
  case (settings_failed e)
  then show ?thesis
    by (simp add: only_printedD(1) [OF get_user_settings_only_printed])
next
  case (no_command us)
  then show ?thesis
    by (simp add: only_printedD(1) [OF get_user_settings_only_printed])
next
  case (as_user us w1 command)
  from print_output_frame(1) [OF as_user(4)] as_user(1) show ?thesis
    by (simp add: only_printedD(1) [OF get_user_settings_only_printed])
next
  case (script us w1 script)
  note w1 = only_printedD(1,4) [OF get_user_settings_only_printed [OF script(1)]]
  with assms(2) have "keeps_files w1"
    by (simp add: keeps_files_def)
  from stop_script_files [OF this script(3)] w1 show ?thesis
    by simp
qed

text \<open>
  \<^verbatim>\<open>install_apache\<close> run by anyone but root prints the reason and the
  usage and leaves with exit status 3; nothing else happens.
\<close>

theorem install_requires_root:
  assumes "euid w \<noteq> 0"
  shows "install_apache w args =
    (Inl (SystemExit 3), print_usage (print_line w ''error: Please run this as root!''))"
  using assms by (simp add: install_apache_def usage_def)

section \<open>Closed instances\<close>

text \<open>
  A start of bob's Mailpile by someone else, on port 33412, in a world where
  the routing file has a rule for alice and every \<^verbatim>\<open>sudo\<close> fails. The
  worlds after the launch, after the save and after the second script are
  \<open>launched\<close>, \<open>saved\<close> and \<open>fixed\<close>.
\<close>

definition sudo_fails :: world where
  "sudo_fails = quiet_world
     \<lparr>files := [APACHE_HTACCESS_PATH \<mapsto> rule_line ''alice'' ''127.0.0.1'' ''33411'' @ ''\<newline>''],
      shell := (\<lambda>line fs. (if take 4 line = ''sudo'' then 256 else 0, fs))\<rparr>"

definition start_bob :: args where
  "start_bob = default_args\<lparr>a_start := True, a_user := Some ''bob'', a_port := Some ''33412''\<rparr>"

definition bob_settings :: user_settings where
  "bob_settings =
     \<lparr>us_user = ''bob'', us_mailpile = ''/opt/Mailpile/scripts/../mp'', us_host = ''127.0.0.1'',
      us_port = ''33412'', us_path = ''/mailpile/bob/'',
      us_pidfile = ''/var/lib/mailpile/pids/bob.pid'', us_pid = None\<rparr>"

definition sudo_bob :: string where
  \<open>sudo_bob = ''sudo -u "bob" -- "/opt/Mailpile/scripts/mailpile-admin.py" --start --port="33412" --host="127.0.0.1"''\<close>

definition alice_bob_rules :: string where
  "alice_bob_rules =
     rule_line ''alice'' ''127.0.0.1'' ''33411'' @ ''\<newline>'' @ rule_line ''bob'' ''127.0.0.1'' ''33412''"

definition launched :: world where
  "launched = sudo_fails
     \<lparr>stdout := [''==> '' @ sudo_bob, ''==[ FAILED! Exit code: 256 ]==''],
      commands := [(sudo_bob, 256)]\<rparr>"

definition saved :: world where
  "saved = launched\<lparr>files := [APACHE_HTACCESS_PATH \<mapsto> htaccess_text alice_bob_rules ''/mailpile/'']\<rparr>"

definition fixed :: world where
  "fixed = saved
     \<lparr>stdout := stdout launched @
        [''==> chown -R www-data:www-data /var/lib/mailpile/apache/'',
         ''==> chmod go+rwxt /var/lib/mailpile/pids'', ''===[ SUCCESS! ]===''],
      commands := [(sudo_bob, 256), (''chown -R www-data:www-data /var/lib/mailpile/apache/'', 0),
         (''chmod go+rwxt /var/lib/mailpile/pids'', 0)]\<rparr>"

lemma start_bob_simps [simp]:
  "a_user start_bob = Some ''bob''" "a_password start_bob = None" "a_port start_bob = Some ''33412''"
  "a_webroot start_bob = ''/mailpile/''" "a_mailpile_root start_bob = None"
  "a_packager start_bob = None" "a_apache_user start_bob = None" "a_apache_group start_bob = None"
  by (simp_all add: start_bob_def default_args_def APACHE_DEFAULT_WEBROOT_def)

lemma parse_sudo_fails:
  "parse_htaccess sudo_fails [] =
     ([(''127.0.0.1:33411'', registered ''alice'' ''127.0.0.1'' ''33411'')], sudo_fails)"
proof -
  have "file_lines (rule_line ''alice'' ''127.0.0.1'' ''33411'' @ ''\<newline>'') =
     [rule_line ''alice'' ''127.0.0.1'' ''33411'' @ ''\<newline>'']"
    using file_lines_line [of "rule_line ''alice'' ''127.0.0.1'' ''33411''" "[]"]
    by (simp add: rule_line_no_newline)
  then show ?thesis
    by (simp add: parse_htaccess_def read_file_def sudo_fails_def parse_line_rule_line
      clean_examples hostport_of_def)
qed

lemma settings_sudo_fails:
  "get_user_settings sudo_fails start_bob (Some ''bob'') mp = (Inr bob_settings, sudo_fails)"
  by (simp add: get_user_settings_unfold choose_port_explicit)
    (simp add: sudo_fails_def quiet_world_def mp_root_def os_path_join_def join2_def
      os_path_dirname_def py_replace.simps bob_settings_def APACHE_HTACCESS_PATH_def)

lemma validation_bob:
  "re_match port_re (us_port bob_settings) \<noteq> None" "re_match host_re (us_host bob_settings) \<noteq> None"
  by (simp_all add: bob_settings_def port_re_def host_re_def re_match_def py_defs less_eq_char_def)

lemma start_command_bob:
  "start_command (get_os_settings sudo_fails start_bob) bob_settings = Inr (drop 17 sudo_bob)"
  by (simp add: start_command_def bob_settings_def sudo_fails_def quiet_world_def escape_def
      escape_char_def sudo_bob_def py_defs)

lemma run_sudo_bob:
  "run_script sudo_fails (settings_dict bob_settings) [sudo_line (drop 17 sudo_bob)] =
     (Inr (), launched)"
proof -
  have "fill (settings_dict bob_settings) (sudo_line (drop 17 sudo_bob)) = Inr sudo_bob"
    by (simp add: fill_def escaped_def settings_dict_def bob_settings_def sudo_line_def escape_def
        escape_char_def py_format_def sudo_bob_def py_defs)
  moreover have "fst (shell sudo_fails sudo_bob fs) = 256" "snd (shell sudo_fails sudo_bob fs) = fs"
    for fs by (simp_all add: sudo_fails_def sudo_bob_def)
  ultimately show ?thesis
    by (simp add: run_script_Cons launched_def digit_char_def)
      (simp add: sudo_fails_def quiet_world_def os_system_def print_line_def)
qed

lemma launch_bob:
  "launch sudo_fails start_bob (get_os_settings sudo_fails start_bob) bob_settings = (Inr (), launched)"
  by (simp add: launch_def start_command_bob run_sudo_bob)

lemma hostport_bob:
  "hostport_of (us_host bob_settings) (us_port bob_settings) = ''127.0.0.1:33412''"
  by (simp add: bob_settings_def hostport_of_def)

lemma save_bob:
  "save_htaccess launched (get_os_settings sudo_fails start_bob)
     [(''127.0.0.1:33411'', registered ''alice'' ''127.0.0.1'' ''33411''),
      (''127.0.0.1:33412'', started bob_settings)] =
   (Inr (AList.update ''rewriterules'' alice_bob_rules (get_os_settings sudo_fails start_bob)), saved)"
proof -
  have "save_loop [(''127.0.0.1:33411'', registered ''alice'' ''127.0.0.1'' ''33411''),
      (''127.0.0.1:33412'', started bob_settings)] [] [] w =
    (Inr [rule_line ''alice'' ''127.0.0.1'' ''33411'', rule_line ''bob'' ''127.0.0.1'' ''33412''], w)"
    for w by (simp add: rule_for_clean clean_examples registered_def started_def bob_settings_def)
  moreover have "files launched = [APACHE_HTACCESS_PATH \<mapsto> rule_line ''alice'' ''127.0.0.1'' ''33411'' @ ''\<newline>'']"
    by (simp add: launched_def sudo_fails_def)
  ultimately show ?thesis
    by (simp add: save_htaccess_def Let_def format_htaccess [where webroot = "''/mailpile/''"]
        os_remove_def os_rename_def write_file_def saved_def alice_bob_rules_def)
qed

lemma fix_perms_bob:
  "run_script saved (AList.update ''rewriterules'' alice_bob_rules (get_os_settings sudo_fails start_bob))
     FIX_PERMS_SCRIPT = (Inr (), fixed)"
proof -
  let ?os = "AList.update ''rewriterules'' alice_bob_rules (get_os_settings sudo_fails start_bob)"
  have "list_all is_ascii v" if "(k, v) \<in> set ?os" for k v
    using that
    by (auto simp: get_os_settings_def mp_root_def sudo_fails_def quiet_world_def
        rule_line_def alice_bob_rules_def os_path_join_def join2_def os_path_dirname_def
        py_defs Let_def)
  then obtain es where es: "escaped ?os = Inr es"
    using escaped_total [of ?os] by blast
  from map_of_escaped [OF es, of "''apache-user''"] map_of_escaped [OF es, of "''apache-group''"]
  have "map_of es ''apache-user'' = Some ''www-data''" "map_of es ''apache-group'' = Some ''www-data''"
    by (simp_all add: update_conv' escape_char_def py_defs)
  with es have "fill ?os ''chown -R %(apache-user)s:%(apache-group)s /var/lib/mailpile/apache/'' =
      Inr ''chown -R www-data:www-data /var/lib/mailpile/apache/''"
    and "fill ?os ''chmod go+rwxt /var/lib/mailpile/pids'' = Inr ''chmod go+rwxt /var/lib/mailpile/pids''"
    by (simp_all add: fill_def py_format_def)
  then show ?thesis
    by (simp add: FIX_PERMS_SCRIPT_def run_script_Cons)
      (simp add: fixed_def saved_def launched_def sudo_fails_def quiet_world_def os_system_def
        print_line_def)
qed

lemma start_bob_sudo_fails: "start_mailpile sudo_fails start_bob = (Inr (), fixed)"
  by (simp add: start_mailpile_def Let_def parse_sudo_fails settings_sudo_fails validation_bob
      launch_bob hostport_bob save_bob fix_perms_bob)

theorem run_script_stops_at_first_failure_witness:
  "\<exists>ran. commands launched = commands sudo_fails @ ran \<and>
     length ran \<le> length [sudo_line (drop 17 sudo_bob)] \<and>
     (\<forall>c \<in> set (butlast ran). snd c = 0) \<and>
     map (\<lambda>c. Inr (fst c)) ran =
       map (fill (settings_dict bob_settings)) (take (length ran) [sudo_line (drop 17 sudo_bob)]) \<and>
     (last (stdout launched) = ''===[ SUCCESS! ]==='' \<longleftrightarrow>
        length ran = length [sudo_line (drop 17 sudo_bob)] \<and> (\<forall>c \<in> set ran. snd c = 0))"
  using run_script_stops_at_first_failure [OF run_sudo_bob] by simp

theorem start_writes_routing_file_witness:
  "\<exists>us rules. us_user us = py_or (a_user start_bob) [] \<and> us_host us = ''127.0.0.1'' \<and>
    re_match port_re (us_port us) \<noteq> None \<and>
    rmapM rule_for (map snd (first_per_user
      (AList.update (hostport_of ''127.0.0.1'' (us_port us)) (started us)
         (fst (parse_htaccess sudo_fails []))))) = Inr rules \<and>
    files fixed = (files sudo_fails)(APACHE_HTACCESS_PATH @ ''.new'' := None,
      APACHE_HTACCESS_PATH \<mapsto> htaccess_text (py_join ''\<newline>'' rules) (a_webroot start_bob))"
  by (rule start_writes_routing_file [OF start_bob_sudo_fails])
    (simp_all add: keeps_files_def sudo_fails_def)


theorem start_rejects_bad_port_witness:
  "\<exists>w'. start_mailpile quiet_world (default_args\<lparr>a_port := Some ''80; rm -rf /''\<rparr>) =
     (Inl AssertionError, w') \<and> only_printed quiet_world w'"
  by (rule start_rejects_bad_port [where p = "''80; rm -rf /''"])
    (simp_all add: port_re_def re_match_def py_defs less_eq_char_def)

definition stop_args :: args where
  "stop_args = default_args\<lparr>a_stop := True\<rparr>"

theorem stop_without_pid_runs_nothing_witness:
  "only_printed quiet_world (snd (stop_mailpile quiet_world stop_args)) \<and>
   (fst (stop_mailpile quiet_world stop_args) = Inl (SystemExit 0) \<or>
    fst (stop_mailpile quiet_world stop_args) = Inl AssertionError \<or>
    fst (stop_mailpile quiet_world stop_args) = Inl (OSError ''netstat'') \<or>
    fst (stop_mailpile quiet_world stop_args) = Inl UnicodeDecodeError)"
  by (rule stop_without_pid_runs_nothing [OF prod.collapse [symmetric]])
    (simp_all add: stop_args_def default_args_def quiet_world_def)

theorem stop_keeps_files_witness:
  "files (snd (stop_mailpile quiet_world stop_args)) = files quiet_world"
  by (rule stop_keeps_files [OF prod.collapse [symmetric]])
    (simp add: keeps_files_def quiet_world_def)

theorem install_requires_root_witness:
  "install_apache quiet_world default_args =
    (Inl (SystemExit 3), print_usage (print_line quiet_world ''error: Please run this as root!''))"
  by (rule install_requires_root) (simp add: quiet_world_def)



end
