(* ===== verification/Listing.thy ===== *)
theory Listing
  imports Lifecycle "HOL-Library.List_Lexorder" "HOL-Library.Char_ord"
begin

text \<open>
  \<^verbatim>\<open>list_mailpiles\<close> (lines 310 to 328): the table of \<^verbatim>\<open>--list\<close>. The
  registry is read from the routing file and from the processes, whatever
  \<^verbatim>\<open>--discover\<close> says, and printed in the order of its keys, one line
  an entry under a heading. \<^verbatim>\<open>sorted\<close> compares byte strings, which is the
  lexicographic order of lists of characters by their codes.
\<close>

section \<open>Fields\<close>

text \<open>
  \<^verbatim>\<open>%-8.8s\<close> and \<^verbatim>\<open>%6.6s\<close>: the precision cuts the string, the width
  fills it with blanks, on the right when the flag \<^verbatim>\<open>-\<close> is there.
\<close>

definition fmt_left :: "nat \<Rightarrow> string \<Rightarrow> string" where
  "fmt_left n s = take n s @ replicate (n - length s) CHR '' ''"

definition fmt_right :: "nat \<Rightarrow> string \<Rightarrow> string" where
  "fmt_right n s = replicate (n - length s) CHR '' '' @ take n s"

text \<open>\<^verbatim>\<open>fmt % (user, pid, rss, access, port, url)\<close> of line 314.\<close>

definition list_fmt :: "string \<Rightarrow> string \<Rightarrow> string \<Rightarrow> string \<Rightarrow> string \<Rightarrow> string \<Rightarrow> string" where
  "list_fmt user pid rss access port url =
     fmt_left 8 user @ '' '' @ fmt_right 6 pid @ '' '' @ fmt_right 6 rss @ '' '' @
     fmt_left 6 access @ '' '' @ fmt_right 5 port @ '' '' @ url"

section \<open>The table\<close>

text \<open>Lines 318 to 328, the line of one entry.\<close>

definition list_row :: "world \<Rightarrow> (string, string) pydict \<Rightarrow> details \<Rightarrow> string result" where
  "list_row w os_settings d =
     rbind (if m_in_htaccess d
            then rmap (\<lambda>webroot. ''http://'' @ hostname w @ webroot @ m_user d @ ''/'')
                   (getitem os_settings ''webroot'')
            else Inr (''http://'' @ m_host d @ '':'' @ m_port d @ ''/'')) (\<lambda>url.
       Inr (list_fmt (m_user d) (py_or (m_pid d) []) (py_or (m_rss d) [])
              (if m_in_htaccess d then ''apache'' else ''direct'') (m_port d) url))"

fun list_rows :: "world \<Rightarrow> (string, string) pydict \<Rightarrow> mailpiles \<Rightarrow> string list \<Rightarrow> unit io" where
  "list_rows w os_settings mailpiles [] = (Inr (), w)"
| "list_rows w os_settings mailpiles (hostport # keys) =
     (case rbind (getitem mailpiles hostport) (list_row w os_settings) of
        Inl e \<Rightarrow> (Inl e, w)
      | Inr line \<Rightarrow> list_rows (print_line w line) os_settings mailpiles keys)"

definition list_mailpiles :: "world \<Rightarrow> args \<Rightarrow> unit io" where
  "list_mailpiles w args =
     (let os_settings = get_os_settings w args;
          parsed = parse_htaccess w []
      in case discover_mailpiles (snd parsed) (fst parsed) of
           Inl e \<Rightarrow> (Inl e, snd parsed)
         | Inr mailpiles \<Rightarrow>
             list_rows (print_line (snd parsed)
                          (list_fmt ''USER'' ''PID'' ''RSS'' ''ACCESS'' ''PORT'' ''URL''))
               os_settings mailpiles (sort (map fst mailpiles)))"

section \<open>The table as a value\<close>

text \<open>
  The line of an entry as a function of the name of the machine and the web
  root, and the heading.
\<close>

definition row_of :: "string \<Rightarrow> string \<Rightarrow> details \<Rightarrow> string" where
  "row_of host webroot d =
     list_fmt (m_user d) (py_or (m_pid d) []) (py_or (m_rss d) [])
       (if m_in_htaccess d then ''apache'' else ''direct'') (m_port d)
       (if m_in_htaccess d then ''http://'' @ host @ webroot @ m_user d @ ''/''
        else ''http://'' @ m_host d @ '':'' @ m_port d @ ''/'')"

definition list_heading :: string where
  "list_heading = list_fmt ''USER'' ''PID'' ''RSS'' ''ACCESS'' ''PORT'' ''URL''"

section \<open>Facts\<close>

lemma length_fmt [simp]: "length (fmt_left n s) = n" "length (fmt_right n s) = n"
  by (simp_all add: fmt_left_def fmt_right_def)

lemma fmt_short:
  "length s \<le> n \<Longrightarrow> fmt_left n s = s @ replicate (n - length s) CHR '' ''"
  "length s \<le> n \<Longrightarrow> fmt_right n s = replicate (n - length s) CHR '' '' @ s"
  by (simp_all add: fmt_left_def fmt_right_def)

lemma fmt_long:
  "n \<le> length s \<Longrightarrow> fmt_left n s = take n s"
  "n \<le> length s \<Longrightarrow> fmt_right n s = take n s"
  by (simp_all add: fmt_left_def fmt_right_def)

lemma list_row_Inr:
  "map_of os_settings ''webroot'' = Some webroot \<Longrightarrow>
   list_row w os_settings d = Inr (row_of (hostname w) webroot d)"
  by (simp add: list_row_def row_of_def getitem_def rbind_def rmap_def)

lemma list_rows_prints:
  assumes "map_of os_settings ''webroot'' = Some webroot" and "set keys \<subseteq> fst ` set mp"
  shows "list_rows w os_settings mp keys =
    (Inr (), w\<lparr>stdout := stdout w @ map (\<lambda>k. row_of (hostname w) webroot (the (map_of mp k))) keys\<rparr>)"
  using assms(2)
proof (induction keys arbitrary: w)
  case Nil
  then show ?case by simp
next
  case (Cons k keys)
  from Cons.prems obtain d where d: "map_of mp k = Some d"
    by (cases "map_of mp k") (auto simp: map_of_eq_None_iff)
  with Cons assms(1) show ?case
    by (simp add: getitem_def rbind_def list_row_Inr print_line_def)
qed

lemma list_rows_only_printed: "list_rows w os_settings mp keys = (r, w') \<Longrightarrow> only_printed w w'"
proof (induction keys arbitrary: w)
  case Nil
  then show ?case by auto
next
  case (Cons k keys)
  then show ?case
    by (auto split: sum.splits intro: only_printed_trans [OF only_printed_print_line])
qed

lemma list_mailpiles_only_printed:
  assumes "list_mailpiles w args = (r, w')"
  shows "only_printed w w'"
proof -
  have "only_printed (snd (parse_htaccess w [])) w'"
    using assms
    by (auto simp: list_mailpiles_def Let_def split: sum.splits dest!: list_rows_only_printed
        intro: only_printed_trans [OF only_printed_print_line])
  then show ?thesis
    by (rule only_printed_trans [OF parse_htaccess_only_printed(1)])
qed

section \<open>What the table shows\<close>

text \<open>
  C18: When discovery succeeds, \<^verbatim>\<open>list_mailpiles\<close> prints the heading and
  then one line for every entry of the registry, in the ascending order of
  the keys \<^verbatim>\<open>host:port\<close> as byte strings, and returns; it changes nothing
  but standard output.
\<close>

theorem list_mailpiles_table:
  assumes "discover_mailpiles (snd (parse_htaccess w [])) (fst (parse_htaccess w [])) = Inr mp"
  shows "list_mailpiles w args =
    (Inr (), (snd (parse_htaccess w []))
       \<lparr>stdout := stdout (snd (parse_htaccess w [])) @
          list_heading #
          map (\<lambda>k. row_of (hostname w) (a_webroot args) (the (map_of mp k))) (sort (map fst mp))\<rparr>)"
proof -
  let ?w0 = "snd (parse_htaccess w [])"
  have "hostname ?w0 = hostname w"
    by (simp add: only_printedD)
  with assms show ?thesis
    by (simp add: list_mailpiles_def Let_def list_heading_def
        list_rows_prints [where webroot = "a_webroot args"] print_line_def)
qed

text \<open>
  C40: \<^verbatim>\<open>--list\<close> discovers whether or not \<^verbatim>\<open>--discover\<close> is given: when
  \<^verbatim>\<open>ps\<close> or \<^verbatim>\<open>netstat\<close> cannot be started, \<^verbatim>\<open>list_mailpiles\<close> raises
  \<^verbatim>\<open>OSError\<close> for every namespace and prints no table, not even the
  entries of the routing file.
\<close>

theorem list_always_discovers:
  assumes "ps_output w = None \<or> netstat_output w = None"
  shows "list_mailpiles w args =
    (Inl (OSError (if ps_output w = None then ''ps'' else ''netstat'')), snd (parse_htaccess w []))"
proof -
  let ?w0 = "snd (parse_htaccess w [])"
  have "ps_output ?w0 = ps_output w" and "netstat_output ?w0 = netstat_output w"
    by (simp_all add: only_printedD)
  with assms have "discover_mailpiles ?w0 mp =
      Inl (OSError (if ps_output w = None then ''ps'' else ''netstat''))" for mp
    using discover_needs_tools [of ?w0 mp] by simp
  then show ?thesis
    by (simp add: list_mailpiles_def Let_def)
qed

text \<open>
  The columns of the table are fixed: the address begins at column 36
  of every line and is printed in full, and the column of the user is the
  name cut or filled to eight characters, so two users whose names agree in
  their first eight characters look the same there.
\<close>

theorem list_fmt_columns:
  "length (list_fmt user pid rss access port url) = 36 + length url \<and>
   drop 36 (list_fmt user pid rss access port url) = url \<and>
   take 8 (list_fmt user pid rss access port url) = fmt_left 8 user"
  by (simp add: list_fmt_def)

section \<open>Closed instances\<close>

text \<open>
  The example of the specification: the routing file knows alice at
  \<^verbatim>\<open>h:1\<close>, process 100 listens on \<^verbatim>\<open>h:1\<close> and bob's process 200 on
  \<^verbatim>\<open>h:2\<close>.
\<close>

definition spec_example :: world where
  "spec_example = two_processes
     \<lparr>files := [APACHE_HTACCESS_PATH \<mapsto> rule_line ''alice'' ''h'' ''1'' @ ''\<newline>'']\<rparr>"

lemma parse_htaccess_spec_example: "parse_htaccess spec_example [] = (alice_registered, spec_example)"
proof -
  have "file_lines (rule_line ''alice'' ''h'' ''1'' @ ''\<newline>'') = [rule_line ''alice'' ''h'' ''1'' @ ''\<newline>'']"
    using file_lines_line [of "rule_line ''alice'' ''h'' ''1''" "[]"]
    by (simp add: rule_line_no_newline)
  then show ?thesis
    by (simp add: parse_htaccess_def read_file_def spec_example_def parse_line_rule_line
        clean_examples hostport_of_def alice_registered_def registered_def)
qed

lemma discover_spec_example: "discover_mailpiles spec_example alice_registered = Inr alice_and_bob"
proof -
  have "discover_mailpiles spec_example mp = discover_mailpiles two_processes mp" for mp
    by (simp add: discover_mailpiles_def parse_ps_def parse_netstat_def spec_example_def)
  then show ?thesis
    by (simp add: discover_two_processes)
qed

lemma spec_example_lines:
  "list_heading = ''USER        PID    RSS ACCESS  PORT URL''"
  "row_of ''mailhost'' ''/mailpile/'' (snd (alice_and_bob ! 0)) =
     ''alice       100   2000 apache     1 http://mailhost/mailpile/alice/''"
  "row_of ''mailhost'' ''/mailpile/'' (snd (alice_and_bob ! Suc 0)) =
     ''bob         200   3000 direct     2 http://h:2/''"
  by code_simp+

theorem list_mailpiles_table_witness:
  "list_mailpiles spec_example default_args =
     (Inr (), spec_example\<lparr>stdout :=
        [''USER        PID    RSS ACCESS  PORT URL'',
         ''alice       100   2000 apache     1 http://mailhost/mailpile/alice/'',
         ''bob         200   3000 direct     2 http://h:2/'']\<rparr>)"
proof -
  have keys: "sort (map fst alice_and_bob) = [''h:1'', ''h:2'']"
    by (simp add: alice_and_bob_def less_eq_char_def)
  have rows: "the (map_of alice_and_bob ''h:1'') = snd (alice_and_bob ! 0)"
    "the (map_of alice_and_bob ''h:2'') = snd (alice_and_bob ! Suc 0)"
    by (simp_all add: alice_and_bob_def)
  have world: "hostname spec_example = ''mailhost''" "stdout spec_example = []"
    "a_webroot default_args = ''/mailpile/''"
    by (simp_all add: spec_example_def two_processes_def quiet_world_def default_args_def
        APACHE_DEFAULT_WEBROOT_def)
  from list_mailpiles_table [of spec_example alice_and_bob default_args]
  show ?thesis
    by (simp add: parse_htaccess_spec_example discover_spec_example keys rows world
        spec_example_lines)
qed

theorem list_always_discovers_witness:
  "list_mailpiles (quiet_world\<lparr>ps_output := None\<rparr>) default_args =
     (Inl (OSError ''ps''), snd (parse_htaccess (quiet_world\<lparr>ps_output := None\<rparr>) []))"
  using list_always_discovers [of "quiet_world\<lparr>ps_output := None\<rparr>" default_args] by simp

end
