(* ===== verification/Argparse.thy ===== *)
theory Argparse
  imports Regex World
begin

text \<open>
  \<^verbatim>\<open>ArgumentParser.parse_args\<close> of the \<^verbatim>\<open>argparse\<close> module of Python 2.7, for
  parsers like the script's: options only (no positional argument, no
  subparser), each either \<^verbatim>\<open>store_true\<close>, a \<^verbatim>\<open>store\<close> of one string,
  or the \<^verbatim>\<open>help\<close> action, the prefix character \<^verbatim>\<open>-\<close>, and at most one
  required mutually exclusive group. The parser is a parameter: the table
  of its option strings, the group, and the namespace of the defaults, over
  any type of namespace. Nothing here is code of the script; the script's
  parser is \<open>app_arguments\<close> of theory \<open>CommandLine\<close>.

  The module works in two passes, and so does the model. \<open>classify\<close> is
  the first: every word is an argument (\<^verbatim>\<open>A\<close>), an option (\<^verbatim>\<open>O\<close>) or the
  separator \<^verbatim>\<open>--\<close>, by \<^verbatim>\<open>_parse_optional\<close> and \<^verbatim>\<open>_get_option_tuples\<close>,
  with the abbreviation of a long option by a prefix that only one option
  string has, and \<^verbatim>\<open>--opt=value\<close>. \<open>consume\<close> is the second: the words
  are read from the left, an option takes its value from \<^verbatim>\<open>=\<close> or from
  the next word when that is an argument, what no option takes is kept as
  \<^verbatim>\<open>extras\<close>, and \<^verbatim>\<open>parse_args\<close> refuses a command line with extras.

  Every error of the module is \<^verbatim>\<open>self.error\<close>, which writes to stderr (not
  modelled) and leaves with \<^verbatim>\<open>SystemExit(2)\<close>; the help action prints the
  help on stdout and leaves with \<^verbatim>\<open>SystemExit(0)\<close>. An action is
  identified by its option string, which is exact when no action of the
  group has two option strings.
\<close>

section \<open>Parsers\<close>

text \<open>
  The value an option stores: the string, or the empty list that
  \<^verbatim>\<open>_get_values\<close> makes of the one string \<^verbatim>\<open>--\<close> (it drops every
  \<^verbatim>\<open>--\<close> from the strings of the value and finds none left).
\<close>

datatype argval = Str string | EmptyList

datatype 'ns action =
    StoreTrue "'ns \<Rightarrow> 'ns"
  | Store "argval \<Rightarrow> 'ns \<Rightarrow> 'ns"
  | Help

record 'ns parser =
  p_options :: "(string \<times> 'ns action) list"
  p_exclusive :: "string list"
  p_defaults :: 'ns

text \<open>\<^verbatim>\<open>action.nargs\<close>: \<open>None\<close> (one string) for a store, 0 otherwise.\<close>

fun takes_value :: "'ns action \<Rightarrow> bool" where
  "takes_value (Store f) = True"
| "takes_value (StoreTrue f) = False"
| "takes_value Help = False"

definition get_values :: "string \<Rightarrow> argval" where
  "get_values s = (if s = ''--'' then EmptyList else Str s)"

section \<open>The first pass\<close>

datatype 'ns token =
    Arg
  | DashDash
  | Unknown
  | Opt string "'ns action" "string option"

text \<open>\<^verbatim>\<open>'^-\d+$|^-\d*\.\d+$'\<close>, the words that look like a negative number.\<close>

definition negative_number_re :: regex where
  "negative_number_re =
     Alt (seqs [Bol, Lit ''-'', Plus is_digit, Eol])
         (seqs [Bol, Lit ''-'', Star is_digit, Lit ''.'', Plus is_digit, Eol])"

definition has_negative_number_optionals :: "'ns parser \<Rightarrow> bool" where
  "has_negative_number_optionals ap \<longleftrightarrow>
     list_ex (\<lambda>(name, a). re_match negative_number_re name \<noteq> None) (p_options ap)"

text \<open>\<^verbatim>\<open>s.split('=', 1)\<close> of a string with a \<^verbatim>\<open>=\<close> in it.\<close>

definition before_eq :: "string \<Rightarrow> string" where
  "before_eq s = takeWhile (\<lambda>c. c \<noteq> CHR ''='') s"

definition after_eq :: "string \<Rightarrow> string" where
  "after_eq s = tl (dropWhile (\<lambda>c. c \<noteq> CHR ''='') s)"

text \<open>
  \<^verbatim>\<open>_get_option_tuples\<close>, for a word of at least two characters that
  starts with \<^verbatim>\<open>-\<close>: the options a long word abbreviates, and for a short
  one the option of its first two characters with the rest as its value.
\<close>

definition get_option_tuples :: "'ns parser \<Rightarrow> string \<Rightarrow> 'ns token list" where
  "get_option_tuples ap s =
     (if hd (tl s) = CHR ''-'' then
        let option_prefix = (if CHR ''='' \<in> set s then before_eq s else s);
            explicit_arg = (if CHR ''='' \<in> set s then Some (after_eq s) else None)
        in map (\<lambda>(name, a). Opt name a explicit_arg)
             (filter (\<lambda>(name, a). prefix option_prefix name) (p_options ap))
      else
        concat (map (\<lambda>(name, a).
                  if name = take 2 s then [Opt name a (Some (drop 2 s))]
                  else if prefix s name then [Opt name a None]
                  else [])
               (p_options ap)))"

definition parse_optional :: "'ns parser \<Rightarrow> string \<Rightarrow> 'ns token result" where
  "parse_optional ap s =
     (if s = [] then Inr Arg
      else if hd s \<noteq> CHR ''-'' then Inr Arg
      else case map_of (p_options ap) s of
        Some a \<Rightarrow> Inr (Opt s a None)
      | None \<Rightarrow>
          if length s = 1 then Inr Arg
          else case (if CHR ''='' \<in> set s then map_of (p_options ap) (before_eq s) else None) of
            Some a \<Rightarrow> Inr (Opt (before_eq s) a (Some (after_eq s)))
          | None \<Rightarrow>
              (case get_option_tuples ap s of
                 [] \<Rightarrow>
                   if re_match negative_number_re s \<noteq> None \<and> \<not> has_negative_number_optionals ap
                   then Inr Arg
                   else if CHR '' '' \<in> set s then Inr Arg
                   else Inr Unknown
               | [t] \<Rightarrow> Inr t
               | t # t' # ts \<Rightarrow> Inl (SystemExit 2)))"

text \<open>Every word after the first \<^verbatim>\<open>--\<close> is an argument.\<close>

fun classify :: "'ns parser \<Rightarrow> string list \<Rightarrow> 'ns token list result" where
  "classify ap [] = Inr []"
| "classify ap (s # ss) =
     (if s = ''--'' then Inr (DashDash # map (\<lambda>_. Arg) ss)
      else rbind (parse_optional ap s) (\<lambda>t. rmap ((#) t) (classify ap ss)))"

section \<open>The second pass\<close>

text \<open>
  \<^verbatim>\<open>take_action\<close>: an action of the group refuses to follow another action
  of the group; the help action leaves.
\<close>

type_synonym 'ns parse_state = "string list \<times> 'ns"

definition conflicts :: "'ns parser \<Rightarrow> string \<Rightarrow> string list \<Rightarrow> bool" where
  "conflicts ap name seen \<longleftrightarrow>
     name \<in> set (p_exclusive ap) \<and> list_ex (\<lambda>c. c \<noteq> name \<and> c \<in> set seen) (p_exclusive ap)"

definition take_action ::
  "'ns parser \<Rightarrow> string \<times> 'ns action \<times> argval option \<Rightarrow> 'ns parse_state \<Rightarrow> 'ns parse_state result" where
  "take_action ap t st =
     (case t of (name, a, v) \<Rightarrow> case st of (seen, ns) \<Rightarrow>
        if conflicts ap name seen then Inl (SystemExit 2)
        else case a of
          Help \<Rightarrow> Inl (SystemExit 0)
        | StoreTrue f \<Rightarrow> Inr (name # seen, f ns)
        | Store f \<Rightarrow> Inr (name # seen, f (case v of None \<Rightarrow> EmptyList | Some x \<Rightarrow> x) ns))"

text \<open>
  The loop of \<^verbatim>\<open>consume_optional\<close> for an option with an explicit
  argument. A store takes it. An option without value refuses it when it is
  a long option; a short one reads the argument as further short options,
  \<^verbatim>\<open>-xyz\<close> for \<^verbatim>\<open>-x -y -z\<close>, and \<^verbatim>\<open>explicit_arg[0]\<close> raises on the
  empty argument of \<^verbatim>\<open>-x=\<close>. The result is the actions read and the last
  option, which still looks for its value when \<open>None\<close> is left.
\<close>

fun split_cluster ::
  "'ns parser \<Rightarrow> string \<Rightarrow> 'ns action \<Rightarrow> string \<Rightarrow>
   ((string \<times> 'ns action \<times> argval option) list \<times> string \<times> 'ns action \<times> string option) result" where
  "split_cluster ap name a [] =
     (if takes_value a then Inr ([], name, a, Some [])
      else if hd (tl name) = CHR ''-'' then Inl (SystemExit 2)
      else Inl IndexError)"
| "split_cluster ap name a (c # cs) =
     (if takes_value a then Inr ([], name, a, Some (c # cs))
      else if hd (tl name) = CHR ''-'' then Inl (SystemExit 2)
      else case map_of (p_options ap) [hd name, c] of
        None \<Rightarrow> Inl (SystemExit 2)
      | Some a' \<Rightarrow>
          if cs = [] then Inr ([(name, a, None)], [hd name, c], a', None)
          else rmap (\<lambda>(ts, l). ((name, a, None) # ts, l)) (split_cluster ap [hd name, c] a' cs))"

text \<open>
  The value of the last option and the number of words taken for it: the
  explicit argument, or the next word, which has to be an argument.
\<close>

definition option_value ::
  "'ns action \<Rightarrow> string option \<Rightarrow> ('ns token \<times> string) list \<Rightarrow> (argval option \<times> nat) result" where
  "option_value a explicit rest =
     (case explicit of
        Some e \<Rightarrow> Inr (Some (get_values e), 0)
      | None \<Rightarrow>
          if takes_value a then
            (case rest of
               (Arg, s) # rest' \<Rightarrow> Inr (Some (get_values s), 1)
             | _ \<Rightarrow> Inl (SystemExit 2))
          else Inr (None, 0))"

definition consume_optional ::
  "'ns parser \<Rightarrow> string \<Rightarrow> 'ns action \<Rightarrow> string option \<Rightarrow> ('ns token \<times> string) list \<Rightarrow>
   'ns parse_state \<Rightarrow> ('ns parse_state \<times> nat) result" where
  "consume_optional ap name a explicit rest st =
     rbind (case explicit of
              None \<Rightarrow> Inr ([], name, a, None)
            | Some e \<Rightarrow> split_cluster ap name a e) (\<lambda>(ts, name', a', explicit').
     rbind (option_value a' explicit' rest) (\<lambda>(v, n).
     rmap (\<lambda>st'. (st', n)) (rfold (take_action ap) (ts @ [(name', a', v)]) st)))"

text \<open>
  The loop of \<^verbatim>\<open>parse_known_args\<close>: the words in order, each an option
  with what it takes or an extra. At the end the group asks for one of its
  options.
\<close>

fun consume ::
  "'ns parser \<Rightarrow> ('ns token \<times> string) list \<Rightarrow> 'ns parse_state \<Rightarrow> string list \<Rightarrow>
   ('ns \<times> string list) result" where
  "consume ap [] st extras =
     (if p_exclusive ap \<noteq> [] \<and> \<not> list_ex (\<lambda>c. c \<in> set (fst st)) (p_exclusive ap)
      then Inl (SystemExit 2)
      else Inr (snd st, extras))"
| "consume ap ((Opt name a explicit, s) # rest) st extras =
     (case consume_optional ap name a explicit rest st of
        Inl e \<Rightarrow> Inl e
      | Inr (st', n) \<Rightarrow> consume ap (drop n rest) st' extras)"
| "consume ap ((t, s) # rest) st extras = consume ap rest st (extras @ [s])"

definition parse_known_args :: "'ns parser \<Rightarrow> string list \<Rightarrow> ('ns \<times> string list) result" where
  "parse_known_args ap ws =
     rbind (classify ap ws) (\<lambda>ts. consume ap (zip ts ws) ([], p_defaults ap) [])"

definition parse_words :: "'ns parser \<Rightarrow> string list \<Rightarrow> 'ns result" where
  "parse_words ap ws =
     rbind (parse_known_args ap ws) (\<lambda>(ns, extras).
       if extras \<noteq> [] then Inl (SystemExit 2) else Inr ns)"

text \<open>
  \<^verbatim>\<open>parse_args\<close> in the world: leaving with status 0 is the help action,
  which has printed the help.
\<close>

definition print_help :: "world \<Rightarrow> world" where
  "print_help w = print_line w (help_text w)"

definition parse_args :: "world \<Rightarrow> 'ns parser \<Rightarrow> string list \<Rightarrow> 'ns io" where
  "parse_args w ap ws =
     (case parse_words ap ws of
        Inl (SystemExit 0) \<Rightarrow> (Inl (SystemExit 0), print_help w)
      | r \<Rightarrow> (r, w))"

section \<open>Well-formed words\<close>

text \<open>
  An option found by the first pass is an option of the table, and so is
  every option the second pass reads out of a cluster.
\<close>

definition wf_token :: "'ns parser \<Rightarrow> 'ns token \<Rightarrow> bool" where
  "wf_token ap t \<longleftrightarrow> (case t of Opt name a e \<Rightarrow> (name, a) \<in> set (p_options ap) | _ \<Rightarrow> True)"

definition in_table :: "'ns parser \<Rightarrow> string \<times> 'ns action \<times> argval option \<Rightarrow> bool" where
  "in_table ap t \<longleftrightarrow> (fst t, fst (snd t)) \<in> set (p_options ap)"

section \<open>Facts about the first pass\<close>

lemma wf_token_simps [simp]:
  "wf_token ap Arg" "wf_token ap DashDash" "wf_token ap Unknown"
  "wf_token ap (Opt name a e) \<longleftrightarrow> (name, a) \<in> set (p_options ap)"
  by (simp_all add: wf_token_def)

lemma in_table_simp [simp]: "in_table ap (name, a, v) \<longleftrightarrow> (name, a) \<in> set (p_options ap)"
  by (simp add: in_table_def)

lemma get_option_tuples_wf: "t \<in> set (get_option_tuples ap s) \<Longrightarrow> wf_token ap t"
  by (auto simp: get_option_tuples_def Let_def split: if_splits)

lemma get_option_tuples_Opt: "t \<in> set (get_option_tuples ap s) \<Longrightarrow> \<exists>name a e. t = Opt name a e"
  by (auto simp: get_option_tuples_def Let_def split: if_splits)

lemma parse_optional_cases:
  assumes "parse_optional ap s = Inr t"
  shows "t = Arg \<or> t = Unknown \<or> (\<exists>a. map_of (p_options ap) s = Some a \<and> t = Opt s a None) \<or>
    (\<exists>a. map_of (p_options ap) (before_eq s) = Some a \<and> t = Opt (before_eq s) a (Some (after_eq s))) \<or>
    get_option_tuples ap s = [t]"
  using assms by (auto simp: parse_optional_def split: if_splits option.splits list.splits)

lemma parse_optional_wf: "parse_optional ap s = Inr t \<Longrightarrow> wf_token ap t"
  using get_option_tuples_wf [of t ap s]
  by (auto dest!: parse_optional_cases dest: map_of_SomeD)

text \<open>The first pass fails in one way only, on an ambiguous abbreviation.\<close>

lemma parse_optional_Inl: "parse_optional ap s = Inl e \<Longrightarrow> e = SystemExit 2"
  by (auto simp: parse_optional_def split: if_splits option.splits list.splits)

lemma classify_wf: "classify ap ws = Inr ts \<Longrightarrow> list_all (wf_token ap) ts \<and> length ts = length ws"
proof (induction ws arbitrary: ts)
  case Nil
  then show ?case by simp
next
  case (Cons s ss)
  then show ?case
    by (auto simp: rbind_def rmap_def list_all_iff split: if_splits sum.splits dest: parse_optional_wf)
qed

section \<open>Facts about the second pass\<close>

lemma take_action_InrD:
  assumes "take_action ap (name, a, v) (seen, ns) = Inr (seen', ns')"
  shows "\<not> conflicts ap name seen" and "seen' = name # seen"
    and "(\<exists>f. a = StoreTrue f \<and> ns' = f ns) \<or>
         (\<exists>f. a = Store f \<and> ns' = f (case v of None \<Rightarrow> EmptyList | Some x \<Rightarrow> x) ns)"
  using assms by (auto simp: take_action_def split: if_splits action.splits)

lemma split_cluster_wf:
  assumes "split_cluster ap name a e = Inr (ts, name', a', e')" and "(name, a) \<in> set (p_options ap)"
  shows "list_all (in_table ap) ts \<and> (name', a') \<in> set (p_options ap)"
  using assms
proof (induction e arbitrary: name a ts)
  case Nil
  then show ?case by (auto split: if_splits)
next
  case (Cons c cs)
  show ?case
  proof (cases "takes_value a \<or> hd (tl name) = CHR ''-'' \<or> cs = []")
    case True
    with Cons.prems show ?thesis
      by (auto split: if_splits option.splits dest!: map_of_SomeD)
  next
    case False
    with Cons.prems obtain b ts' where b: "map_of (p_options ap) [hd name, c] = Some b"
      and sc: "split_cluster ap [hd name, c] b cs = Inr (ts', name', a', e')"
      and ts: "ts = (name, a, None) # ts'"
      by (auto simp: rmap_def split: option.splits sum.splits)
    from Cons.IH [OF sc map_of_SomeD [OF b]] ts Cons.prems(2) show ?thesis
      by simp
  qed
qed

text \<open>
  What every action of the table keeps, the second pass keeps; and when it
  is through, an option of the group has been seen. The client of a parser
  proves the first for its table and gets the second for its namespace.
\<close>

lemma consume_optional_invariant:
  assumes "consume_optional ap name a e rest st = Inr (st', n)" and "(name, a) \<in> set (p_options ap)"
    and "J st"
    and step: "\<And>t st st'. in_table ap t \<Longrightarrow> J st \<Longrightarrow> take_action ap t st = Inr st' \<Longrightarrow> J st'"
  shows "J st'"
proof -
  from assms(1) obtain ts name' a' e' v
    where sc: "(case e of None \<Rightarrow> Inr ([], name, a, None) | Some x \<Rightarrow> split_cluster ap name a x)
                 = Inr (ts, name', a', e')"
      and rf: "rfold (take_action ap) (ts @ [(name', a', v)]) st = Inr st'"
    by (auto simp: consume_optional_def rbind_def rmap_def split: sum.splits)
  from sc assms(2) have "list_all (in_table ap) (ts @ [(name', a', v)])"
    by (cases e) (auto dest: split_cluster_wf)
  then have "\<And>t. t \<in> set (ts @ [(name', a', v)]) \<Longrightarrow> in_table ap t"
    unfolding list_all_iff by blast
  then show ?thesis
    by (rule rfold_invariant [where P = J, OF rf assms(3) step])
qed

lemma consume_invariant:
  assumes "consume ap ts st extras = Inr (ns', extras')" and "list_all (wf_token ap \<circ> fst) ts"
    and "J st"
    and step: "\<And>t st st'. in_table ap t \<Longrightarrow> J st \<Longrightarrow> take_action ap t st = Inr st' \<Longrightarrow> J st'"
  shows "\<exists>seen'. J (seen', ns') \<and>
           (p_exclusive ap = [] \<or> (\<exists>c \<in> set (p_exclusive ap). c \<in> set seen'))"
  using assms
proof (induction ap ts st extras rule: consume.induct)
  case (1 ap st extras)
  then show ?case
    by (cases st) (auto simp: list_ex_iff split: if_splits)
next
  case (2 ap name a explicit s rest st extras)
  from "2.prems"(1) obtain st' n
    where co: "consume_optional ap name a explicit rest st = Inr (st', n)"
      and c: "consume ap (drop n rest) st' extras = Inr (ns', extras')"
    by (auto split: sum.splits)
  from "2.prems"(2) have "(name, a) \<in> set (p_options ap)"
    by simp
  then have J: "J st'"
    by (rule consume_optional_invariant [where J = J, OF co _ "2.prems"(3,4)])
  from "2.prems"(2) have wf: "list_all (wf_token ap \<circ> fst) (drop n rest)"
    by (auto simp: list_all_iff dest: in_set_dropD)
  show ?case
    by (rule "2.IH" [OF co refl c wf J]) (rule "2.prems"(4))
qed simp_all

text \<open>The namespace of a command line with its words classified.\<close>

lemma parse_words_InrD:
  assumes "parse_words ap ws = Inr ns"
  obtains ts where "classify ap ws = Inr ts" and "list_all (wf_token ap \<circ> fst) (zip ts ws)"
    and "consume ap (zip ts ws) ([], p_defaults ap) [] = Inr (ns, [])"
proof -
  from assms obtain ts
    where cl: "classify ap ws = Inr ts"
      and co: "consume ap (zip ts ws) ([], p_defaults ap) [] = Inr (ns, [])"
    by (auto simp: parse_words_def parse_known_args_def rbind_def split: sum.splits if_splits)
  from classify_wf [OF cl] have "list_all (wf_token ap \<circ> fst) (zip ts ws)"
    by (auto simp: list_all_iff dest: set_zip_leftD)
  with cl show ?thesis
    using co by (rule that)
qed

section \<open>Facts about the world\<close>

text \<open>Parsing prints the help or nothing.\<close>

lemma parse_args_frame:
  assumes "parse_args w ap ws = (r, w')"
  shows "only_printed w w'" and "r \<noteq> Inl (SystemExit 0) \<Longrightarrow> w' = w"
    and "r = Inl (SystemExit 0) \<Longrightarrow> w' = print_help w"
  using assms
  by (auto simp: parse_args_def print_help_def split: sum.splits py_error.splits nat.splits)

lemma parse_args_Inr_iff:
  "parse_args w ap ws = (Inr ns, w') \<longleftrightarrow> parse_words ap ws = Inr ns \<and> w' = w"
  by (auto simp: parse_args_def split: sum.splits py_error.splits nat.splits)

end
