(* ===== verification/CommandLine.thy ===== *)
theory CommandLine
  imports Argparse Settings
begin

text \<open>
  The parser \<^verbatim>\<open>app_arguments\<close> builds (lines 103 to 141), as a parser of
  theory \<open>Argparse\<close> over the namespace \<open>args\<close>: the four actions, which
  form the required group, and the options. \<^verbatim>\<open>ArgumentParser\<close> adds
  \<^verbatim>\<open>-h\<close> and \<^verbatim>\<open>--help\<close> itself.
\<close>

section \<open>Values\<close>

text \<open>
  The value of \<^verbatim>\<open>--opt=--\<close> is an empty list. The script reads most
  options only for their truth (\<^verbatim>\<open>args.user or ...\<close>, \<^verbatim>\<open>if not port\<close>),
  where an empty list is an empty string; the web root is only ever
  formatted, with \<^verbatim>\<open>%s\<close> and with \<^verbatim>\<open>unicode\<close>, which make \<^verbatim>\<open>[]\<close> of it.
\<close>

definition val_or :: "argval \<Rightarrow> string option" where
  "val_or v = (case v of Str s \<Rightarrow> Some s | EmptyList \<Rightarrow> Some [])"

definition val_str :: "argval \<Rightarrow> string" where
  "val_str v = (case v of Str s \<Rightarrow> s | EmptyList \<Rightarrow> ''[]'')"

section \<open>The parser\<close>

definition app_arguments :: "args parser" where
  "app_arguments =
     \<lparr>p_options =
        [(''-h'', Help), (''--help'', Help),
         (''--list'', StoreTrue (\<lambda>ns. ns\<lparr>a_list := True\<rparr>)),
         (''--start'', StoreTrue (\<lambda>ns. ns\<lparr>a_start := True\<rparr>)),
         (''--stop'', StoreTrue (\<lambda>ns. ns\<lparr>a_stop := True\<rparr>)),
         (''--install-apache'', StoreTrue (\<lambda>ns. ns\<lparr>a_install_apache := True\<rparr>)),
         (''--force'', StoreTrue (\<lambda>ns. ns\<lparr>a_force := True\<rparr>)),
         (''--password'', Store (\<lambda>v ns. ns\<lparr>a_password := val_or v\<rparr>)),
         (''--user'', Store (\<lambda>v ns. ns\<lparr>a_user := val_or v\<rparr>)),
         (''--port'', Store (\<lambda>v ns. ns\<lparr>a_port := val_or v\<rparr>)),
         (''--host'', Store (\<lambda>v ns. ns\<lparr>a_host := val_str v\<rparr>)),
         (''--discover'', StoreTrue (\<lambda>ns. ns\<lparr>a_discover := True\<rparr>)),
         (''--webroot'', Store (\<lambda>v ns. ns\<lparr>a_webroot := val_str v\<rparr>)),
         (''--mailpile-root'', Store (\<lambda>v ns. ns\<lparr>a_mailpile_root := val_or v\<rparr>)),
         (''--packager'', Store (\<lambda>v ns. ns\<lparr>a_packager := val_or v\<rparr>)),
         (''--apache-user'', Store (\<lambda>v ns. ns\<lparr>a_apache_user := val_or v\<rparr>)),
         (''--apache-group'', Store (\<lambda>v ns. ns\<lparr>a_apache_group := val_or v\<rparr>))],
      p_exclusive = [''--list'', ''--start'', ''--stop'', ''--install-apache''],
      p_defaults = default_args\<rparr>"

section \<open>The action\<close>

text \<open>How many of the four actions a namespace names.\<close>

definition action_count :: "args \<Rightarrow> nat" where
  "action_count ns = length (filter id [a_list ns, a_start ns, a_stop ns, a_install_apache ns])"

text \<open>
  The invariant of the second pass: the flag of an action is set when its
  option has been seen, and at most one is.
\<close>

definition flags_seen :: "args parse_state \<Rightarrow> bool" where
  "flags_seen st \<longleftrightarrow>
     (a_list (snd st) \<longleftrightarrow> ''--list'' \<in> set (fst st)) \<and>
     (a_start (snd st) \<longleftrightarrow> ''--start'' \<in> set (fst st)) \<and>
     (a_stop (snd st) \<longleftrightarrow> ''--stop'' \<in> set (fst st)) \<and>
     (a_install_apache (snd st) \<longleftrightarrow> ''--install-apache'' \<in> set (fst st)) \<and>
     action_count (snd st) \<le> 1"

text \<open>An option sets the flag of its own name and no other.\<close>

definition same_flags :: "string \<Rightarrow> args \<Rightarrow> args \<Rightarrow> bool" where
  "same_flags name ns ns' \<longleftrightarrow>
     (a_list ns' \<longleftrightarrow> a_list ns \<or> name = ''--list'') \<and>
     (a_start ns' \<longleftrightarrow> a_start ns \<or> name = ''--start'') \<and>
     (a_stop ns' \<longleftrightarrow> a_stop ns \<or> name = ''--stop'') \<and>
     (a_install_apache ns' \<longleftrightarrow> a_install_apache ns \<or> name = ''--install-apache'')"

section \<open>The words of the form\<close>

text \<open>
  A word the first pass takes for an argument, and the three options
  \<^verbatim>\<open>handle_cgi_post\<close> writes out.
\<close>

definition is_argument :: "string \<Rightarrow> bool" where
  "is_argument s \<longleftrightarrow> parse_optional app_arguments s = Inr Arg"

definition opt_start :: "args token" where
  "opt_start = Opt ''--start'' (StoreTrue (\<lambda>ns. ns\<lparr>a_start := True\<rparr>)) None"

definition opt_user :: "args token" where
  "opt_user = Opt ''--user'' (Store (\<lambda>v ns. ns\<lparr>a_user := val_or v\<rparr>)) None"

definition opt_password :: "args token" where
  "opt_password = Opt ''--password'' (Store (\<lambda>v ns. ns\<lparr>a_password := val_or v\<rparr>)) None"

section \<open>Exactly one action\<close>

lemma p_app_arguments [simp]:
  "p_exclusive app_arguments = [''--list'', ''--start'', ''--stop'', ''--install-apache'']"
  "p_defaults app_arguments = default_args"
  by (simp_all add: app_arguments_def)

lemma app_options_flags_all:
  "list_all (\<lambda>(name, a). case a of
       StoreTrue f \<Rightarrow> same_flags name ns (f ns)
     | Store g \<Rightarrow> \<forall>v. same_flags name ns (g v ns)
     | Help \<Rightarrow> True) (p_options app_arguments)"
  by (simp add: app_arguments_def same_flags_def)

lemma app_options_flags:
  assumes "(name, a) \<in> set (p_options app_arguments)"
  shows "a = StoreTrue f \<Longrightarrow> same_flags name ns (f ns)"
    and "a = Store g \<Longrightarrow> same_flags name ns (g v ns)"
  using assms app_options_flags_all [of ns] unfolding list_all_iff by fastforce+

lemma flags_seen_init: "flags_seen ([], default_args)"
  by (simp add: flags_seen_def default_args_def action_count_def)

lemma flags_seen_step:
  assumes "in_table app_arguments t" and "flags_seen st" and "take_action app_arguments t st = Inr st'"
  shows "flags_seen st'"
proof -
  obtain name a v seen ns seen' ns'
    where t: "t = (name, a, v)" and st: "st = (seen, ns)" and st': "st' = (seen', ns')"
    by (cases t; cases st; cases st') auto
  from assms(1) have "(name, a) \<in> set (p_options app_arguments)"
    by (simp add: t)
  note fl = app_options_flags [OF this]
  from take_action_InrD [OF assms(3) [unfolded t st st']] fl
  have "\<not> conflicts app_arguments name seen" and "seen' = name # seen" and "same_flags name ns ns'"
    by auto
  with assms(2) show ?thesis
    unfolding flags_seen_def st st' fst_conv snd_conv same_flags_def conflicts_def action_count_def
    by (cases "name = ''--list''"; cases "name = ''--start''"; cases "name = ''--stop''";
        cases "name = ''--install-apache''") simp_all
qed

lemma flags_seen_count:
  assumes "flags_seen (seen, ns)" and "\<exists>c \<in> set (p_exclusive app_arguments). c \<in> set seen"
  shows "action_count ns = 1"
  using assms unfolding flags_seen_def action_count_def
  by (cases "a_list ns"; cases "a_start ns"; cases "a_stop ns"; cases "a_install_apache ns") simp_all

lemma parse_words_flags:
  assumes "parse_words app_arguments ws = Inr ns"
  shows "\<exists>seen. flags_seen (seen, ns) \<and> (\<exists>c \<in> set (p_exclusive app_arguments). c \<in> set seen)"
proof -
  from assms obtain ts
    where wf: "list_all (wf_token app_arguments \<circ> fst) (zip ts ws)"
      and co: "consume app_arguments (zip ts ws) ([], default_args) [] = Inr (ns, [])"
    by (auto elim: parse_words_InrD)
  have "\<exists>seen'. flags_seen (seen', ns) \<and>
      (p_exclusive app_arguments = [] \<or> (\<exists>c \<in> set (p_exclusive app_arguments). c \<in> set seen'))"
    by (rule consume_invariant [where J = flags_seen, OF co wf flags_seen_init])
      (rule flags_seen_step)
  then show ?thesis
    by simp
qed

lemma parse_words_action_count: "parse_words app_arguments ws = Inr ns \<Longrightarrow> action_count ns = 1"
  by (blast dest: parse_words_flags flags_seen_count)

text \<open>
  C12: A command line that \<^verbatim>\<open>parse_args\<close> accepts names exactly one of the
  four actions, however its options are abbreviated, ordered or repeated.
\<close>

theorem parse_args_one_action:
  assumes "parse_args w app_arguments ws = (Inr ns, w')"
  shows "action_count ns = 1"
  using assms by (auto simp: parse_args_Inr_iff dest: parse_words_action_count)

theorem parse_args_one_action_witness:
  "action_count (default_args\<lparr>a_stop := True, a_force := True\<rparr>) = 1"
proof -
  have "parse_words app_arguments [''--sto'', ''--force''] =
      Inr (default_args\<lparr>a_stop := True, a_force := True\<rparr>)"
    by (simp add: parse_words_def parse_known_args_def parse_optional_def get_option_tuples_def
        app_arguments_def consume_optional_def option_value_def take_action_def conflicts_def
        rbind_def rmap_def default_args_def)
  then have "parse_args quiet_world app_arguments [''--sto'', ''--force''] =
      (Inr (default_args\<lparr>a_stop := True, a_force := True\<rparr>), quiet_world)"
    by (simp add: parse_args_def)
  from parse_args_one_action [OF this] show ?thesis .
qed

section \<open>The command line of the form\<close>

lemma parse_optional_exact [simp]:
  "parse_optional app_arguments ''--start'' = Inr opt_start"
  "parse_optional app_arguments ''--user'' = Inr opt_user"
  "parse_optional app_arguments ''--password'' = Inr opt_password"
  by (simp_all add: parse_optional_def app_arguments_def opt_start_def opt_user_def opt_password_def)

lemma not_is_argument_dashes [simp]: "\<not> is_argument ''--''"
  by (simp add: is_argument_def parse_optional_def app_arguments_def get_option_tuples_def)

lemmas consume_defs =
  consume_optional_def option_value_def take_action_def conflicts_def rbind_def rmap_def
  get_values_def val_or_def

lemma consume_cgi:
  assumes "tu = Arg \<longrightarrow> u \<noteq> ''--''" and "tp = Arg \<longrightarrow> p \<noteq> ''--''"
  shows "consume app_arguments
     (zip [opt_start, opt_user, tu, opt_password, tp] [''--start'', ''--user'', u, ''--password'', p])
     ([], default_args) [] =
   (if tu = Arg \<and> tp = Arg
    then Inr (default_args\<lparr>a_start := True, a_user := Some u, a_password := Some p\<rparr>, [])
    else Inl (SystemExit 2))"
  using assms
  by (cases tu; cases tp) (simp_all add: opt_start_def opt_user_def opt_password_def consume_defs)

lemma consume_cgi_dashes:
  "consume app_arguments ((opt_start, s1) # (opt_user, s2) # (DashDash, s3) # rest)
     ([], default_args) [] = Inl (SystemExit 2)"
  by (simp add: opt_start_def opt_user_def consume_defs)

lemma classify_cgi:
  "classify app_arguments [''--start'', ''--user'', u, ''--password'', p] =
     (if u = ''--'' then Inr [opt_start, opt_user, DashDash, Arg, Arg]
      else rbind (parse_optional app_arguments u) (\<lambda>tu.
        if p = ''--'' then Inr [opt_start, opt_user, tu, opt_password, DashDash]
        else rbind (parse_optional app_arguments p) (\<lambda>tp.
          Inr [opt_start, opt_user, tu, opt_password, tp])))"
  by (simp add: rbind_def rmap_def split: sum.splits)

lemma finish_cgi:
  assumes "tu = Arg \<longrightarrow> u \<noteq> ''--''" and "tp = Arg \<longrightarrow> p \<noteq> ''--''"
  shows "(case consume app_arguments
            [(opt_start, ''--start''), (opt_user, ''--user''), (tu, u), (opt_password, ''--password''),
             (tp, p)] ([], default_args) [] of
          Inl e \<Rightarrow> Inl e
        | Inr (ns, extras) \<Rightarrow> if extras \<noteq> [] then Inl (SystemExit 2) else Inr ns) =
     (if tu = Arg \<and> tp = Arg
      then Inr (default_args\<lparr>a_start := True, a_user := Some u, a_password := Some p\<rparr>)
      else Inl (SystemExit 2))"
  using consume_cgi [OF assms] by simp

text \<open>
  The command line \<^verbatim>\<open>handle_cgi_post\<close> makes of a user name and a
  password is a start for that user with that password, or it is refused
  with status 2: it is refused exactly when one of the two values is not an
  argument to the parser.
\<close>

lemma parse_words_cgi:
  "parse_words app_arguments [''--start'', ''--user'', u, ''--password'', p] =
     (if is_argument u \<and> is_argument p
      then Inr (default_args\<lparr>a_start := True, a_user := Some u, a_password := Some p\<rparr>)
      else Inl (SystemExit 2))"
proof -
  consider "u = ''--''" | "u \<noteq> ''--''" "p = ''--''" | "u \<noteq> ''--''" "p \<noteq> ''--''"
    by blast
  then show ?thesis
  proof cases
    case 1
    then show ?thesis
      by (simp add: parse_words_def parse_known_args_def classify_cgi consume_cgi_dashes rbind_def)
  next
    case 2
    then show ?thesis
      unfolding parse_words_def parse_known_args_def classify_cgi
      by (cases "parse_optional app_arguments u")
        (auto simp: finish_cgi rbind_def dest: parse_optional_Inl)
  next
    case 3
    then show ?thesis
      unfolding parse_words_def parse_known_args_def classify_cgi
      by (cases "parse_optional app_arguments u"; cases "parse_optional app_arguments p")
        (auto simp: finish_cgi rbind_def is_argument_def dest: parse_optional_Inl)
  qed
qed


text \<open>
  What is an argument: the empty word, a word that does not begin with a
  dash, the dash alone. A longer word that begins with a dash is none, unless
  it holds a blank or reads as a negative number.
\<close>

lemma is_argument_plain: "s = [] \<or> hd s \<noteq> CHR ''-'' \<Longrightarrow> is_argument s"
  by (auto simp: is_argument_def parse_optional_def)

lemma is_argument_dash [simp]: "is_argument ''-''"
  by (simp add: is_argument_def parse_optional_def app_arguments_def)

lemma not_is_argument_dash:
  assumes "hd s = CHR ''-''" and "2 \<le> length s" and "CHR '' '' \<notin> set s"
    and "re_match negative_number_re s = None"
  shows "\<not> is_argument s"
proof -
  have "t \<noteq> Arg" if "get_option_tuples app_arguments s = [t]" for t
    using get_option_tuples_Opt [of t app_arguments s] that by auto
  with assms show ?thesis
    by (auto simp: is_argument_def parse_optional_def split: option.splits list.splits)
qed

end
