(* ===== verification/Entry.thy ===== *)
theory Entry
  imports Listing CommandLine
begin

text \<open>
  The ways into the script (lines 411 to 459): \<^verbatim>\<open>main\<close>, which parses the
  command line and runs the one action it names; \<^verbatim>\<open>handle_cgi_post\<close>,
  which starts the Mailpile of the user a form names and answers with a
  redirect; and the choice between the two by \<^verbatim>\<open>REQUEST_METHOD\<close>.
\<close>

section \<open>The command line\<close>

definition main :: "world \<Rightarrow> unit io" where
  "main w =
     then_do (parse_args w app_arguments (argv w)) (\<lambda>parsed_args w1.
       if a_list parsed_args then list_mailpiles w1 parsed_args
       else if a_install_apache parsed_args then install_apache w1 parsed_args
       else if a_start parsed_args then start_mailpile w1 parsed_args
       else if a_stop parsed_args then stop_mailpile w1 parsed_args
       else (Inr (), w1))"

section \<open>The form\<close>

text \<open>The three lines of a redirect: two headers and the empty line that ends them.\<close>

definition print_redirect :: "world \<Rightarrow> string \<Rightarrow> world" where
  "print_redirect w location =
     print_line (print_line (print_line w (''Location: '' @ location)) ''Expires: 0'') []"

text \<open>
  Lines 430 to 446, what is inside \<^verbatim>\<open>try\<close>. \<^verbatim>\<open>getfirst\<close> gives \<open>None\<close>
  for a field that is not in the form, \<^verbatim>\<open>pwd.getpwnam\<close> raises
  \<^verbatim>\<open>KeyError\<close> for a name that is no account.
\<close>

definition cgi_start :: "world \<Rightarrow> unit io" where
  "cgi_start w =
     (let username = form w ''username'';
          password = form w ''password''
      in if \<not> (truthy username \<and> truthy password) then (Inl AssertionError, w)
         else if py_or username [] \<notin> set (accounts w)
         then (Inl (KeyError (''getpwnam(): name not found: '' @ py_or username [])), w)
         else
           then_do (parse_args (print_redirect w (''/mailpile/'' @ py_or username [] @ ''/''))
                      app_arguments
                      [''--start'', ''--user'', py_or username [], ''--password'', py_or password []])
             (\<lambda>parsed_args w1.
           then_do (start_mailpile w1 parsed_args) (\<lambda>rv w2. (Inr (), sleep w2 5))))"

text \<open>The bare \<^verbatim>\<open>except:\<close> takes every exception, \<^verbatim>\<open>SystemExit\<close> included.\<close>

definition handle_cgi_post :: "world \<Rightarrow> unit io" where
  "handle_cgi_post w =
     (case cgi_start w of
        (Inl e, w') \<Rightarrow> (Inr (), print_redirect w' ''/mailpile/?error=yes'')
      | (Inr u, w') \<Rightarrow> (Inr (), w'))"

section \<open>The choice\<close>

text \<open>Lines 454 to 459. \<^verbatim>\<open>len(sys.argv) == 1\<close> says that no word follows the name.\<close>

definition entry_point :: "world \<Rightarrow> unit io" where
  "entry_point w =
     (if request_method w = Some ''POST''
      then if argv w = [] then handle_cgi_post w else (Inl AssertionError, w)
      else main w)"

section \<open>Names for the form\<close>

text \<open>
  The namespace of a start from the form, the address of a user's Mailpile,
  and a form that passes the two checks: both fields filled in and the user
  an account.
\<close>

definition cgi_args :: "string \<Rightarrow> string \<Rightarrow> args" where
  "cgi_args u p = default_args\<lparr>a_start := True, a_user := Some u, a_password := Some p\<rparr>"

definition instance_path :: "string \<Rightarrow> string" where
  "instance_path u = ''/mailpile/'' @ u @ ''/''"

definition form_ok :: "world \<Rightarrow> string \<Rightarrow> string \<Rightarrow> bool" where
  "form_ok w u p \<longleftrightarrow>
     form w ''username'' = Some u \<and> u \<noteq> [] \<and> form w ''password'' = Some p \<and> p \<noteq> [] \<and>
     u \<in> set (accounts w)"

section \<open>The frame of an invocation\<close>

lemma framed_main:
  assumes "action_frame R" and "main w = (r, w')"
  shows "R w w'"
proof -
  note steps = action_frameD(3) [OF assms(1) parse_args_frame(1)]
    action_frameD(3) [OF assms(1) list_mailpiles_only_printed] framed_install_apache [OF assms(1)]
    framed_start_mailpile [OF assms(1)] framed_stop_mailpile [OF assms(1)]
  from assms(2) show ?thesis
    unfolding main_def
    by (auto elim!: then_doE split: if_splits dest!: steps)
      (blast intro: action_frameD(2) [OF assms(1)])+
qed

lemma only_printed_print_redirect [simp, intro]: "only_printed w (print_redirect w location)"
  unfolding print_redirect_def
  by (blast intro: only_printed_trans only_printed_print_line)

lemma stdout_print_redirect [simp]:
  "stdout (print_redirect w location) = stdout w @ [''Location: '' @ location, ''Expires: 0'', []]"
  by (simp add: print_redirect_def)

lemma framed_cgi_start:
  assumes "action_frame R" and "cgi_start w = (r, w')"
  shows "R w w'"
proof -
  note steps = action_frameD(3) [OF assms(1) parse_args_frame(1)] framed_start_mailpile [OF assms(1)]
  have "R w (print_redirect w l)" for l
    by (simp add: action_frameD(3) [OF assms(1)])
  with assms(2) show ?thesis
    unfolding cgi_start_def Let_def
    by (auto elim!: then_doE split: if_splits dest!: steps intro: action_frameD(1) [OF assms(1)])
      (blast intro: action_frameD(2) [OF assms(1)] action_frameD(7) [OF assms(1)])+
qed

lemma framed_handle_cgi_post:
  assumes "action_frame R" and "handle_cgi_post w = (r, w')"
  shows "R w w'"
proof -
  have "R w1 (print_redirect w1 l)" for w1 l
    by (simp add: action_frameD(3) [OF assms(1)])
  with assms(2) framed_cgi_start [OF assms(1), of w] show ?thesis
    unfolding handle_cgi_post_def
    by (auto split: prod.splits sum.splits intro: action_frameD(2) [OF assms(1)])
qed

lemma framed_entry_point:
  assumes "action_frame R" and "entry_point w = (r, w')"
  shows "R w w'"
  using assms(2)
  by (auto simp: entry_point_def split: if_splits
      dest: framed_handle_cgi_post [OF assms(1)] framed_main [OF assms(1)]
      intro: action_frameD(1) [OF assms(1)])

section \<open>Facts about the command line\<close>

lemma main_refused:
  assumes "parse_words app_arguments (argv w) = Inl e"
  shows "main w = (Inl e, if e = SystemExit 0 then print_help w else w)"
  using assms by (auto simp: main_def parse_args_def split: py_error.splits nat.splits)

text \<open>
  C13: \<^verbatim>\<open>main\<close> runs exactly the action the command line names. The order
  of its tests does not matter and the end of its chain is never reached,
  since a command line that is accepted names one action and no second.
\<close>

theorem main_runs_one_action:
  assumes "parse_words app_arguments (argv w) = Inr args"
  shows "main w =
    (if a_list args then list_mailpiles w args
     else if a_start args then start_mailpile w args
     else if a_stop args then stop_mailpile w args
     else install_apache w args)"
proof -
  from parse_words_action_count [OF assms]
  have "a_list args \<or> a_start args \<or> a_stop args \<or> a_install_apache args"
    and "a_install_apache args \<longrightarrow> \<not> a_start args \<and> \<not> a_stop args"
    by (auto simp: action_count_def split: if_splits)
  with assms show ?thesis
    by (auto simp: main_def parse_args_def)
qed

section \<open>Facts about the form\<close>

lemma parse_args_cgi:
  "parse_args w app_arguments [''--start'', ''--user'', u, ''--password'', p] =
     (if is_argument u \<and> is_argument p then Inr (cgi_args u p) else Inl (SystemExit 2), w)"
  by (simp add: parse_args_def parse_words_cgi cgi_args_def)

lemma cgi_start_unfold:
  assumes "form_ok w u p"
  shows "cgi_start w =
    (if is_argument u \<and> is_argument p
     then then_do (start_mailpile (print_redirect w (instance_path u)) (cgi_args u p))
            (\<lambda>rv w2. (Inr (), sleep w2 5))
     else (Inl (SystemExit 2), print_redirect w (instance_path u)))"
  using assms by (simp add: cgi_start_def form_ok_def parse_args_cgi instance_path_def)

lemma cgi_start_refused:
  assumes "\<not> (\<exists>u p. form_ok w u p)"
  shows "\<exists>e. cgi_start w = (Inl e, w)"
  using assms
  by (cases "form w ''username''"; cases "form w ''password''")
    (auto simp: cgi_start_def form_ok_def Let_def)

text \<open>Once the form has passed, the redirect to the user's Mailpile is out.\<close>

lemma cgi_start_stdout:
  assumes "form_ok w u p" and "cgi_start w = (r, w')"
  shows "\<exists>mid. stdout w' = stdout w @ [''Location: '' @ instance_path u, ''Expires: 0'', []] @ mid"
proof -
  let ?w1 = "print_redirect w (instance_path u)"
  note start = framed_start_mailpile [OF action_frame_only_acted]
  have "only_acted ?w1 w'"
    using assms(2) unfolding cgi_start_unfold [OF assms(1)]
    by (auto elim!: then_doE split: if_splits dest!: start
        intro: only_acted_trans [OF _ only_acted_sleep])
  then have "prefix (stdout ?w1) (stdout w')"
    by (rule only_actedD)
  then show ?thesis
    by (auto simp: prefix_def)
qed

text \<open>
  C11: The form can start the Mailpile of the user it names and nothing
  else. When the form has passed and both values are arguments to the
  parser, \<^verbatim>\<open>handle_cgi_post\<close> is \<^verbatim>\<open>start_mailpile\<close> for that user with
  that password behind the redirect to the user's Mailpile, followed by five
  seconds of sleep, or by the redirect to the error page when the start
  raises.
\<close>

theorem cgi_starts_named_user:
  assumes "form_ok w u p" and "is_argument u" and "is_argument p"
  shows "handle_cgi_post w =
    (Inr (), case start_mailpile (print_redirect w (instance_path u)) (cgi_args u p) of
               (Inl e, w') \<Rightarrow> print_redirect w' ''/mailpile/?error=yes''
             | (Inr rv, w') \<Rightarrow> sleep w' 5)"
  using assms
  by (simp add: handle_cgi_post_def cgi_start_unfold then_do_def split: prod.splits sum.splits)

text \<open>
  C39: A form without user name or password, or for a user that is no
  account, gets the redirect to the error page and nothing else: no command
  is run, no file written, nothing started.
\<close>

theorem cgi_rejects_unknown_account:
  assumes "\<not> (\<exists>u p. form_ok w u p)"
  shows "handle_cgi_post w = (Inr (), print_redirect w ''/mailpile/?error=yes'')"
  using cgi_start_refused [OF assms] by (auto simp: handle_cgi_post_def)

text \<open>
  C15: Every request is answered. \<^verbatim>\<open>handle_cgi_post\<close> returns, whatever
  the form, the accounts and the commands do, and the first three lines it
  prints are a complete redirect: a \<^verbatim>\<open>Location\<close> header, \<^verbatim>\<open>Expires\<close>,
  and the empty line.
\<close>

theorem cgi_always_answers:
  "\<exists>w' loc rest. handle_cgi_post w = (Inr (), w') \<and>
     stdout w' = stdout w @ [''Location: '' @ loc, ''Expires: 0'', []] @ rest"
proof (cases "\<exists>u p. form_ok w u p")
  case False
  then have "handle_cgi_post w = (Inr (), print_redirect w ''/mailpile/?error=yes'')"
    using cgi_start_refused [of w] by (auto simp: handle_cgi_post_def)
  then show ?thesis
    by (intro exI [of _ "print_redirect w ''/mailpile/?error=yes''"]
        exI [of _ "''/mailpile/?error=yes''"] exI [of _ "[]"]) simp
next
  case True
  then obtain u p where ok: "form_ok w u p"
    by blast
  obtain r w1 where c: "cgi_start w = (r, w1)"
    by force
  from cgi_start_stdout [OF ok c] obtain mid
    where mid: "stdout w1 = stdout w @ [''Location: '' @ instance_path u, ''Expires: 0'', []] @ mid"
    by blast
  show ?thesis
  proof (cases r)
    case (Inl e)
    with c mid show ?thesis
      by (intro exI [of _ "print_redirect w1 ''/mailpile/?error=yes''"] exI [of _ "instance_path u"]
          exI [of _ "mid @ [''Location: /mailpile/?error=yes'', ''Expires: 0'', []]"])
        (simp add: handle_cgi_post_def)
  next
    case (Inr x)
    with c mid show ?thesis
      by (intro exI [of _ w1] exI [of _ "instance_path u"] exI [of _ mid])
        (simp add: handle_cgi_post_def)
  qed
qed

text \<open>
  C17: A start that raises is answered with two redirects. The headers of
  the redirect to the user's Mailpile are printed before the start, so when
  the start raises, or the command line made of the form is refused, the
  redirect to the error page comes behind a complete redirect to the
  Mailpile that was not started, where it is the body of the response.
\<close>

theorem cgi_failed_start_redirects_twice:
  assumes "form_ok w u p" and "cgi_start w = (Inl e, w1)"
  shows "\<exists>mid. handle_cgi_post w = (Inr (), print_redirect w1 ''/mailpile/?error=yes'') \<and>
    stdout (print_redirect w1 ''/mailpile/?error=yes'') =
      stdout w @ [''Location: '' @ instance_path u, ''Expires: 0'', []] @ mid @
        [''Location: /mailpile/?error=yes'', ''Expires: 0'', []]"
proof -
  from cgi_start_stdout [OF assms] obtain mid
    where "stdout w1 = stdout w @ [''Location: '' @ instance_path u, ''Expires: 0'', []] @ mid"
    by blast
  with assms(2) show ?thesis
    by (intro exI [of _ mid]) (simp add: handle_cgi_post_def)
qed

section \<open>Closed instances\<close>

text \<open>
  A request for bob, who is an account, with a password that begins with a
  dash, and one with a password that does not.
\<close>

definition post_bob :: "string \<Rightarrow> world" where
  "post_bob password = quiet_world
     \<lparr>form := [''username'' \<mapsto> ''bob'', ''password'' \<mapsto> password],
      request_method := Some ''POST'', accounts := [''bre'', ''bob'']\<rparr>"

lemma form_ok_post_bob: "p \<noteq> [] \<Longrightarrow> form_ok (post_bob p) ''bob'' p"
  by (simp add: form_ok_def post_bob_def)

lemma is_argument_examples: "is_argument ''bob''" "is_argument ''secret''" "\<not> is_argument ''-secret''"
proof -
  have "re_match negative_number_re ''-secret'' = None"
    by (simp add: negative_number_re_def re_match_def py_defs)
  then show "\<not> is_argument ''-secret''"
    by (intro not_is_argument_dash) simp_all
qed (simp_all add: is_argument_plain)

theorem main_runs_one_action_witness:
  "main (quiet_world\<lparr>argv := [''--stop'', ''--force'']\<rparr>) =
     stop_mailpile (quiet_world\<lparr>argv := [''--stop'', ''--force'']\<rparr>)
       (default_args\<lparr>a_stop := True, a_force := True\<rparr>)"
proof -
  have "parse_words app_arguments [''--stop'', ''--force''] =
      Inr (default_args\<lparr>a_stop := True, a_force := True\<rparr>)"
    by (simp add: parse_words_def parse_known_args_def parse_optional_def app_arguments_def
        consume_defs default_args_def)
  with main_runs_one_action [of "quiet_world\<lparr>argv := [''--stop'', ''--force'']\<rparr>"
      "default_args\<lparr>a_stop := True, a_force := True\<rparr>"]
  show ?thesis
    by (simp add: default_args_def)
qed

theorem cgi_starts_named_user_witness:
  "handle_cgi_post (post_bob ''secret'') =
    (Inr (), case start_mailpile (print_redirect (post_bob ''secret'') (instance_path ''bob''))
                    (cgi_args ''bob'' ''secret'') of
               (Inl e, w') \<Rightarrow> print_redirect w' ''/mailpile/?error=yes''
             | (Inr rv, w') \<Rightarrow> sleep w' 5)"
  by (rule cgi_starts_named_user) (simp_all add: form_ok_post_bob is_argument_examples)

theorem cgi_rejects_unknown_account_witness:
  "handle_cgi_post quiet_world = (Inr (), print_redirect quiet_world ''/mailpile/?error=yes'')"
  by (rule cgi_rejects_unknown_account) (simp add: form_ok_def quiet_world_def)

theorem cgi_failed_start_redirects_twice_witness:
  "handle_cgi_post (post_bob ''-secret'') =
     (Inr (), (post_bob ''-secret'')\<lparr>stdout :=
        [''Location: /mailpile/bob/'', ''Expires: 0'', [],
         ''Location: /mailpile/?error=yes'', ''Expires: 0'', []]\<rparr>)"
proof -
  let ?w = "post_bob ''-secret''"
  have ok: "form_ok ?w ''bob'' ''-secret''"
    by (simp add: form_ok_post_bob)
  have "cgi_start ?w = (Inl (SystemExit 2), print_redirect ?w (instance_path ''bob''))"
    by (simp add: cgi_start_unfold [OF ok] is_argument_examples)
  from cgi_failed_start_redirects_twice [OF ok this] show ?thesis
    by (simp add: print_redirect_def print_line_def instance_path_def post_bob_def quiet_world_def)
qed

end
