(* ===== verification/Session.thy ===== *)
theory Session
  imports Entry
begin

text \<open>
  The life of the script on one machine: it is run again and again, from
  the command line by one user or another and by the web server for a
  form, and between the runs processes come and go. A run is
  \<^verbatim>\<open>entry_point\<close> in the world the last run has left, with the command line,
  the form and the user of this run. \<open>session\<close> is the worlds that can be
  reached in this way; what every run keeps is kept by every session.
\<close>

section \<open>Runs\<close>

text \<open>What a caller brings to a run.\<close>

record call =
  c_argv :: "string list"
  c_form :: "string \<rightharpoonup> string"
  c_method :: "string option"
  c_euid :: nat
  c_login :: string

definition called :: "call \<Rightarrow> world \<Rightarrow> world" where
  "called c w =
     w\<lparr>argv := c_argv c, form := c_form c, request_method := c_method c, euid := c_euid c,
       login := c_login c\<rparr>"

inductive session :: "world \<Rightarrow> world \<Rightarrow> bool" for w0 :: world where
  begun: "session w0 w0"
| run: "session w0 w \<Longrightarrow> entry_point (called c w) = (r, w') \<Longrightarrow> session w0 w'"
| processes: "session w0 w \<Longrightarrow> session w0 (w\<lparr>ps_output := ps, netstat_output := ns\<rparr>)"

section \<open>Facts\<close>

lemma called_frame [simp]:
  "stdout (called c w) = stdout w" "commands (called c w) = commands w"
  "expect_log (called c w) = expect_log w" "files (called c w) = files w"
  "shell (called c w) = shell w" "expect (called c w) = expect w"
  "accounts (called c w) = accounts w" "slept (called c w) = slept w"
  by (simp_all add: called_def)

lemma unrouted_called [simp]: "unrouted (called c w) \<longleftrightarrow> unrouted w"
  by (simp add: unrouted_def keeps_files_def)

lemma session_trans:
  assumes "session w1 w2" and "session w0 w1"
  shows "session w0 w2"
  using assms by (induction rule: session.induct) (auto intro: session.intros)

section \<open>What every session keeps\<close>


text \<open>
  C14: The script never makes its routing file. Where there is no routing
  file and no command writes one, there is none after any number of runs,
  whatever their command lines and forms: every save stops at
  \<^verbatim>\<open>os.remove\<close>, so no start with \<^verbatim>\<open>--user\<close> and no install ever records a
  route.
\<close>

theorem session_stays_unrouted:
  assumes "session w0 w" and "unrouted w0"
  shows "unrouted w"
  using assms
proof (induction rule: session.induct)
  case begun
  then show ?case by simp
next
  case (run w c r w')
  from framed_entry_point [OF action_frame_stays_unrouted run.hyps(2)] run.IH [OF run.prems]
  show ?case
    by (simp add: stays_unrouted_def)
next
  case (processes w ps ns)
  then show ?case
    by (simp add: unrouted_def keeps_files_def)
qed

section \<open>Closed instances\<close>

text \<open>A request for bob with a good password, on the quiet machine.\<close>

definition bob_posts :: call where
  "bob_posts =
     \<lparr>c_argv = [], c_form = [''username'' \<mapsto> ''bob'', ''password'' \<mapsto> ''secret''],
      c_method = Some ''POST'', c_euid = 33, c_login = ''www-data''\<rparr>"

lemma session_bob_posts: "session quiet_world (snd (entry_point (called bob_posts quiet_world)))"
  by (rule session.run [OF session.begun surjective_pairing])


theorem session_stays_unrouted_witness:
  "unrouted quiet_world \<and> unrouted (snd (entry_point (called bob_posts quiet_world)))"
proof -
  have "unrouted quiet_world"
    by (simp add: unrouted_def keeps_files_def quiet_world_def)
  with session_stays_unrouted [OF session_bob_posts] show ?thesis
    by simp
qed

end
