(* ===== verification/Spec2Isabelle.thy ===== *)
theory Spec2Isabelle
  imports Prelude Regex Escape World Instance ProcessSnapshot PortAllocator RouteStore Settings
    Lifecycle Listing Argparse CommandLine Entry Session
begin

text \<open>
  A model of \<^verbatim>\<open>src/scripts/mailpile-admin.py\<close>, the tool that makes Apache
  a front end for several Mailpiles on one machine, and proofs about it.

  \<^bold>\<open>The program.\<close> The script keeps no state of its own. What it knows it
  reads, on every run, from three places: the routing file
  \<^verbatim>\<open>/var/lib/mailpile/apache/.htaccess\<close>, with one \<^verbatim>\<open>RewriteRule\<close> per
  registered user; the process and socket tables, as \<^verbatim>\<open>ps\<close> and
  \<^verbatim>\<open>netstat\<close> print them; and one pid file per user. From the first two it
  builds the dictionary \<^verbatim>\<open>mailpiles\<close>, keyed by \<^verbatim>\<open>host:port\<close>. Its
  actions (\<^verbatim>\<open>--list\<close>, \<^verbatim>\<open>--start\<close>, \<^verbatim>\<open>--stop\<close>,
  \<^verbatim>\<open>--install-apache\<close>, and a CGI entry that starts a Mailpile on a POST)
  run lists of shell lines filled in from dictionaries of settings, and
  \<^verbatim>\<open>--start\<close> and \<^verbatim>\<open>--install-apache\<close> write the routing file again.

  \<^bold>\<open>The theories\<close>, in the order of their imports:

  \<^item> \<open>Prelude\<close>: results (\<open>Inl\<close> of a \<open>py_error\<close> is a raised
    exception), dictionaries as association lists in iteration order, and the
    methods of \<^verbatim>\<open>str\<close> the script calls.
  \<^item> \<open>Regex\<close>: the fragment of Python's \<^verbatim>\<open>re\<close> that the five patterns
    of the script are written in, as a backtracking matcher \<open>re_match\<close> that
    tries the alternatives in Python's order, with a relation \<open>matches\<close>
    saying what a match is and the proof that the matcher finds a match
    exactly when there is one.
  \<^item> \<open>Escape\<close>: \<^verbatim>\<open>_escape\<close> and \<^verbatim>\<open>_escaped\<close>, and
    \<^verbatim>\<open>template % dict\<close> as \<open>py_format\<close>.
  \<^item> \<open>World\<close>: what is outside the script, as the record \<open>world\<close>, and
    the library calls that read or change it. An operation of the script that
    has an effect takes a world and returns a result with the world it
    leaves, also when it raises. The frames \<open>only_printed\<close>,
    \<open>only_ran\<close> and \<open>only_acted\<close> say what an operation has left
    alone.
  \<^item> \<open>Instance\<close>: an entry of \<^verbatim>\<open>mailpiles\<close> as the record \<open>details\<close>,
    with the kind of sequence it is stored as, and the invariant
    \<open>registry_ok\<close>.
  \<^item> \<open>ProcessSnapshot\<close>: \<^verbatim>\<open>_parse_ps\<close>, \<^verbatim>\<open>_parse_netstat\<close>,
    \<^verbatim>\<open>discover_mailpiles\<close>.
  \<^item> \<open>PortAllocator\<close>: \<^verbatim>\<open>_get_random_port\<close>.
  \<^item> \<open>RouteStore\<close>: the templates of the routing file,
    \<^verbatim>\<open>parse_htaccess\<close>, \<^verbatim>\<open>save_htaccess\<close>.
  \<^item> \<open>Settings\<close>: the namespace \<open>args\<close> with the defaults of
    \<^verbatim>\<open>app_arguments\<close> as \<open>default_args\<close>, \<^verbatim>\<open>get_os_settings\<close>,
    \<^verbatim>\<open>get_user_settings\<close>.
  \<^item> \<open>Lifecycle\<close>: the scripts, \<^verbatim>\<open>run_script\<close>, \<^verbatim>\<open>_get_mailpiles\<close>,
    \<^verbatim>\<open>install_apache\<close>, \<^verbatim>\<open>run_as_user\<close>, \<^verbatim>\<open>start_mailpile\<close>,
    \<^verbatim>\<open>stop_mailpile\<close>, \<^verbatim>\<open>usage\<close>; and \<open>action_frame\<close>, the
    interface through which a relation between the world before and after a
    step is lifted to the actions.
  \<^item> \<open>Listing\<close>: \<^verbatim>\<open>list_mailpiles\<close> with the format of its table.
  \<^item> \<open>Argparse\<close>: \<^verbatim>\<open>parse_args\<close> of the \<^verbatim>\<open>argparse\<close> module, for any
    parser made of flags and options with one value; a library, as \<open>Regex\<close>
    is.
  \<^item> \<open>CommandLine\<close>: the parser \<^verbatim>\<open>app_arguments\<close> builds, as a table
    for \<open>Argparse\<close>.
  \<^item> \<open>Entry\<close>: \<^verbatim>\<open>main\<close>, \<^verbatim>\<open>handle_cgi_post\<close>, and the choice between
    them at the end of the script, \<open>entry_point\<close>.
  \<^item> \<open>Session\<close>: the worlds reached by running the script any number of
    times, as an inductive relation over \<open>entry_point\<close>.
  \<^item> this theory: what spans them (the registry as \<^verbatim>\<open>_get_mailpiles\<close>
    builds it, the port a start ends up with, the patterns and the matcher).

  \<^bold>\<open>How the model reads.\<close> A function of the script is a definition of
  its name (without a leading underscore), with the world as first argument if
  it has effects; \<^verbatim>\<open>args\<close> is passed where it is used. A definition that
  models part of a function says in the text before it which lines. Strings
  are Python 2 byte strings, \<^typ>\<open>string\<close>. A dictionary is the list of its
  items in iteration order; Python 2 leaves that order to the hash function,
  and what is proved for every list holds for every order. The loop over a
  generator in \<^verbatim>\<open>_get_random_port\<close> is a recursion that passes the rows
  not yet read from one try to the next. \<^verbatim>\<open>get_user_settings\<close> returns a
  record, its dictionary of strings is \<open>settings_dict\<close>.

  \<^bold>\<open>What is proved.\<close>
  \<^item> Routing file: the loop of \<^verbatim>\<open>save_htaccess\<close> writes the rule of the
    first entry of each user and warns once for every other entry
    (\<open>save_loop_first_per_user\<close>, \<open>save_loop_warnings\<close>); what the save
    leaves in the files, and that it fails where there was no routing file
    (\<open>save_htaccess_replaces\<close>, \<open>save_htaccess_needs_file\<close>); a rule
    written for a user that starts with a letter is read back as it was
    (\<open>parse_rule_roundtrip\<close>), one for a user that starts with a digit is
    not (\<open>digit_user_not_restored\<close>).
  \<^item> Discovery: it keeps the registry well formed, never changes whose an
    entry is, and adds unregistered tuples only; it raises where a tool is
    missing and where it meets a tuple of its own.
  \<^item> Ports: a port returned at the first try collides with no socket
    listed; every port is in 34110..64110 and the tries are at most 100, each
    failed one having read a row; a hundred colliding rows do exhaust the
    tries; a later try can return a port that is taken
    (\<open>stale_scan_returns_taken_port\<close>).
  \<^item> Settings: the pid file is directly inside the pid directory, a user
    name with \<^verbatim>\<open>.\<close> or \<^verbatim>\<open>/\<close> is refused, the lowest registered port
    is reused, and a port the tool chose is a string of digits.
  \<^item> Actions: \<^verbatim>\<open>run_script\<close> stops at the first command that fails; a
    start that returns has rewritten the routing file, whether the launch
    succeeded or not; a port that is not a number ends the start before
    anything is run; \<^verbatim>\<open>--host\<close> is ignored; a stop without pid file runs
    nothing and never writes a file, but needs \<^verbatim>\<open>netstat\<close>; installing is
    refused to anyone but root.
  \<^item> Escaping: \<^verbatim>\<open>_escape\<close> is injective and cannot close a double-quoted
    word; it leaves the operators of the shell and of patterns alone.
  \<^item> Command line: a command line that is accepted names exactly one action
    (\<open>parse_args_one_action\<close>, by an invariant of the second pass of the
    parser that the table of \<^verbatim>\<open>app_arguments\<close> keeps), so \<^verbatim>\<open>main\<close> runs
    that action whatever the order of its tests (\<open>main_runs_one_action\<close>).
  \<^item> The form: the five words \<^verbatim>\<open>handle_cgi_post\<close> makes of it parse to a
    start for the named user or are refused, so the form starts that user's
    Mailpile or nothing (\<open>cgi_starts_named_user\<close>,
    \<open>cgi_rejects_unknown_account\<close>); every request is answered with a
    complete redirect (\<open>cgi_always_answers\<close>), but a start that raises
    with two (\<open>cgi_failed_start_redirects_twice\<close>).
  \<^item> The table: \<^verbatim>\<open>--list\<close> prints heading and rows in the order of the
    sorted keys (\<open>list_mailpiles_table\<close>) and always discovers
    (\<open>list_always_discovers\<close>).
  \<^item> Sessions: over any number of runs the output and the commands run only
    grow (\<open>session_log_grows\<close>), and a machine without routing file
    never gets one from the script (\<open>session_stays_unrouted\<close>). Both are
    instances of \<open>framed_entry_point\<close>: a relation that the steps keep
    holds across a run.
  \<^item> Ports again: with fewer than a hundred sockets the allocator returns
    (\<open>returns_port_within_rows\<close>).
  \<^item> Patterns: on the five patterns the matcher finds a match exactly when
    the declarative reading has one (\<open>patterns_match_declaratively\<close>).

  \<^bold>\<open>Bounds.\<close> The model has no fuel: every definition is a total
  function, the recursions are over the lists they consume (the words of the
  command line, the characters of a cluster of short options, the keys of
  the table), and the loop over the tries counts down from the 100 of
  \<^verbatim>\<open>range(0, 100)\<close>. The range of
  ports is that of \<^verbatim>\<open>random.randint(34110, 64110)\<close>. The random source
  is any function from the number of the draw to a natural number, folded
  into the range, so a statement for every world is one for every sequence of
  draws.

  \<^bold>\<open>What is assumed of the outside.\<close> The shell is a function from a
  command line and the files to an exit status and the files it leaves; the
  \<^verbatim>\<open>expect\<close> child is a function from its script to its output, and what it
  does to the files is outside the model. \<^verbatim>\<open>ps\<close> and \<^verbatim>\<open>netstat\<close>
  print the same text as often as they are asked within one run; between the
  runs of a session they may change. Files have no permissions and no
  directories: a path is there or not. The form is a map from the names of
  its fields to their first values, the accounts are a list of names. Runs
  follow one another: nothing is said about two runs at once. What
  \<^verbatim>\<open>argparse\<close> writes to standard error is not modelled, its exit
  statuses and what it prints on standard output are.

  \<^bold>\<open>What is not modelled.\<close> Every function of the script is
  modelled. Of the libraries it calls, each is modelled as far as the script
  uses it: the regular expressions and the string formatting of Python for
  the patterns and directives of the script, \<^verbatim>\<open>argparse\<close> for parsers
  without positional arguments and subparsers, \<^verbatim>\<open>cgi.FieldStorage\<close> as
  the first value of a field. Two variables of \<^verbatim>\<open>list_mailpiles\<close> that
  are written and never read (\<^verbatim>\<open>user_counts\<close>, \<^verbatim>\<open>status\<close>) are left
  out. The iteration order of a dictionary, which Python 2 takes from the
  hash of the keys, is not computed: the order of the association list
  stands for it.
\<close>

section \<open>The registry\<close>

text \<open>
  What reading the routing file and discovery depend on: the files and what
  \<^verbatim>\<open>ps\<close> and \<^verbatim>\<open>netstat\<close> print. Printing does not change them.
\<close>

lemma parse_htaccess_only_printed_eq:
  "only_printed w w' \<Longrightarrow> fst (parse_htaccess w' mp) = fst (parse_htaccess w mp)"
  by (simp add: parse_htaccess_def read_file_def only_printedD split: option.splits)

lemma discover_only_printed_eq:
  "only_printed w w' \<Longrightarrow> discover_mailpiles w' mp = discover_mailpiles w mp"
  by (simp add: discover_mailpiles_def parse_ps_def parse_netstat_def only_printedD)

lemma get_mailpiles_world [simp]: "snd (get_mailpiles w args) = snd (parse_htaccess w [])"
  by (simp add: get_mailpiles_def Let_def)

text \<open>
  C21: Building the registry keeps it well formed: what \<^verbatim>\<open>_get_mailpiles\<close>
  returns has distinct keys, each entry under its own \<^verbatim>\<open>host:port\<close>,
  with or without discovery, and building it has printed at most a warning.
\<close>

theorem get_mailpiles_registry_ok:
  assumes "get_mailpiles w args = (Inr mp, w')"
  shows "registry_ok mp \<and> only_printed w w'"
proof -
  let ?mp = "fst (parse_htaccess w [])"
  have parsed: "registry_ok ?mp"
    by (simp add: parse_htaccess_def fold_parse_line_registry_ok split: sum.splits)
  have "registry_ok mp"
  proof (cases "a_discover args")
    case True
    with assms have "discover_mailpiles (snd (parse_htaccess w [])) ?mp = Inr mp"
      by (auto simp: get_mailpiles_def Let_def)
    then obtain ps ns where "rfold merge_process (processes_of ps ns) ?mp = Inr mp"
      by (blast dest: discover_InrD)
    then show ?thesis
      using parsed by (rule rfold_invariant) (auto intro: merge_process_registry_ok)
  next
    case False
    with assms parsed show ?thesis
      by (simp add: get_mailpiles_def Let_def)
  qed
  moreover from assms have "w' = snd (parse_htaccess w [])"
    using get_mailpiles_world [of w args] by simp
  ultimately show ?thesis
    by simp
qed

text \<open>
  Building the registry twice gives the same registry: the second
  \<^verbatim>\<open>_get_mailpiles\<close>, run in the world the first has left, returns what the
  first returned.
\<close>

theorem get_mailpiles_idempotent:
  "fst (get_mailpiles (snd (get_mailpiles w args)) args) = fst (get_mailpiles w args)"
proof -
  let ?w = "snd (parse_htaccess w [])"
  have 1: "only_printed w ?w"
    by simp
  then have 2: "only_printed w (snd (parse_htaccess ?w []))"
    by (rule only_printed_trans) simp
  show ?thesis
    by (simp add: get_mailpiles_def Let_def parse_htaccess_only_printed_eq [OF 1]
        discover_only_printed_eq [OF 1] discover_only_printed_eq [OF 2])
qed

section \<open>The port of a start\<close>

text \<open>
  C31: A port that the tool chose itself always passes the check of
  \<^verbatim>\<open>start_mailpile\<close>: without \<^verbatim>\<open>--port\<close>, the port of the settings,
  whether reused from the registry or drawn by \<^verbatim>\<open>_get_random_port\<close>,
  matches \<^verbatim>\<open>^[0-9]+$\<close>, and the host matches \<^verbatim>\<open>^[a-z0-9\.]+$\<close>.
\<close>

theorem chosen_port_passes_validation:
  assumes "\<not> truthy (a_port args)" and "get_user_settings w args user mailpiles = (Inr us, w')"
  shows "re_match port_re (us_port us) \<noteq> None \<and> re_match host_re (us_host us) \<noteq> None"
proof -
  from choose_port_digits [OF assms(1) get_user_settings_InrD(4) [OF assms(2)]]
  have "re_match port_re (us_port us) \<noteq> None"
    unfolding port_re_iff by blast
  moreover have "re_match host_re ''127.0.0.1'' \<noteq> None"
    by (simp add: host_re_def re_match_def py_defs less_eq_char_def)
  ultimately show ?thesis
    by (simp add: get_user_settings_InrD(5) [OF assms(2)])
qed

section \<open>The patterns\<close>


section \<open>Closed instances\<close>

lemma get_mailpiles_spec_example:
  "get_mailpiles spec_example (default_args\<lparr>a_discover := True\<rparr>) = (Inr alice_and_bob, spec_example)"
  by (simp add: get_mailpiles_def parse_htaccess_spec_example discover_spec_example)

theorem get_mailpiles_registry_ok_witness:
  "registry_ok alice_and_bob \<and> only_printed spec_example spec_example"
  by (rule get_mailpiles_registry_ok [OF get_mailpiles_spec_example])

theorem chosen_port_passes_validation_witness:
  "re_match port_re ''8080'' \<noteq> None \<and> re_match host_re ''127.0.0.1'' \<noteq> None"
  using chosen_port_passes_validation [OF _ get_user_settings_bob_twice]
  by (simp add: default_args_def)

text \<open>
  The example of the specification comes out as specified. With
  discovery, \<^verbatim>\<open>_get_mailpiles\<close> returns two entries: alice at \<^verbatim>\<open>h:1\<close>,
  registered, with pid 100, and bob at \<^verbatim>\<open>h:2\<close>, not registered, with pid
  200.
\<close>

theorem reconciliation_union_example:
  "fst (get_mailpiles spec_example (default_args\<lparr>a_discover := True\<rparr>)) =
     Inr [(''h:1'', \<lparr>m_user = ''alice'', m_host = ''h'', m_port = ''1'', m_in_htaccess = True,
                     m_pid = Some ''100'', m_rss = Some ''2000'', m_kind = PyList\<rparr>),
          (''h:2'', \<lparr>m_user = ''bob'', m_host = ''h'', m_port = ''2'', m_in_htaccess = False,
                     m_pid = Some ''200'', m_rss = Some ''3000'', m_kind = PyTuple\<rparr>)]"
  by (simp add: get_mailpiles_spec_example alice_and_bob_def)

end
